theory Spec2Isabelle
  imports Main "HOL-Library.AList"
begin

section \<open>JavaScript values\<close>

text \<open>
  The scripts move JSON data between an HTTP source and a PocketBase store. A JavaScript
  value is one of the JSON shapes or \<open>undefined\<close>. Numbers are modelled as integers: the
  scripts only copy and compare them (and count pages), and a number decoded from JSON is
  never NaN.
\<close>

datatype jsval =
    JUndefined
  | JNull
  | JBool bool
  | JNum int
  | JStr string
  | JArr "jsval list"
  | JObj "(string \<times> jsval) list"

type_synonym obj = "(string \<times> jsval) list"

text \<open>\<open>o.k\<close> on an object: the value of the property, \<open>undefined\<close> when it is absent.\<close>

definition jget :: "obj \<Rightarrow> string \<Rightarrow> jsval" where
  "jget ob k = (case map_of ob k of None \<Rightarrow> JUndefined | Some v \<Rightarrow> v)"

text \<open>
  \<open>v.k\<close> on a value that is neither \<open>null\<close> nor \<open>undefined\<close>. Only the data properties of
  objects are modelled; a primitive has none of the property names the scripts read.
\<close>

fun member :: "jsval \<Rightarrow> string \<Rightarrow> jsval" where
  "member (JObj ob) k = jget ob k"
| "member _ k = JUndefined"

text \<open>\<open>v?.k\<close>: optional chaining.\<close>

definition opt_member :: "jsval \<Rightarrow> string \<Rightarrow> jsval" where
  "opt_member v k = (if v = JUndefined \<or> v = JNull then JUndefined else member v k)"

text \<open>Truthiness, as \<open>if (v)\<close>, \<open>!v\<close>, \<open>a && b\<close> and \<open>a || b\<close> use it.\<close>

fun truthy :: "jsval \<Rightarrow> bool" where
  "truthy JUndefined = False"
| "truthy JNull = False"
| "truthy (JBool b) = b"
| "truthy (JNum n) = (n \<noteq> 0)"
| "truthy (JStr s) = (s \<noteq> [])"
| "truthy (JArr xs) = True"
| "truthy (JObj ob) = True"

text \<open>
  \<open>a !== b\<close> where \<open>a\<close> was decoded from a store response and \<open>b\<close> comes from the source
  or a cache: primitives are compared by type and value, and two objects or arrays decoded
  from different responses are never the same reference.
\<close>

fun strict_neq :: "jsval \<Rightarrow> jsval \<Rightarrow> bool" where
  "strict_neq (JArr xs) b = True"
| "strict_neq (JObj ob) b = True"
| "strict_neq a b = (a \<noteq> b)"

text \<open>Decimal rendering of a number, as a template literal prints it.\<close>

fun digit_char :: "nat \<Rightarrow> char" where
  "digit_char n = char_of (48 + n)"

fun string_of_nat :: "nat \<Rightarrow> string" where
  "string_of_nat n =
     (if n < 10 then [digit_char n]
      else string_of_nat (n div 10) @ [digit_char (n mod 10)])"

declare string_of_nat.simps [simp del]

definition string_of_int :: "int \<Rightarrow> string" where
  "string_of_int i = (if i < 0 then CHR ''-'' # string_of_nat (nat (- i)) else string_of_nat (nat i))"

fun join_comma :: "string list \<Rightarrow> string" where
  "join_comma [] = []"
| "join_comma [s] = s"
| "join_comma (s # t # ss) = s @ '','' @ join_comma (t # ss)"

text \<open>\<open>`${v}`\<close>: the string a template literal makes of a value.\<close>

fun to_string :: "jsval \<Rightarrow> string" where
  "to_string JUndefined = ''undefined''"
| "to_string JNull = ''null''"
| "to_string (JBool b) = (if b then ''true'' else ''false'')"
| "to_string (JNum n) = string_of_int n"
| "to_string (JStr s) = s"
| "to_string (JArr xs) =
     join_comma (map (\<lambda>x. if x = JUndefined \<or> x = JNull then [] else to_string x) xs)"
| "to_string (JObj ob) = ''[object Object]''"

section \<open>The PocketBase client\<close>

text \<open>
  The client library is not part of the repository. It is modelled as an in-memory store
  with the behaviour the scripts rely on:
  \<^item> a collection is a list of records, each an object with an \<open>id\<close> property;
  \<^item> \<open>getFirstListItem\<close> takes the filter as the text the script wrote. The server reads
    the two shapes the scripts write, \<open>field="text"\<close> and \<open>field=number\<close>, returns the first
    record whose field has that text, and fails with status 404 when there is none and with
    status 400 when it cannot read the filter;
  \<^item> the body of \<open>create\<close> and \<open>update\<close> is sent as JSON, which omits every property whose
    value is \<open>undefined\<close>; \<open>create\<close> appends a record with a fresh id, \<open>update\<close> overwrites
    the properties of the body on the record with the given id and keeps the others;
  \<^item> any call may instead fail with an error response: \<open>fault\<close> gives the response of the
    server to a call when it is not a success;
  \<^item> every call is recorded in \<open>calls\<close>, oldest first.
\<close>

datatype pberr = PbErr (status: int) (message: string)

datatype pbcall =
    AuthUsers string string
  | AuthAdmins string string
  | GetFirstListItem string string
  | GetFullList string
  | GetList string nat nat
  | Create string obj
  | Update string jsval obj

record pocketbase =
  isValid :: bool
  colls :: "string \<Rightarrow> obj list"
  fresh :: nat
  fault :: "pbcall \<Rightarrow> pberr option"
  calls :: "pbcall list"

definition request :: "pocketbase \<Rightarrow> pbcall \<Rightarrow> pocketbase" where
  "request pb c = pb\<lparr>calls := calls pb @ [c]\<rparr>"

definition json_body :: "obj \<Rightarrow> obj" where
  "json_body body = filter (\<lambda>kv. snd kv \<noteq> JUndefined) body"

fun assign :: "obj \<Rightarrow> obj \<Rightarrow> obj" where
  "assign r [] = r"
| "assign r (kv # body) = assign (AList.update (fst kv) (snd kv) r) body"

definition mk_id :: "nat \<Rightarrow> jsval" where
  "mk_id n = JStr (CHR ''r'' # string_of_nat n)"

definition authWithPassword_users ::
  "pocketbase \<Rightarrow> string \<Rightarrow> string \<Rightarrow> (pberr + unit) \<times> pocketbase" where
  "authWithPassword_users pb email password =
     (let c = AuthUsers email password; pb' = request pb c in
      case fault pb c of
        Some err \<Rightarrow> (Inl err, pb')
      | None \<Rightarrow> (Inr (), pb'\<lparr>isValid := True\<rparr>))"

definition authWithPassword_admins ::
  "pocketbase \<Rightarrow> string \<Rightarrow> string \<Rightarrow> (pberr + unit) \<times> pocketbase" where
  "authWithPassword_admins pb email password =
     (let c = AuthAdmins email password; pb' = request pb c in
      case fault pb c of
        Some err \<Rightarrow> (Inl err, pb')
      | None \<Rightarrow> (Inr (), pb'\<lparr>isValid := True\<rparr>))"

text \<open>
  The filter as the server reads it. The text before the first \<open>=\<close> is the field. What
  follows is a literal: a text between double quotes that holds neither a double quote nor
  a backslash, or a decimal number. A filter of any other shape is not interpreted: the
  answer is the status 400 of a filter that cannot be parsed (a key that holds a double
  quote can also make a filter of another shape; the model does not follow it there).
\<close>

definition plain :: "string \<Rightarrow> bool" where
  "plain s = list_all (\<lambda>c. c \<noteq> CHR 0x22 \<and> c \<noteq> CHR 0x5C) s"

definition digits :: "string \<Rightarrow> bool" where
  "digits s = (s \<noteq> [] \<and> list_all (\<lambda>c. c \<in> set ''0123456789'') s)"

fun literal :: "string \<Rightarrow> string option" where
  "literal [] = None"
| "literal (c # cs) =
     (if c = CHR 0x22
      then (if cs \<noteq> [] \<and> last cs = CHR 0x22 \<and> plain (butlast cs) then Some (butlast cs) else None)
      else if c = CHR ''-'' then (if digits cs then Some (c # cs) else None)
      else if digits (c # cs) then Some (c # cs)
      else None)"

definition parse_filter :: "string \<Rightarrow> (string \<times> string) option" where
  "parse_filter flt =
     (let f = takeWhile (\<lambda>c. c \<noteq> CHR ''='') flt in
      if f = [] \<or> length f = length flt then None
      else map_option (Pair f) (literal (drop (Suc (length f)) flt)))"

text \<open>
  The text a stored value is compared by: a string is its text and a number its decimal
  rendering, so that the literal \<open>1\<close> selects the number 1 and the string \<open>"1"\<close> alike. A
  field that is absent, \<open>null\<close> or of another shape is selected by no literal.
\<close>

fun field_text :: "jsval \<Rightarrow> string option" where
  "field_text (JStr s) = Some s"
| "field_text (JNum n) = Some (string_of_int n)"
| "field_text v = None"

definition lookup :: "obj list \<Rightarrow> string \<Rightarrow> pberr + obj" where
  "lookup records flt =
     (case parse_filter flt of
        None \<Rightarrow> Inl (PbErr 400 ''Something went wrong while processing your request.'')
      | Some (f, t) \<Rightarrow>
          (case find (\<lambda>r. field_text (jget r f) = Some t) records of
             None \<Rightarrow> Inl (PbErr 404 ''The requested resource wasn't found.'')
           | Some r \<Rightarrow> Inr r))"

definition getFirstListItem ::
  "pocketbase \<Rightarrow> string \<Rightarrow> string \<Rightarrow> (pberr + obj) \<times> pocketbase" where
  "getFirstListItem pb coll flt =
     (let c = GetFirstListItem coll flt; pb' = request pb c in
      case fault pb c of
        Some err \<Rightarrow> (Inl err, pb')
      | None \<Rightarrow> (lookup (colls pb coll) flt, pb'))"

definition getFullList :: "pocketbase \<Rightarrow> string \<Rightarrow> (pberr + obj list) \<times> pocketbase" where
  "getFullList pb coll =
     (let c = GetFullList coll; pb' = request pb c in
      case fault pb c of
        Some err \<Rightarrow> (Inl err, pb')
      | None \<Rightarrow> (Inr (colls pb coll), pb'))"

text \<open>\<open>getList(page, perPage)\<close>, pages counted from 1; the scripts read \<open>list.items\<close>.\<close>

definition getList ::
  "pocketbase \<Rightarrow> string \<Rightarrow> nat \<Rightarrow> nat \<Rightarrow> (pberr + obj list) \<times> pocketbase" where
  "getList pb coll page perPage =
     (let c = GetList coll page perPage; pb' = request pb c in
      case fault pb c of
        Some err \<Rightarrow> (Inl err, pb')
      | None \<Rightarrow> (Inr (take perPage (drop ((page - 1) * perPage) (colls pb coll))), pb'))"

definition create :: "pocketbase \<Rightarrow> string \<Rightarrow> obj \<Rightarrow> (pberr + obj) \<times> pocketbase" where
  "create pb coll body =
     (let c = Create coll body; pb' = request pb c in
      case fault pb c of
        Some err \<Rightarrow> (Inl err, pb')
      | None \<Rightarrow>
          (let r = (''id'', mk_id (fresh pb)) # json_body body in
           (Inr r, pb'\<lparr>colls := (colls pb)(coll := colls pb coll @ [r]),
                       fresh := Suc (fresh pb)\<rparr>)))"

fun update_first :: "jsval \<Rightarrow> obj \<Rightarrow> obj list \<Rightarrow> obj list" where
  "update_first rid body [] = []"
| "update_first rid body (r # rs) =
     (if jget r ''id'' = rid then assign r body # rs else r # update_first rid body rs)"

definition update ::
  "pocketbase \<Rightarrow> string \<Rightarrow> jsval \<Rightarrow> obj \<Rightarrow> (pberr + obj) \<times> pocketbase" where
  "update pb coll rid body =
     (let c = Update coll rid body; pb' = request pb c in
      case fault pb c of
        Some err \<Rightarrow> (Inl err, pb')
      | None \<Rightarrow>
          (case find (\<lambda>r. jget r ''id'' = rid) (colls pb coll) of
             None \<Rightarrow> (Inl (PbErr 404 ''The requested resource wasn't found.''), pb')
           | Some r \<Rightarrow>
               (Inr (assign r (json_body body)),
                pb'\<lparr>colls := (colls pb)(coll := update_first rid (json_body body) (colls pb coll))\<rparr>)))"

section \<open>pb.js: the authenticator\<close>

text \<open>
  Exceptions other than the responses of the store: \<open>new Error(message)\<close>, which the scripts
  construct themselves, and the \<open>TypeError\<close> of reading a property of \<open>null\<close> or \<open>undefined\<close>.
\<close>

datatype jserror = Error (error_message: string) | TypeError (error_message: string)

text \<open>\<open>CONFIG\<close> of pb.js; the module exits at load time when a credential is missing.\<close>

record config =
  EMAIL :: string
  PASSWORD :: string

text \<open>
  \<open>authenticate\<close> returns the client itself; in the model the client is the state that is
  handed back, and the result is the thrown error or nothing.
\<close>

definition authenticate :: "config \<Rightarrow> pocketbase \<Rightarrow> (jserror + unit) \<times> pocketbase" where
  "authenticate cfg pb =
     (if isValid pb then (Inr (), pb)
      else
        (case authWithPassword_users pb (EMAIL cfg) (PASSWORD cfg) of
           (Inr u, pb1) \<Rightarrow> (Inr (), pb1)
         | (Inl userAuthError, pb1) \<Rightarrow>
             (case authWithPassword_admins pb1 (EMAIL cfg) (PASSWORD cfg) of
                (Inr u, pb2) \<Rightarrow> (Inr (), pb2)
              | (Inl err, pb2) \<Rightarrow>
                  (Inl (Error (''Authentication Failed: '' @ message err)), pb2))))"


section \<open>Shared shapes of the sync scripts\<close>

text \<open>
  Every script is a copy of one template. The pieces that are textually the same in all
  copies are defined once here; each script below supplies its own collection, payload,
  natural key and compared fields, in the order of its source.
\<close>

datatype verdict = Created | Updated | Skipped | Failed

text \<open>A relation cache: \<open>null\<close> before the first use, a \<open>Map\<close> afterwards.\<close>

type_synonym cache = "(jsval \<rightharpoonup> jsval) option"

text \<open>
  \<open>cache.get(k)\<close>. A \<open>Map\<close> compares its keys as \<open>===\<close> does: an object or an array is a key
  only for itself, so that one which was decoded from the source is never found among keys
  which were decoded from a response of the store.
\<close>

fun primitive :: "jsval \<Rightarrow> bool" where
  "primitive (JArr xs) = False"
| "primitive (JObj ob) = False"
| "primitive v = True"

definition map_get :: "(jsval \<rightharpoonup> jsval) \<Rightarrow> jsval \<Rightarrow> jsval" where
  "map_get m k = (if primitive k then (case m k of None \<Rightarrow> JUndefined | Some v \<Rightarrow> v) else JUndefined)"

text \<open>\<open>for (const record of records) cache.set(record.name, record.id)\<close>\<close>

definition cache_names :: "obj list \<Rightarrow> (jsval \<rightharpoonup> jsval)" where
  "cache_names records = foldl (\<lambda>m r. m(jget r ''name'' \<mapsto> jget r ''id'')) Map.empty records"

text \<open>
  The filters are template literals. \<open>quoted s\<close> is \<open>s\<close> between double quotes, and
  \<open>`name="${v}"`\<close> is the filter of every script that looks a record up by its name.
\<close>

definition quoted :: "string \<Rightarrow> string" where
  "quoted s = CHR 0x22 # s @ [CHR 0x22]"

definition name_filter :: "jsval \<Rightarrow> string" where
  "name_filter v = ''name='' @ quoted (to_string v)"

text \<open>\<open>`party="${v}"`\<close> (partylist results) and \<open>`number=${v}`\<close> (referendum).\<close>

definition party_filter :: "jsval \<Rightarrow> string" where
  "party_filter v = ''party='' @ quoted (to_string v)"

definition number_filter :: "jsval \<Rightarrow> string" where
  "number_filter v = ''number='' @ to_string v"

text \<open>
  The inner \<open>try\<close> of every \<open>syncItem\<close>:
  \<^verbatim>\<open>try { existing = await pb.collection(C).getFirstListItem(filter); }
  catch (err) { if (err.status !== 404) throw err; }\<close>
\<close>

definition find_existing ::
  "pocketbase \<Rightarrow> string \<Rightarrow> string \<Rightarrow> (pberr + obj option) \<times> pocketbase" where
  "find_existing pb coll flt =
     (case getFirstListItem pb coll flt of
        (Inr r, pb') \<Rightarrow> (Inr (Some r), pb')
      | (Inl err, pb') \<Rightarrow> (if status err \<noteq> 404 then (Inl err, pb') else (Inr None, pb')))"

text \<open>
  \<open>await pb.collection(C).update(id, payload); return 'updated';\<close> and
  \<open>await pb.collection(C).create(payload); return 'created';\<close> inside the outer \<open>try\<close>,
  whose \<open>catch\<close> returns \<open>'failed'\<close>.
\<close>

definition try_update :: "pocketbase \<Rightarrow> string \<Rightarrow> jsval \<Rightarrow> obj \<Rightarrow> verdict \<times> pocketbase" where
  "try_update pb coll rid payload =
     (case update pb coll rid payload of
        (Inr r, pb') \<Rightarrow> (Updated, pb')
      | (Inl err, pb') \<Rightarrow> (Failed, pb'))"

definition try_create :: "pocketbase \<Rightarrow> string \<Rightarrow> obj \<Rightarrow> verdict \<times> pocketbase" where
  "try_create pb coll payload =
     (case create pb coll payload of
        (Inr r, pb') \<Rightarrow> (Created, pb')
      | (Inl err, pb') \<Rightarrow> (Failed, pb'))"

text \<open>\<open>existing.f1 !== payload.f1 || existing.f2 !== payload.f2 || ...\<close>\<close>

definition isChanged :: "string list \<Rightarrow> obj \<Rightarrow> obj \<Rightarrow> bool" where
  "isChanged fs existing payload =
     list_ex (\<lambda>f. strict_neq (jget existing f) (jget payload f)) fs"

text \<open>
  The template of \<open>syncItem\<close> after the payload is built: look the record up by its natural
  key, compare the fields the script compares, then update, skip or create. The scripts
  below are written out as in their sources; the section on properties shows which of them
  are instances of this template, so that its properties carry over.
\<close>

definition reconcile ::
  "pocketbase \<Rightarrow> string \<Rightarrow> string \<Rightarrow> string list \<Rightarrow> obj \<Rightarrow> bool \<Rightarrow> verdict \<times> pocketbase" where
  "reconcile pb coll flt fs payload creates =
     (case find_existing pb coll flt of
        (Inl err, pb2) \<Rightarrow> (Failed, pb2)
      | (Inr (Some existing), pb2) \<Rightarrow>
          (if isChanged fs existing payload
           then try_update pb2 coll (jget existing ''id'') payload
           else (Skipped, pb2))
      | (Inr None, pb2) \<Rightarrow>
          (if creates then try_create pb2 coll payload else (Skipped, pb2)))"

text \<open>The counters, an object literal such as \<open>{ created: 0, updated: 0, skipped: 0, failed: 0 }\<close>.\<close>

type_synonym stats = "(string \<times> nat) list"

definition incr :: "string \<Rightarrow> stats \<Rightarrow> stats" where
  "incr k st = map (\<lambda>kv. if fst kv = k then (k, Suc (snd kv)) else kv) st"

definition counter :: "stats \<Rightarrow> string \<Rightarrow> nat" where
  "counter st k = (case map_of st k of None \<Rightarrow> 0 | Some n \<Rightarrow> n)"

text \<open>
  \<open>if (result === 'created') stats.created++; else if (result === 'updated') stats.updated++;
  else if (result === 'skipped') stats.skipped++; else stats.failed++;\<close>
\<close>

definition tally :: "stats \<Rightarrow> verdict \<Rightarrow> stats" where
  "tally st result =
     (if result = Created then incr ''created'' st
      else if result = Updated then incr ''updated'' st
      else if result = Skipped then incr ''skipped'' st
      else incr ''failed'' st)"

text \<open>
  \<open>for (const item of items) { const result = await syncItem(pb, item); ... }\<close>: the items
  are reconciled one after the other, each on the state the previous one left. The model
  returns the verdicts in order; the counters are the tally of that list.
\<close>

fun sync_items :: "('s \<Rightarrow> obj \<Rightarrow> verdict \<times> 's) \<Rightarrow> 's \<Rightarrow> obj list \<Rightarrow> verdict list \<times> 's" where
  "sync_items f s [] = ([], s)"
| "sync_items f s (item # items) =
     (case f s item of
        (result, s1) \<Rightarrow> (case sync_items f s1 items of (results, s2) \<Rightarrow> (result # results, s2)))"

text \<open>
  One response of the source API, after \<open>const data = response.data.data\<close>: the entity array
  of the script (\<open>data.parties\<close>, \<open>data.candidates\<close>, ...), when present, and
  \<open>data.pagination.totalPages\<close>: absent (also when \<open>data.pagination\<close> is), \<open>null\<close> or a
  number; other JSON shapes of it are not modelled. The source is a function of the page
  number: the loop asks for each page at most once. \<open>Inl\<close> is the message of the transport or
  HTTP error.
\<close>

datatype total = NoTotal | NullTotal | TotalNum int

record response =
  listing :: "obj list option"
  totalPages :: total

type_synonym source = "nat \<Rightarrow> string + response"

text \<open>\<open>data.x || []\<close>\<close>

definition or_empty :: "obj list option \<Rightarrow> obj list" where
  "or_empty l = (case l of None \<Rightarrow> [] | Some xs \<Rightarrow> xs)"

text \<open>\<open>fetchPage(page)\<close> of the paginated scripts, the same in each but for the array's name.\<close>

definition fetchPage :: "source \<Rightarrow> nat \<Rightarrow> jserror + (obj list \<times> total)" where
  "fetchPage src page =
     (case src page of
        Inl msg \<Rightarrow> Inl (Error (''Fetch Page '' @ string_of_nat page @ '' Failed: '' @ msg))
      | Inr resp \<Rightarrow> Inr (or_empty (listing resp), totalPages resp))"

text \<open>\<open>fetchData()\<close> / \<open>fetchSourceData()\<close> of the scripts that read the whole list at once.\<close>

definition fetchData :: "string + response \<Rightarrow> jserror + obj list" where
  "fetchData src =
     (case src of
        Inl msg \<Rightarrow> Inl (Error (''Fetch Failed: '' @ msg))
      | Inr resp \<Rightarrow> Inr (or_empty (listing resp)))"

text \<open>
  The result of a run: the exit status of the process, the counters printed on completion
  (none when the run ended in the \<open>catch\<close> of \<open>main\<close>), the verdicts in order, and the store.
\<close>

record 's outcome =
  exit_status :: nat
  summary :: "stats option"
  verdicts :: "verdict list"
  final :: 's

section \<open>sync-partylist.js\<close>

definition getPartyId :: "pocketbase \<Rightarrow> cache \<Rightarrow> jsval \<Rightarrow> jsval \<times> pocketbase \<times> cache" where
  "getPartyId pb partyCache partyName =
     (case partyCache of
        Some m \<Rightarrow> (map_get m partyName, pb, Some m)
      | None \<Rightarrow>
          (case getFullList pb ''parties'' of
             (Inr records, pb') \<Rightarrow>
               (map_get (cache_names records) partyName, pb', Some (cache_names records))
           | (Inl e, pb') \<Rightarrow> (map_get Map.empty partyName, pb', Some Map.empty)))"

definition payload_partylist :: "obj \<Rightarrow> jsval \<Rightarrow> obj" where
  "payload_partylist item partyId =
     [(''name'', jget item ''name''),
      (''number'', jget item ''number''),
      (''title'', jget item ''title''),
      (''firstName'', jget item ''firstName''),
      (''lastName'', jget item ''lastName''),
      (''pmCandidateRank'', jget item ''pmCandidateRank''),
      (''active'', jget item ''active''),
      (''party'', partyId)]"

definition fields_partylist :: "string list" where
  "fields_partylist =
     [''number'', ''title'', ''firstName'', ''lastName'', ''pmCandidateRank'', ''active'', ''party'']"

definition syncItem_partylist ::
  "pocketbase \<times> cache \<Rightarrow> obj \<Rightarrow> verdict \<times> (pocketbase \<times> cache)" where
  "syncItem_partylist s item =
     (case getPartyId (fst s) (snd s) (opt_member (jget item ''party'') ''name'') of
        (partyId, pb1, partyCache) \<Rightarrow>
          (let payload = payload_partylist item partyId in
           case find_existing pb1 ''partylist'' (name_filter (jget item ''name'')) of
             (Inl err, pb2) \<Rightarrow> (Failed, (pb2, partyCache))
           | (Inr (Some existing), pb2) \<Rightarrow>
               (if isChanged fields_partylist existing payload
                then (case try_update pb2 ''partylist'' (jget existing ''id'') payload of
                        (v, pb3) \<Rightarrow> (v, (pb3, partyCache)))
                else (Skipped, (pb2, partyCache)))
           | (Inr None, pb2) \<Rightarrow>
               (case try_create pb2 ''partylist'' payload of
                  (v, pb3) \<Rightarrow> (v, (pb3, partyCache)))))"

text \<open>
  The pagination loop of \<open>main\<close>:
  \<^verbatim>\<open>let page = 1; let hasMore = true;
  while (hasMore) {
      const { items, pagination } = await fetchPage(page);
      if (items.length === 0) { hasMore = false; break; }
      for (const item of items) { ... syncItem ... }
      if (<last page>) { hasMore = false; } else { page++; }
  }\<close>
  Nothing bounds the number of rounds, so the model takes fuel and answers \<open>None\<close> when
  it runs out. A failed fetch leaves the loop with the error. The test for the last page
  is \<open>pagination.totalPages && page >= pagination.totalPages\<close> in sync-partylist.js and the
  candidate profile sync, and \<open>page >= pagination.totalPages\<close> in the candidates, areas and
  score syncs. A comparison with \<open>undefined\<close> is false; \<open>null\<close> is falsy, and in a comparison
  it counts as 0.
\<close>

definition last_page_guarded :: "nat \<Rightarrow> total \<Rightarrow> bool" where
  "last_page_guarded page tp =
     (case tp of NoTotal \<Rightarrow> False | NullTotal \<Rightarrow> False | TotalNum n \<Rightarrow> n \<noteq> 0 \<and> n \<le> int page)"

definition last_page_plain :: "nat \<Rightarrow> total \<Rightarrow> bool" where
  "last_page_plain page tp =
     (case tp of NoTotal \<Rightarrow> False | NullTotal \<Rightarrow> 0 \<le> int page | TotalNum n \<Rightarrow> n \<le> int page)"

fun pages_loop ::
  "nat \<Rightarrow> (nat \<Rightarrow> total \<Rightarrow> bool) \<Rightarrow> ('s \<Rightarrow> obj \<Rightarrow> verdict \<times> 's) \<Rightarrow> source \<Rightarrow> nat \<Rightarrow> 's
     \<Rightarrow> ((jserror + unit) \<times> verdict list \<times> 's) option" where
  "pages_loop 0 is_last f src page s = None"
| "pages_loop (Suc fuel) is_last f src page s =
     (case fetchPage src page of
        Inl e \<Rightarrow> Some (Inl e, [], s)
      | Inr (items, tp) \<Rightarrow>
          (if items = [] then Some (Inr (), [], s)
           else
             (case sync_items f s items of
                (results, s1) \<Rightarrow>
                  (if is_last page tp then Some (Inr (), results, s1)
                   else
                     (case pages_loop fuel is_last f src (Suc page) s1 of
                        None \<Rightarrow> None
                      | Some (r, later, s2) \<Rightarrow> Some (r, results @ later, s2))))))"

text \<open>
  \<open>main\<close> of a paginated script. \<open>fatal\<close> is the exit status its \<open>catch\<close> leaves: 1 where the
  \<open>catch\<close> calls \<open>process.exit(1)\<close>, 0 where it only logs the error.
\<close>

definition main_paginated ::
  "nat \<Rightarrow> nat \<Rightarrow> (nat \<Rightarrow> total \<Rightarrow> bool) \<Rightarrow> (pocketbase \<times> 'c \<Rightarrow> obj \<Rightarrow> verdict \<times> (pocketbase \<times> 'c))
     \<Rightarrow> (stats \<Rightarrow> verdict \<Rightarrow> stats) \<Rightarrow> stats \<Rightarrow> 'c
     \<Rightarrow> config \<Rightarrow> source \<Rightarrow> pocketbase \<Rightarrow> (pocketbase \<times> 'c) outcome option" where
  "main_paginated fuel fatal is_last f count stats0 caches cfg src pb =
     (case authenticate cfg pb of
        (Inl e, pb1) \<Rightarrow>
          Some \<lparr>exit_status = fatal, summary = None, verdicts = [], final = (pb1, caches)\<rparr>
      | (Inr u, pb1) \<Rightarrow>
          (case pages_loop fuel is_last f src 1 (pb1, caches) of
             None \<Rightarrow> None
           | Some (Inl e, results, s) \<Rightarrow>
               Some \<lparr>exit_status = fatal, summary = None, verdicts = results, final = s\<rparr>
           | Some (Inr u, results, s) \<Rightarrow>
               Some \<lparr>exit_status = 0, summary = Some (foldl count stats0 results),
                     verdicts = results, final = s\<rparr>))"

text \<open>\<open>main\<close> of a script that fetches the whole list with one request.\<close>

definition main_list ::
  "nat \<Rightarrow> (pocketbase \<times> 'c \<Rightarrow> obj \<Rightarrow> verdict \<times> (pocketbase \<times> 'c))
     \<Rightarrow> (stats \<Rightarrow> verdict \<Rightarrow> stats) \<Rightarrow> stats \<Rightarrow> 'c
     \<Rightarrow> config \<Rightarrow> string + response \<Rightarrow> pocketbase \<Rightarrow> (pocketbase \<times> 'c) outcome" where
  "main_list fatal f count stats0 caches cfg src pb =
     (case authenticate cfg pb of
        (Inl e, pb1) \<Rightarrow>
          \<lparr>exit_status = fatal, summary = None, verdicts = [], final = (pb1, caches)\<rparr>
      | (Inr u, pb1) \<Rightarrow>
          (case fetchData src of
             Inl e \<Rightarrow> \<lparr>exit_status = fatal, summary = None, verdicts = [], final = (pb1, caches)\<rparr>
           | Inr items \<Rightarrow>
               (case sync_items f (pb1, caches) items of
                  (results, s) \<Rightarrow>
                    \<lparr>exit_status = 0, summary = Some (foldl count stats0 results),
                     verdicts = results, final = s\<rparr>)))"

definition stats4 :: stats where
  "stats4 = [(''created'', 0), (''updated'', 0), (''skipped'', 0), (''failed'', 0)]"

definition main_partylist ::
  "nat \<Rightarrow> config \<Rightarrow> source \<Rightarrow> pocketbase \<Rightarrow> (pocketbase \<times> cache) outcome option" where
  "main_partylist fuel = main_paginated fuel 1 last_page_guarded syncItem_partylist tally stats4 None"

section \<open>The parties sync (src/unnamed/part_000)\<close>

definition payload_parties :: "obj \<Rightarrow> obj" where
  "payload_parties item =
     [(''name'', jget item ''name''),
      (''code'', jget item ''code''),
      (''abbreviation'', jget item ''abbreviation''),
      (''color'', jget item ''color''),
      (''logoUrl'', jget item ''logoUrl''),
      (''totalCandidates'', jget item ''totalCandidates'')]"

text \<open>
  This script keeps only the id of the record it finds (\<open>existingId = existing.id\<close>) and
  updates without comparing; it has no \<open>'skipped'\<close> verdict. It has no cache: the second
  component of the state is unused.
\<close>

definition syncItem_parties :: "pocketbase \<times> unit \<Rightarrow> obj \<Rightarrow> verdict \<times> (pocketbase \<times> unit)" where
  "syncItem_parties s item =
     (let payload = payload_parties item in
      case find_existing (fst s) ''parties'' (name_filter (jget item ''name'')) of
        (Inl err, pb2) \<Rightarrow> (Failed, (pb2, ()))
      | (Inr existing, pb2) \<Rightarrow>
          (let existingId = (case existing of None \<Rightarrow> JNull | Some r \<Rightarrow> jget r ''id'') in
           if truthy existingId
           then (case try_update pb2 ''parties'' existingId payload of (v, pb3) \<Rightarrow> (v, (pb3, ())))
           else (case try_create pb2 ''parties'' payload of (v, pb3) \<Rightarrow> (v, (pb3, ())))))"

definition stats_parties :: stats where
  "stats_parties = [(''created'', 0), (''updated'', 0), (''failed'', 0)]"

definition tally_parties :: "stats \<Rightarrow> verdict \<Rightarrow> stats" where
  "tally_parties st result =
     (if result = Created then incr ''created'' st
      else if result = Updated then incr ''updated'' st
      else incr ''failed'' st)"

definition main_parties :: "config \<Rightarrow> string + response \<Rightarrow> pocketbase \<Rightarrow> (pocketbase \<times> unit) outcome" where
  "main_parties = main_list 1 syncItem_parties tally_parties stats_parties ()"

section \<open>The partylist results sync (src/unnamed/part_001)\<close>

text \<open>
  \<open>process.env.PB_COLLECTION_PARTIES || 'parties'\<close>: the variable, when it is set and not
  empty.
\<close>

definition parties_collection :: "string option \<Rightarrow> string" where
  "parties_collection env =
     (case env of None \<Rightarrow> ''parties'' | Some c \<Rightarrow> if c = [] then ''parties'' else c)"

definition getPartyId_results ::
  "string option \<Rightarrow> pocketbase \<Rightarrow> cache \<Rightarrow> jsval \<Rightarrow> jsval \<times> pocketbase \<times> cache" where
  "getPartyId_results env pb partyCache partyName =
     (case partyCache of
        Some m \<Rightarrow> (map_get m partyName, pb, Some m)
      | None \<Rightarrow>
          (case getFullList pb (parties_collection env) of
             (Inr records, pb') \<Rightarrow>
               (map_get (cache_names records) partyName, pb', Some (cache_names records))
           | (Inl e, pb') \<Rightarrow> (map_get Map.empty partyName, pb', Some Map.empty)))"

definition payload_results :: "obj \<Rightarrow> jsval \<Rightarrow> obj" where
  "payload_results item partyId =
     [(''totalVotes'', jget item ''totalVotes''),
      (''automaticSeats'', jget item ''automaticSeats''),
      (''remainder'', jget item ''remainder''),
      (''remainderSeats'', jget item ''remainderSeats''),
      (''totalSeats'', jget item ''totalSeats''),
      (''percentage'', jget item ''percentage''),
      (''party'', partyId)]"

definition fields_results :: "string list" where
  "fields_results =
     [''totalVotes'', ''automaticSeats'', ''remainder'', ''remainderSeats'', ''totalSeats'',
      ''percentage'']"

text \<open>
  The lookup is inside \<open>if (partyId)\<close>: without a party id no request is made and
  \<open>existing\<close> stays \<open>null\<close>.
\<close>

definition syncItem_results ::
  "string option \<Rightarrow> pocketbase \<times> cache \<Rightarrow> obj \<Rightarrow> verdict \<times> (pocketbase \<times> cache)" where
  "syncItem_results env s item =
     (case getPartyId_results env (fst s) (snd s) (opt_member (jget item ''party'') ''name'') of
        (partyId, pb1, partyCache) \<Rightarrow>
          (let payload = payload_results item partyId in
           case (if truthy partyId then find_existing pb1 ''partylistResults'' (party_filter partyId)
                 else (Inr None, pb1)) of
             (Inl err, pb2) \<Rightarrow> (Failed, (pb2, partyCache))
           | (Inr (Some existing), pb2) \<Rightarrow>
               (if isChanged fields_results existing payload
                then (case try_update pb2 ''partylistResults'' (jget existing ''id'') payload of
                        (v, pb3) \<Rightarrow> (v, (pb3, partyCache)))
                else (Skipped, (pb2, partyCache)))
           | (Inr None, pb2) \<Rightarrow>
               (case try_create pb2 ''partylistResults'' payload of
                  (v, pb3) \<Rightarrow> (v, (pb3, partyCache)))))"

definition main_results ::
  "string option \<Rightarrow> config \<Rightarrow> string + response \<Rightarrow> pocketbase \<Rightarrow> (pocketbase \<times> cache) outcome" where
  "main_results env = main_list 1 (syncItem_results env) tally stats4 None"

section \<open>The candidates sync (src/unnamed/part_002)\<close>

definition getProvinceId :: "pocketbase \<Rightarrow> cache \<Rightarrow> jsval \<Rightarrow> jsval \<times> pocketbase \<times> cache" where
  "getProvinceId pb provinceCache provinceName =
     (case provinceCache of
        Some m \<Rightarrow> (map_get m provinceName, pb, Some m)
      | None \<Rightarrow>
          (case getFullList pb ''provinces'' of
             (Inr records, pb') \<Rightarrow>
               (map_get (cache_names records) provinceName, pb', Some (cache_names records))
           | (Inl e, pb') \<Rightarrow> (map_get Map.empty provinceName, pb', Some Map.empty)))"

definition payload_candidates :: "obj \<Rightarrow> jsval \<Rightarrow> jsval \<Rightarrow> obj" where
  "payload_candidates item partyId provinceId =
     [(''number'', jget item ''number''),
      (''name'', jget item ''name''),
      (''provinceCode'', jget item ''provinceCode''),
      (''provinceName'', jget item ''provinceName''),
      (''areaNumber'', jget item ''areaNumber''),
      (''totalVotes'', jget item ''totalVotes''),
      (''rank'', jget item ''rank''),
      (''percentage'', jget item ''percentage''),
      (''party'', partyId),
      (''province'', provinceId)]"

definition fields_candidates :: "string list" where
  "fields_candidates = [''totalVotes'', ''rank'', ''percentage'', ''province'']"

text \<open>The state holds the party cache and the province cache, in this order.\<close>

definition syncItem_candidates ::
  "pocketbase \<times> cache \<times> cache \<Rightarrow> obj \<Rightarrow> verdict \<times> (pocketbase \<times> cache \<times> cache)" where
  "syncItem_candidates s item =
     (case getPartyId (fst s) (fst (snd s)) (opt_member (jget item ''party'') ''name'') of
        (partyId, pb0, partyCache) \<Rightarrow>
     (case getProvinceId pb0 (snd (snd s)) (jget item ''provinceName'') of
        (provinceId, pb1, provinceCache) \<Rightarrow>
          (let payload = payload_candidates item partyId provinceId;
               caches = (partyCache, provinceCache) in
           case find_existing pb1 ''candidates'' (name_filter (jget item ''name'')) of
             (Inl err, pb2) \<Rightarrow> (Failed, (pb2, caches))
           | (Inr (Some existing), pb2) \<Rightarrow>
               (if isChanged fields_candidates existing payload
                then (case try_update pb2 ''candidates'' (jget existing ''id'') payload of
                        (v, pb3) \<Rightarrow> (v, (pb3, caches)))
                else (Skipped, (pb2, caches)))
           | (Inr None, pb2) \<Rightarrow>
               (case try_create pb2 ''candidates'' payload of
                  (v, pb3) \<Rightarrow> (v, (pb3, caches))))))"

definition main_candidates ::
  "nat \<Rightarrow> config \<Rightarrow> source \<Rightarrow> pocketbase \<Rightarrow> (pocketbase \<times> cache \<times> cache) outcome option" where
  "main_candidates fuel =
     main_paginated fuel 1 last_page_plain syncItem_candidates tally stats4 (None, None)"

section \<open>The areas sync (src/unnamed/part_003)\<close>

definition payload_areas :: "obj \<Rightarrow> jsval \<Rightarrow> obj" where
  "payload_areas item provinceId =
     [(''name'', jget item ''name''),
      (''number'', jget item ''number''),
      (''eligibleVoters'', jget item ''eligibleVoters''),
      (''province'', provinceId)]"

definition fields_areas :: "string list" where
  "fields_areas = [''eligibleVoters'', ''province'', ''number'']"

definition syncItem_areas ::
  "pocketbase \<times> cache \<Rightarrow> obj \<Rightarrow> verdict \<times> (pocketbase \<times> cache)" where
  "syncItem_areas s item =
     (case getProvinceId (fst s) (snd s) (opt_member (jget item ''province'') ''name'') of
        (provinceId, pb1, provinceCache) \<Rightarrow>
          (let payload = payload_areas item provinceId in
           case find_existing pb1 ''areas'' (name_filter (jget item ''name'')) of
             (Inl err, pb2) \<Rightarrow> (Failed, (pb2, provinceCache))
           | (Inr (Some existing), pb2) \<Rightarrow>
               (if isChanged fields_areas existing payload
                then (case try_update pb2 ''areas'' (jget existing ''id'') payload of
                        (v, pb3) \<Rightarrow> (v, (pb3, provinceCache)))
                else (Skipped, (pb2, provinceCache)))
           | (Inr None, pb2) \<Rightarrow>
               (case try_create pb2 ''areas'' payload of
                  (v, pb3) \<Rightarrow> (v, (pb3, provinceCache)))))"

definition main_areas ::
  "nat \<Rightarrow> config \<Rightarrow> source \<Rightarrow> pocketbase \<Rightarrow> (pocketbase \<times> cache) outcome option" where
  "main_areas fuel = main_paginated fuel 1 last_page_plain syncItem_areas tally stats4 None"

section \<open>The candidate profile sync (src/unnamed/part_004)\<close>

text \<open>\<open>const key = `${record.province}_${record.number}`; areaCache.set(key, record.id)\<close>\<close>

definition area_key :: "jsval \<Rightarrow> jsval \<Rightarrow> jsval" where
  "area_key province num = JStr (to_string province @ ''_'' @ to_string num)"

definition cache_areas :: "obj list \<Rightarrow> (jsval \<rightharpoonup> jsval)" where
  "cache_areas records =
     foldl (\<lambda>m r. m(area_key (jget r ''province'') (jget r ''number'') \<mapsto> jget r ''id''))
       Map.empty records"

definition getAreaId ::
  "pocketbase \<Rightarrow> cache \<Rightarrow> jsval \<Rightarrow> jsval \<Rightarrow> jsval \<times> pocketbase \<times> cache" where
  "getAreaId pb areaCache provinceId areaNumber =
     (case areaCache of
        Some m \<Rightarrow> (map_get m (area_key provinceId areaNumber), pb, Some m)
      | None \<Rightarrow>
          (case getFullList pb ''areas'' of
             (Inr records, pb') \<Rightarrow>
               (map_get (cache_areas records) (area_key provinceId areaNumber), pb',
                Some (cache_areas records))
           | (Inl e, pb') \<Rightarrow>
               (map_get Map.empty (area_key provinceId areaNumber), pb', Some Map.empty)))"

definition payload_profile :: "obj \<Rightarrow> jsval \<Rightarrow> jsval \<Rightarrow> jsval \<Rightarrow> jsval \<Rightarrow> obj" where
  "payload_profile item areaNumber partyId provinceId areaId =
     [(''name'', jget item ''name''),
      (''title'', jget item ''title''),
      (''firstName'', jget item ''firstName''),
      (''lastName'', jget item ''lastName''),
      (''photoUrl'', jget item ''photoUrl''),
      (''active'', jget item ''active''),
      (''number'', jget item ''number''),
      (''provinceCode'', opt_member (jget item ''province'') ''code''),
      (''provinceName'', opt_member (jget item ''province'') ''name''),
      (''areaNumber'', areaNumber),
      (''party'', partyId),
      (''province'', provinceId),
      (''area'', areaId)]"

definition fields_profile :: "string list" where
  "fields_profile =
     [''title'', ''firstName'', ''lastName'', ''photoUrl'', ''active'', ''party'', ''province'',
      ''area'']"

text \<open>The state holds the party, province and area caches, in this order.\<close>

definition syncItem_profile ::
  "pocketbase \<times> cache \<times> cache \<times> cache \<Rightarrow> obj
     \<Rightarrow> verdict \<times> (pocketbase \<times> cache \<times> cache \<times> cache)" where
  "syncItem_profile s item =
     (case getPartyId (fst s) (fst (snd s)) (opt_member (jget item ''party'') ''name'') of
        (partyId, pb0, partyCache) \<Rightarrow>
     (case getProvinceId pb0 (fst (snd (snd s))) (opt_member (jget item ''province'') ''name'') of
        (provinceId, pb0', provinceCache) \<Rightarrow>
     (let areaNumber = opt_member (jget item ''electionArea'') ''areaNumber'' in
      case (if truthy provinceId \<and> truthy areaNumber
            then getAreaId pb0' (snd (snd (snd s))) provinceId areaNumber
            else (JNull, pb0', snd (snd (snd s)))) of
        (areaId, pb1, areaCache) \<Rightarrow>
          (let payload = payload_profile item areaNumber partyId provinceId areaId;
               caches = (partyCache, provinceCache, areaCache) in
           case find_existing pb1 ''candidates'' (name_filter (jget item ''name'')) of
             (Inl err, pb2) \<Rightarrow> (Failed, (pb2, caches))
           | (Inr (Some existing), pb2) \<Rightarrow>
               (if isChanged fields_profile existing payload
                then (case try_update pb2 ''candidates'' (jget existing ''id'') payload of
                        (v, pb3) \<Rightarrow> (v, (pb3, caches)))
                else (Skipped, (pb2, caches)))
           | (Inr None, pb2) \<Rightarrow>
               (case try_create pb2 ''candidates'' payload of
                  (v, pb3) \<Rightarrow> (v, (pb3, caches)))))))"

definition main_profile ::
  "nat \<Rightarrow> config \<Rightarrow> source \<Rightarrow> pocketbase
     \<Rightarrow> (pocketbase \<times> cache \<times> cache \<times> cache) outcome option" where
  "main_profile fuel =
     main_paginated fuel 1 last_page_guarded syncItem_profile tally stats4 (None, None, None)"

section \<open>The candidate score sync (src/unnamed/part_005)\<close>

definition payload_score :: "obj \<Rightarrow> obj" where
  "payload_score item =
     [(''name'', jget item ''name''),
      (''totalVotes'', jget item ''totalVotes''),
      (''rank'', jget item ''rank''),
      (''percentage'', jget item ''percentage'')]"

definition fields_score :: "string list" where
  "fields_score = [''totalVotes'', ''rank'', ''percentage'']"

text \<open>Update only: when no record is found the item is skipped and nothing is written.\<close>

definition syncItem_score :: "pocketbase \<times> unit \<Rightarrow> obj \<Rightarrow> verdict \<times> (pocketbase \<times> unit)" where
  "syncItem_score s item =
     (let payload = payload_score item in
      case find_existing (fst s) ''candidates'' (name_filter (jget item ''name'')) of
        (Inl err, pb2) \<Rightarrow> (Failed, (pb2, ()))
      | (Inr (Some existing), pb2) \<Rightarrow>
          (if isChanged fields_score existing payload
           then (case try_update pb2 ''candidates'' (jget existing ''id'') payload of
                   (v, pb3) \<Rightarrow> (v, (pb3, ())))
           else (Skipped, (pb2, ())))
      | (Inr None, pb2) \<Rightarrow> (Skipped, (pb2, ())))"

definition main_score ::
  "nat \<Rightarrow> config \<Rightarrow> source \<Rightarrow> pocketbase \<Rightarrow> (pocketbase \<times> unit) outcome option" where
  "main_score fuel = main_paginated fuel 1 last_page_plain syncItem_score tally stats4 ()"

section \<open>The national parties sync (src/unnamed/part_005)\<close>

definition payload_national_parties :: "obj \<Rightarrow> obj" where
  "payload_national_parties item =
     [(''name'', opt_member (jget item ''party'') ''name''),
      (''totalVotes'', jget item ''totalVotes''),
      (''constituencySeats'', jget item ''constituencySeats''),
      (''partyListSeats'', jget item ''partyListSeats''),
      (''totalSeats'', jget item ''totalSeats''),
      (''percentage'', jget item ''percentage'')]"

definition fields_national_parties :: "string list" where
  "fields_national_parties =
     [''totalVotes'', ''constituencySeats'', ''partyListSeats'', ''totalSeats'', ''percentage'']"

definition syncItem_national_parties ::
  "pocketbase \<times> unit \<Rightarrow> obj \<Rightarrow> verdict \<times> (pocketbase \<times> unit)" where
  "syncItem_national_parties s item =
     (let payload = payload_national_parties item in
      case find_existing (fst s) ''parties'' (name_filter (opt_member (jget item ''party'') ''name'')) of
        (Inl err, pb2) \<Rightarrow> (Failed, (pb2, ()))
      | (Inr (Some existing), pb2) \<Rightarrow>
          (if isChanged fields_national_parties existing payload
           then (case try_update pb2 ''parties'' (jget existing ''id'') payload of
                   (v, pb3) \<Rightarrow> (v, (pb3, ())))
           else (Skipped, (pb2, ())))
      | (Inr None, pb2) \<Rightarrow>
          (case try_create pb2 ''parties'' payload of (v, pb3) \<Rightarrow> (v, (pb3, ()))))"

text \<open>The \<open>catch\<close> of this \<open>main\<close> has its \<open>process.exit(1)\<close> commented out.\<close>

definition main_national_parties ::
  "config \<Rightarrow> string + response \<Rightarrow> pocketbase \<Rightarrow> (pocketbase \<times> unit) outcome" where
  "main_national_parties = main_list 0 syncItem_national_parties tally stats4 ()"

section \<open>The province statistics sync (src/unnamed/part_006)\<close>

definition payload_province_statistics :: "obj \<Rightarrow> obj" where
  "payload_province_statistics item =
     [(''goodVotes'', opt_member (jget item ''statistics'') ''goodVotes''),
      (''totalVotes'', opt_member (jget item ''statistics'') ''totalVotes''),
      (''invalidVotes'', opt_member (jget item ''statistics'') ''invalidVotes''),
      (''noVotes'', opt_member (jget item ''statistics'') ''noVotes''),
      (''eligibleVoters'', opt_member (jget item ''statistics'') ''eligibleVoters''),
      (''voterTurnoutPercentage'', opt_member (jget item ''statistics'') ''voterTurnoutPercentage''),
      (''stationsReported'', opt_member (jget item ''coverage'') ''stationsReported''),
      (''totalStations'', opt_member (jget item ''coverage'') ''totalStations''),
      (''percentage'', opt_member (jget item ''coverage'') ''percentage'')]"

definition fields_province_statistics :: "string list" where
  "fields_province_statistics = [''goodVotes'', ''totalVotes'', ''stationsReported'', ''percentage'']"

definition syncItem_province_statistics ::
  "pocketbase \<times> unit \<Rightarrow> obj \<Rightarrow> verdict \<times> (pocketbase \<times> unit)" where
  "syncItem_province_statistics s item =
     (let payload = payload_province_statistics item in
      case find_existing (fst s) ''provinces'' (name_filter (jget item ''provinceName'')) of
        (Inl err, pb2) \<Rightarrow> (Failed, (pb2, ()))
      | (Inr (Some existing), pb2) \<Rightarrow>
          (if isChanged fields_province_statistics existing payload
           then (case try_update pb2 ''provinces'' (jget existing ''id'') payload of
                   (v, pb3) \<Rightarrow> (v, (pb3, ())))
           else (Skipped, (pb2, ())))
      | (Inr None, pb2) \<Rightarrow> (Skipped, (pb2, ())))"

definition stats_province_statistics :: stats where
  "stats_province_statistics = [(''updated'', 0), (''skipped'', 0), (''failed'', 0)]"

definition tally_province_statistics :: "stats \<Rightarrow> verdict \<Rightarrow> stats" where
  "tally_province_statistics st result =
     (if result = Updated then incr ''updated'' st
      else if result = Skipped then incr ''skipped'' st
      else incr ''failed'' st)"

text \<open>The \<open>catch\<close> of this \<open>main\<close> only logs the error.\<close>

definition main_province_statistics ::
  "config \<Rightarrow> string + response \<Rightarrow> pocketbase \<Rightarrow> (pocketbase \<times> unit) outcome" where
  "main_province_statistics =
     main_list 0 syncItem_province_statistics tally_province_statistics stats_province_statistics ()"

section \<open>sync-provinces.js\<close>

definition payload_provinces :: "obj \<Rightarrow> obj" where
  "payload_provinces item =
     [(''name'', jget item ''name''), (''code'', jget item ''code''), (''region'', jget item ''region'')]"

text \<open>A record that exists is never touched: the lookup returns \<open>'skipped'\<close> at once.\<close>

definition syncItem_provinces :: "pocketbase \<times> unit \<Rightarrow> obj \<Rightarrow> verdict \<times> (pocketbase \<times> unit)" where
  "syncItem_provinces s item =
     (let payload = payload_provinces item in
      case find_existing (fst s) ''provinces'' (name_filter (jget item ''name'')) of
        (Inl err, pb2) \<Rightarrow> (Failed, (pb2, ()))
      | (Inr (Some existing), pb2) \<Rightarrow> (Skipped, (pb2, ()))
      | (Inr None, pb2) \<Rightarrow>
          (case try_create pb2 ''provinces'' payload of (v, pb3) \<Rightarrow> (v, (pb3, ()))))"

definition stats_provinces :: stats where
  "stats_provinces = [(''created'', 0), (''skipped'', 0), (''failed'', 0)]"

definition tally_provinces :: "stats \<Rightarrow> verdict \<Rightarrow> stats" where
  "tally_provinces st result =
     (if result = Created then incr ''created'' st
      else if result = Skipped then incr ''skipped'' st
      else incr ''failed'' st)"

definition main_provinces ::
  "config \<Rightarrow> string + response \<Rightarrow> pocketbase \<Rightarrow> (pocketbase \<times> unit) outcome" where
  "main_provinces = main_list 1 syncItem_provinces tally_provinces stats_provinces ()"

section \<open>masterdata/sync-referendum.js\<close>

text \<open>
  \<open>item.options.find(o => o.optionCode === code)\<close>: the first element with that option
  code, \<open>undefined\<close> when there is none. Reading \<open>optionCode\<close> of a \<open>null\<close> element, or
  calling \<open>find\<close> on something that is not an array, throws a \<open>TypeError\<close>. These two calls
  stand before the \<open>try\<close> of \<open>syncItem\<close>, so the error leaves \<open>syncItem\<close>.
\<close>

fun find_option :: "string \<Rightarrow> jsval list \<Rightarrow> jserror + jsval" where
  "find_option code [] = Inr JUndefined"
| "find_option code (x # xs) =
     (if x = JUndefined \<or> x = JNull
      then Inl (TypeError ''Cannot read properties of null (reading 'optionCode')'')
      else if member x ''optionCode'' = JStr code then Inr x
      else find_option code xs)"

definition options_find :: "jsval \<Rightarrow> string \<Rightarrow> jserror + jsval" where
  "options_find opts code =
     (case opts of
        JArr xs \<Rightarrow> find_option code xs
      | _ \<Rightarrow> Inl (TypeError ''item.options.find is not a function''))"

text \<open>\<open>option ? option.f : 0\<close>\<close>

definition option_field :: "jsval \<Rightarrow> string \<Rightarrow> jsval" where
  "option_field opt f = (if truthy opt then member opt f else JNum 0)"

definition payload_referendum :: "obj \<Rightarrow> jsval \<Rightarrow> jsval \<Rightarrow> obj" where
  "payload_referendum item agreeOption disagreeOption =
     [(''number'', jget item ''questionNumber''),
      (''title'', jget item ''questionText''),
      (''agreeTotalVotes'', option_field agreeOption ''totalVotes''),
      (''agreePercentage'', option_field agreeOption ''percentage''),
      (''agreeRank'', option_field agreeOption ''rank''),
      (''disagreeTotalVotes'', option_field disagreeOption ''totalVotes''),
      (''disagreePercentage'', option_field disagreeOption ''percentage''),
      (''disagreeRank'', option_field disagreeOption ''rank''),
      (''goodVotes'', jget item ''goodVotes''),
      (''totalVotes'', jget item ''totalVotes''),
      (''invalidVotes'', jget item ''invalidVotes''),
      (''noVotes'', jget item ''noVotes'')]"

definition fields_referendum :: "string list" where
  "fields_referendum =
     [''agreeTotalVotes'', ''agreePercentage'', ''agreeRank'', ''disagreeTotalVotes'',
      ''disagreePercentage'', ''disagreeRank'', ''totalVotes'', ''title'']"

definition syncItem_referendum ::
  "pocketbase \<Rightarrow> obj \<Rightarrow> (jserror + verdict) \<times> pocketbase" where
  "syncItem_referendum pb item =
     (case options_find (jget item ''options'') ''agree'' of
        Inl e \<Rightarrow> (Inl e, pb)
      | Inr agreeOption \<Rightarrow>
     (case options_find (jget item ''options'') ''disagree'' of
        Inl e \<Rightarrow> (Inl e, pb)
      | Inr disagreeOption \<Rightarrow>
          (let payload = payload_referendum item agreeOption disagreeOption in
           case find_existing pb ''referendum'' (number_filter (jget item ''questionNumber'')) of
             (Inl err, pb2) \<Rightarrow> (Inr Failed, pb2)
           | (Inr (Some existing), pb2) \<Rightarrow>
               (if isChanged fields_referendum existing payload
                then (case try_update pb2 ''referendum'' (jget existing ''id'') payload of
                        (v, pb3) \<Rightarrow> (Inr v, pb3))
                else (Inr Skipped, pb2))
           | (Inr None, pb2) \<Rightarrow>
               (case try_create pb2 ''referendum'' payload of (v, pb3) \<Rightarrow> (Inr v, pb3)))))"

text \<open>The loop over the items when \<open>syncItem\<close> itself can throw: the exception ends it.\<close>

fun sync_items_throwing ::
  "('s \<Rightarrow> obj \<Rightarrow> (jserror + verdict) \<times> 's) \<Rightarrow> 's \<Rightarrow> obj list
     \<Rightarrow> (jserror + unit) \<times> verdict list \<times> 's" where
  "sync_items_throwing f s [] = (Inr (), [], s)"
| "sync_items_throwing f s (item # items) =
     (case f s item of
        (Inl e, s1) \<Rightarrow> (Inl e, [], s1)
      | (Inr result, s1) \<Rightarrow>
          (case sync_items_throwing f s1 items of
             (r, results, s2) \<Rightarrow> (r, result # results, s2)))"

text \<open>The \<open>catch\<close> of this \<open>main\<close> only logs the error; the process then ends normally.\<close>

definition main_referendum ::
  "config \<Rightarrow> string + response \<Rightarrow> pocketbase \<Rightarrow> pocketbase outcome" where
  "main_referendum cfg src pb =
     (case authenticate cfg pb of
        (Inl e, pb1) \<Rightarrow> \<lparr>exit_status = 0, summary = None, verdicts = [], final = pb1\<rparr>
      | (Inr u, pb1) \<Rightarrow>
          (case fetchData src of
             Inl e \<Rightarrow> \<lparr>exit_status = 0, summary = None, verdicts = [], final = pb1\<rparr>
           | Inr items \<Rightarrow>
               (case sync_items_throwing syncItem_referendum pb1 items of
                  (Inl e, results, pb2) \<Rightarrow>
                    \<lparr>exit_status = 0, summary = None, verdicts = results, final = pb2\<rparr>
                | (Inr u, results, pb2) \<Rightarrow>
                    \<lparr>exit_status = 0, summary = Some (foldl tally stats4 results),
                     verdicts = results, final = pb2\<rparr>)))"

section \<open>realtime/sync-national-statistics.js\<close>

text \<open>\<open>fetchData\<close> returns \<open>response.data.data\<close> as it is.\<close>

definition fetchData_national :: "string + jsval \<Rightarrow> jserror + jsval" where
  "fetchData_national src =
     (case src of Inl msg \<Rightarrow> Inl (Error (''Fetch Failed: '' @ msg)) | Inr data \<Rightarrow> Inr data)"

definition payload_national :: "jsval \<Rightarrow> obj" where
  "payload_national data =
     [(''goodVotes'', member (member data ''statistics'') ''goodVotes''),
      (''totalVotes'', member (member data ''statistics'') ''totalVotes''),
      (''invalidVotes'', member (member data ''statistics'') ''invalidVotes''),
      (''noVotes'', member (member data ''statistics'') ''noVotes''),
      (''eligibleVoters'', member (member data ''statistics'') ''eligibleVoters''),
      (''voterTurnoutPercentage'', member (member data ''statistics'') ''voterTurnoutPercentage''),
      (''stationsReported'', member (member data ''coverage'') ''stationsReported''),
      (''totalStations'', member (member data ''coverage'') ''totalStations''),
      (''percentage'', member (member data ''coverage'') ''percentage'')]"

definition fields_national :: "string list" where
  "fields_national = [''goodVotes'', ''stationsReported'', ''percentage'']"

text \<open>
  The lookup takes the first record of the collection; any error of the lookup is
  swallowed (a status other than 404 is only logged) and the script goes on to create.
\<close>

definition syncData :: "pocketbase \<Rightarrow> jsval \<Rightarrow> verdict \<times> pocketbase" where
  "syncData pb data =
     (if \<not> truthy data \<or> \<not> truthy (member data ''statistics'') \<or> \<not> truthy (member data ''coverage'')
      then (Failed, pb)
      else
        (let payload = payload_national data in
         case (case getList pb ''national'' 1 1 of
                 (Inr list_items, pb1) \<Rightarrow>
                   (case list_items of [] \<Rightarrow> (None, pb1) | r # rs \<Rightarrow> (Some r, pb1))
               | (Inl err, pb1) \<Rightarrow> (None, pb1)) of
           (Some existing, pb2) \<Rightarrow>
             (if isChanged fields_national existing payload
              then try_update pb2 ''national'' (jget existing ''id'') payload
              else (Skipped, pb2))
         | (None, pb2) \<Rightarrow> try_create pb2 ''national'' payload))"

text \<open>
  The result of this \<open>main\<close>: the exit status, the verdict it prints on completion, and the
  store. Its \<open>catch\<close> only logs the error.
\<close>

definition main_national ::
  "config \<Rightarrow> string + jsval \<Rightarrow> pocketbase \<Rightarrow> nat \<times> verdict option \<times> pocketbase" where
  "main_national cfg src pb =
     (case authenticate cfg pb of
        (Inl e, pb1) \<Rightarrow> (0, None, pb1)
      | (Inr u, pb1) \<Rightarrow>
          (case fetchData_national src of
             Inl e \<Rightarrow> (0, None, pb1)
           | Inr data \<Rightarrow> (case syncData pb1 data of (result, pb2) \<Rightarrow> (0, Some result, pb2))))"

section \<open>Sample data\<close>

text \<open>Concrete clients, sources and items on which the theorems below are instantiated.\<close>

definition client :: "(string \<Rightarrow> obj list) \<Rightarrow> (pbcall \<Rightarrow> pberr option) \<Rightarrow> pocketbase" where
  "client cs f = \<lparr>isValid = False, colls = cs, fresh = 0, fault = f, calls = []\<rparr>"

definition no_records :: "string \<Rightarrow> obj list" where
  "no_records = (\<lambda>c. [])"

definition no_fault :: "pbcall \<Rightarrow> pberr option" where
  "no_fault = (\<lambda>c. None)"

definition credentials :: config where
  "credentials = \<lparr>EMAIL = ''sync@example.org'', PASSWORD = ''secret''\<rparr>"

definition auth_rejected :: "pbcall \<Rightarrow> pberr option" where
  "auth_rejected =
     (\<lambda>c. case c of
        AuthUsers e p \<Rightarrow> Some (PbErr 400 ''Failed to authenticate.'')
      | AuthAdmins e p \<Rightarrow> Some (PbErr 400 ''Invalid login credentials.'')
      | _ \<Rightarrow> None)"


definition party_a :: obj where
  "party_a = [(''id'', JStr ''id1''), (''name'', JStr ''Party A'')]"

definition with_parties :: "string \<Rightarrow> obj list" where
  "with_parties = (\<lambda>c. if c = ''parties'' then [party_a] else [])"

definition lists_rejected :: "pbcall \<Rightarrow> pberr option" where
  "lists_rejected =
     (\<lambda>c. case c of GetFullList coll \<Rightarrow> Some (PbErr 500 ''Something went wrong.'') | _ \<Rightarrow> None)"

definition lookups_rejected :: "pbcall \<Rightarrow> pberr option" where
  "lookups_rejected =
     (\<lambda>c. case c of
        GetFirstListItem coll flt \<Rightarrow> Some (PbErr 500 ''Something went wrong.'')
      | _ \<Rightarrow> None)"

definition creates_rejected :: "pbcall \<Rightarrow> pberr option" where
  "creates_rejected =
     (\<lambda>c. case c of Create coll body \<Rightarrow> Some (PbErr 400 ''Failed to create record.'') | _ \<Rightarrow> None)"

definition updates_rejected :: "pbcall \<Rightarrow> pberr option" where
  "updates_rejected =
     (\<lambda>c. case c of Update coll rid body \<Rightarrow> Some (PbErr 400 ''Failed to update record.'') | _ \<Rightarrow> None)"

text \<open>An entry of the party list, and a referendum question with its two options.\<close>

definition list_member :: obj where
  "list_member =
     [(''name'', JStr ''Somchai Jaidee''), (''number'', JNum 1), (''title'', JStr ''Mr''),
      (''firstName'', JStr ''Somchai''), (''lastName'', JStr ''Jaidee''),
      (''pmCandidateRank'', JNull), (''active'', JBool True),
      (''party'', JObj [(''name'', JStr ''Party A'')])]"

definition question :: obj where
  "question =
     [(''questionNumber'', JNum 1), (''questionText'', JStr ''Approve the draft?''),
      (''options'',
        JArr [JObj [(''optionCode'', JStr ''agree''), (''totalVotes'', JNum 60),
                    (''percentage'', JNum 60), (''rank'', JNum 1)],
              JObj [(''optionCode'', JStr ''disagree''), (''totalVotes'', JNum 40),
                    (''percentage'', JNum 40), (''rank'', JNum 2)]]),
      (''goodVotes'', JNum 100), (''totalVotes'', JNum 110), (''invalidVotes'', JNum 6),
      (''noVotes'', JNum 4)]"

text \<open>An entry of the party list results, for a party the store does not hold.\<close>

definition result_item :: obj where
  "result_item =
     [(''party'', JObj [(''name'', JStr ''Party B'')]), (''totalVotes'', JNum 1000),
      (''automaticSeats'', JNum 2), (''remainder'', JNum 10), (''remainderSeats'', JNum 0),
      (''totalSeats'', JNum 2), (''percentage'', JNum 5)]"

text \<open>
  The lookup of a natural key answers "not found": the answer to \<open>getFirstListItem\<close> is an
  error of status 404.
\<close>

definition not_found :: "pocketbase \<Rightarrow> string \<Rightarrow> string \<Rightarrow> bool" where
  "not_found pb coll flt =
     (case fst (getFirstListItem pb coll flt) of Inl err \<Rightarrow> status err = 404 | Inr r \<Rightarrow> False)"

text \<open>A candidate as the candidates, areas and score sources list it.\<close>

definition candidate :: obj where
  "candidate =
     [(''name'', JStr ''Somsri Rakthai''), (''number'', JNum 7), (''provinceName'', JStr ''Chiang Mai''),
      (''provinceCode'', JStr ''CM''), (''areaNumber'', JNum 3), (''totalVotes'', JNum 1200),
      (''rank'', JNum 1), (''percentage'', JNum 45), (''eligibleVoters'', JNum 9000),
      (''party'', JObj [(''name'', JStr ''Party A'')]),
      (''province'', JObj [(''name'', JStr ''Chiang Mai''), (''code'', JStr ''CM'')])]"

text \<open>The party of the scenario: \<open>{name: "X", code: "X1", totalCandidates: 5}\<close>.\<close>

definition party_x :: obj where
  "party_x = [(''name'', JStr ''X''), (''code'', JStr ''X1''), (''totalCandidates'', JNum 5)]"

text \<open>A source with one page holding one entry of the party list, and one that is down.\<close>

definition one_page :: source where
  "one_page =
     (\<lambda>p. Inr (if p = 1 then \<lparr>listing = Some [list_member], totalPages = TotalNum 1\<rparr>
               else \<lparr>listing = None, totalPages = TotalNum 1\<rparr>))"

definition offline :: source where
  "offline = (\<lambda>p. Inl ''connect ECONNREFUSED'')"

definition questions :: "string + response" where
  "questions = Inr \<lparr>listing = Some [question], totalPages = NoTotal\<rparr>"

text \<open>
  What the loop does with the source alone: how it ends and which items it reconciles, in
  order. It mirrors \<open>pages_loop\<close> without the store, and is used to state properties of the
  loop that do not depend on the store.
\<close>

fun pages_plan ::
  "nat \<Rightarrow> (nat \<Rightarrow> total \<Rightarrow> bool) \<Rightarrow> source \<Rightarrow> nat \<Rightarrow> ((jserror + unit) \<times> obj list) option" where
  "pages_plan 0 is_last src page = None"
| "pages_plan (Suc fuel) is_last src page =
     (case fetchPage src page of
        Inl e \<Rightarrow> Some (Inl e, [])
      | Inr (items, tp) \<Rightarrow>
          (if items = [] then Some (Inr (), [])
           else if is_last page tp then Some (Inr (), items)
           else
             (case pages_plan fuel is_last src (Suc page) of
                None \<Rightarrow> None
              | Some (r, later) \<Rightarrow> Some (r, items @ later))))"

text \<open>
  A source that reports \<open>totalPages: 0\<close> on a first page with one item, and whose second page
  cannot be fetched.
\<close>

definition zero_total :: source where
  "zero_total =
     (\<lambda>p. if p = 1 then Inr \<lparr>listing = Some [list_member], totalPages = TotalNum 0\<rparr>
          else Inl ''no such page'')"

text \<open>A source of two pages that reports no \<open>totalPages\<close>; the third page is empty.\<close>

definition two_pages :: source where
  "two_pages =
     (\<lambda>p. Inr (if p = 1 then \<lparr>listing = Some [list_member], totalPages = NoTotal\<rparr>
               else if p = 2 then \<lparr>listing = Some [candidate], totalPages = NoTotal\<rparr>
               else \<lparr>listing = Some [], totalPages = TotalNum 7\<rparr>))"

text \<open>
  Stored referendum records for the question above: one whose vote counts are older, and one
  that differs from the source in \<open>goodVotes\<close> only.
\<close>

definition old_question :: obj where
  "old_question =
     [(''id'', JStr ''q1''), (''number'', JNum 1), (''title'', JStr ''Approve the draft?''),
      (''agreeTotalVotes'', JNum 50), (''agreePercentage'', JNum 60), (''agreeRank'', JNum 1),
      (''disagreeTotalVotes'', JNum 40), (''disagreePercentage'', JNum 40),
      (''disagreeRank'', JNum 2), (''goodVotes'', JNum 90), (''totalVotes'', JNum 110),
      (''invalidVotes'', JNum 6), (''noVotes'', JNum 4), (''note'', JStr ''kept'')]"

definition stale_question :: obj where
  "stale_question =
     [(''id'', JStr ''q1''), (''number'', JNum 1), (''title'', JStr ''Approve the draft?''),
      (''agreeTotalVotes'', JNum 60), (''agreePercentage'', JNum 60), (''agreeRank'', JNum 1),
      (''disagreeTotalVotes'', JNum 40), (''disagreePercentage'', JNum 40),
      (''disagreeRank'', JNum 2), (''goodVotes'', JNum 90), (''totalVotes'', JNum 110),
      (''invalidVotes'', JNum 6), (''noVotes'', JNum 4)]"

definition with_question :: "obj \<Rightarrow> string \<Rightarrow> obj list" where
  "with_question r = (\<lambda>c. if c = ''referendum'' then [r] else [])"

text \<open>A store that holds the party, a candidate of that name and the older question.\<close>

definition old_candidate :: obj where
  "old_candidate =
     [(''id'', JStr ''c1''), (''name'', JStr ''Somsri Rakthai''), (''title'', JStr ''Ms''),
      (''totalVotes'', JNum 1200), (''rank'', JNum 1)]"

definition stored :: "string \<Rightarrow> obj list" where
  "stored =
     (\<lambda>c. if c = ''parties'' then [party_a]
          else if c = ''candidates'' then [old_candidate]
          else if c = ''referendum'' then [old_question]
          else [])"

text \<open>
  Notions used to state when a second run finds nothing to do.
  \<^item> \<open>restart\<close>: a new process on the same store (a new client, not yet authenticated).
  \<^item> \<open>scalar\<close>: a JSON value that is neither an object nor an array, and not \<open>undefined\<close>.
  \<^item> \<open>ids_fresh\<close>: the ids of a collection are distinct, and the store will not issue one
    of them again.
  \<^item> \<open>settled\<close>: the lookup finds a record that agrees with the payload on the compared
    fields, or, for a script that does not create, it finds none.
  \<^item> \<open>text_key\<close>, \<open>number_key\<close>: a value that a filter finds again once it is stored: a
    string or a number, whose text can stand between double quotes (in a filter such as
    \<open>name="..."\<close>) or is a decimal number (in the filter \<open>number=...\<close>).
  \<^item> \<open>scalars\<close>: each of the given fields of the payload holds a scalar.
\<close>

definition restart :: "pocketbase \<Rightarrow> pocketbase" where
  "restart pb = pb\<lparr>isValid := False, calls := []\<rparr>"

fun scalar :: "jsval \<Rightarrow> bool" where
  "scalar JNull = True"
| "scalar (JBool b) = True"
| "scalar (JNum n) = True"
| "scalar (JStr s) = True"
| "scalar v = False"

definition ids_fresh :: "pocketbase \<Rightarrow> string \<Rightarrow> bool" where
  "ids_fresh pb coll =
     (distinct (map (\<lambda>r. jget r ''id'') (colls pb coll))
      \<and> list_all (\<lambda>r. \<forall>n. fresh pb \<le> n \<longrightarrow> jget r ''id'' \<noteq> mk_id n) (colls pb coll))"

definition settled :: "obj list \<Rightarrow> string \<Rightarrow> string list \<Rightarrow> obj \<Rightarrow> bool \<Rightarrow> bool" where
  "settled rs flt fs payload creates =
     (case lookup rs flt of
        Inr existing \<Rightarrow> \<not> isChanged fs existing payload
      | Inl err \<Rightarrow> status err = 404 \<and> \<not> creates)"

definition text_key :: "jsval \<Rightarrow> bool" where
  "text_key v = (field_text v = Some (to_string v) \<and> plain (to_string v))"

definition number_key :: "jsval \<Rightarrow> bool" where
  "number_key v = (field_text v = Some (to_string v) \<and> literal (to_string v) = Some (to_string v))"

definition scalars :: "string list \<Rightarrow> obj \<Rightarrow> bool" where
  "scalars fs payload = list_all (\<lambda>f. scalar (jget payload f)) fs"

text \<open>
  A payload fits the filter that precedes it: the filter is read as the field \<open>kf\<close> and the
  text \<open>t\<close>; the fields of the payload are distinct and \<open>id\<close> is not one of them; the compared
  fields hold scalars; and the payload writes the text \<open>t\<close> to the field \<open>kf\<close>, or, in a script
  that does not create, leaves that field alone.
\<close>

definition keyed :: "string \<Rightarrow> string \<Rightarrow> string \<Rightarrow> string list \<Rightarrow> obj \<Rightarrow> bool \<Rightarrow> bool" where
  "keyed flt kf t fs payload creates =
     (parse_filter flt = Some (kf, t) \<and> kf \<noteq> ''id''
      \<and> distinct (map fst payload) \<and> ''id'' \<notin> fst ` set payload \<and> scalars fs payload
      \<and> (if kf \<in> fst ` set payload then field_text (jget payload kf) = Some t else \<not> creates))"

text \<open>
  A run, and then a second run of a new process on the store the first one left: both
  complete with status 0, the first without a \<open>'failed'\<close> verdict; the second gives
  \<open>'skipped'\<close> for each of the \<open>n\<close> items, prints the counters \<open>st\<close> and leaves every collection
  as it found it.
\<close>

definition reruns_quietly ::
  "('s \<Rightarrow> pocketbase) \<Rightarrow> (pocketbase \<Rightarrow> 's outcome option) \<Rightarrow> pocketbase \<Rightarrow> nat \<Rightarrow> stats \<Rightarrow> bool" where
  "reruns_quietly store run pb n st =
     (case run pb of
        None \<Rightarrow> False
      | Some out1 \<Rightarrow>
          exit_status out1 = 0 \<and> Failed \<notin> set (verdicts out1)
          \<and> (case run (restart (store (final out1))) of
                None \<Rightarrow> False
              | Some out2 \<Rightarrow>
                  exit_status out2 = 0 \<and> verdicts out2 = replicate n Skipped
                  \<and> summary out2 = Some st
                  \<and> colls (store (final out2)) = colls (store (final out1))))"

text \<open>
  A source whose one page lists two entries of the same name with different numbers, and a
  parties source that lists the party of the scenario.
\<close>

definition namesake :: obj where
  "namesake =
     [(''name'', JStr ''Somchai Jaidee''), (''number'', JNum 2), (''title'', JStr ''Mr''),
      (''firstName'', JStr ''Somchai''), (''lastName'', JStr ''Jaidee''),
      (''pmCandidateRank'', JNull), (''active'', JBool True),
      (''party'', JObj [(''name'', JStr ''Party A'')])]"

definition namesakes :: source where
  "namesakes =
     (\<lambda>p. Inr (if p = 1 then \<lparr>listing = Some [list_member, namesake], totalPages = TotalNum 1\<rparr>
               else \<lparr>listing = None, totalPages = TotalNum 1\<rparr>))"

definition one_party :: "string + response" where
  "one_party = Inr \<lparr>listing = Some [party_x], totalPages = NoTotal\<rparr>"

text \<open>A store that fails the lookup of one name of the party list and answers every other call.\<close>

definition one_lookup_rejected :: "pbcall \<Rightarrow> pberr option" where
  "one_lookup_rejected =
     (\<lambda>c. if c = GetFirstListItem ''partylist'' (name_filter (JStr ''Somchai Jaidee''))
          then Some (PbErr 500 ''Something went wrong.'') else None)"

text \<open>A store that holds a party, a province and an election area of that province.\<close>

definition geo :: "string \<Rightarrow> obj list" where
  "geo =
     (\<lambda>c. if c = ''parties'' then [party_a]
          else if c = ''provinces'' then [[(''id'', JStr ''pv1''), (''name'', JStr ''Chiang Mai'')]]
          else if c = ''areas''
            then [[(''id'', JStr ''a3''), (''province'', JStr ''pv1''), (''number'', JNum 3)]]
          else [])"

text \<open>
  The loop goes on after page \<open>q\<close>: the page is fetched, holds items and is not the last
  one by the script's test.
\<close>

definition goes_on :: "(nat \<Rightarrow> total \<Rightarrow> bool) \<Rightarrow> source \<Rightarrow> nat \<Rightarrow> bool" where
  "goes_on is_last src q =
     (case src q of
        Inl msg \<Rightarrow> False
      | Inr resp \<Rightarrow> or_empty (listing resp) \<noteq> [] \<and> \<not> is_last q (totalPages resp))"

text \<open>
  The loop ends at page \<open>k\<close>: the page is fetched, and it holds no item or is the last one by
  the script's test.
\<close>

definition ends_at :: "(nat \<Rightarrow> total \<Rightarrow> bool) \<Rightarrow> source \<Rightarrow> nat \<Rightarrow> bool" where
  "ends_at is_last src k =
     (case src k of
        Inl msg \<Rightarrow> False
      | Inr resp \<Rightarrow> or_empty (listing resp) = [] \<or> is_last k (totalPages resp))"

section \<open>Properties\<close>

lemma request_fields [simp]:
  "isValid (request pb c) = isValid pb"
  "colls (request pb c) = colls pb"
  "fresh (request pb c) = fresh pb"
  "fault (request pb c) = fault pb"
  "calls (request pb c) = calls pb @ [c]"
  by (simp_all add: request_def)

lemma getFirstListItem_snd:
  "snd (getFirstListItem pb coll flt) = request pb (GetFirstListItem coll flt)"
  by (simp add: getFirstListItem_def Let_def split: option.splits)

lemma literal_quoted: "plain s \<Longrightarrow> literal (quoted s) = Some s"
  by (simp add: quoted_def)

lemma parse_filter_eq:
  assumes "f \<noteq> []" and "CHR ''='' \<notin> set f"
  shows "parse_filter (f @ CHR ''='' # t) = map_option (Pair f) (literal t)"
proof -
  have "takeWhile (\<lambda>c. c \<noteq> CHR ''='') (f @ CHR ''='' # t) = f"
    using assms(2) by (induction f) auto
  with assms(1) show ?thesis by (simp add: parse_filter_def)
qed

lemma digit_chars: "list_all (\<lambda>k. digit_char k \<in> set ''0123456789'') [0..<10]"
  by code_simp

lemma digit_char_digit: "k < 10 \<Longrightarrow> digit_char k \<in> set ''0123456789''"
  using digit_chars unfolding list_all_iff by (simp del: digit_char.simps)

lemma digits_string_of_nat: "digits (string_of_nat n)"
proof (induction n rule: string_of_nat.induct)
  case (1 n)
  show ?case
  proof (cases "n < 10")
    case True
    with digit_char_digit [of n] show ?thesis
      by (simp add: string_of_nat.simps [of n] digits_def del: digit_char.simps)
  next
    case False
    with "1.IH" digit_char_digit [of "n mod 10"] show ?thesis
      by (simp add: string_of_nat.simps [of n] digits_def del: digit_char.simps)
  qed
qed

lemma literal_string_of_int: "literal (string_of_int n) = Some (string_of_int n)"
proof (cases "n < 0")
  case True
  then show ?thesis by (simp add: string_of_int_def digits_string_of_nat)
next
  case False
  from digits_string_of_nat [of "nat n"] obtain c cs where
    cs: "string_of_nat (nat n) = c # cs" and d: "digits (c # cs)"
    by (cases "string_of_nat (nat n)") (auto simp: digits_def)
  from d have "c \<in> set ''0123456789''" by (simp add: digits_def)
  then have "c \<noteq> CHR 0x22 \<and> c \<noteq> CHR ''-''" by auto
  with False cs d show ?thesis by (simp add: string_of_int_def)
qed

text \<open>What the three filters of the scripts select.\<close>

lemma lookup_name_filter:
  "plain (to_string v) \<Longrightarrow>
     lookup rs (name_filter v) =
       (case find (\<lambda>r. field_text (jget r ''name'') = Some (to_string v)) rs of
          None \<Rightarrow> Inl (PbErr 404 ''The requested resource wasn't found.'')
        | Some r \<Rightarrow> Inr r)"
  using parse_filter_eq [of "''name''" "quoted (to_string v)"]
  by (simp add: lookup_def name_filter_def literal_quoted)

lemma lookup_party_filter:
  "plain (to_string v) \<Longrightarrow>
     lookup rs (party_filter v) =
       (case find (\<lambda>r. field_text (jget r ''party'') = Some (to_string v)) rs of
          None \<Rightarrow> Inl (PbErr 404 ''The requested resource wasn't found.'')
        | Some r \<Rightarrow> Inr r)"
  using parse_filter_eq [of "''party''" "quoted (to_string v)"]
  by (simp add: lookup_def party_filter_def literal_quoted)

lemma lookup_number_filter:
  "lookup rs (number_filter (JNum n)) =
     (case find (\<lambda>r. field_text (jget r ''number'') = Some (string_of_int n)) rs of
        None \<Rightarrow> Inl (PbErr 404 ''The requested resource wasn't found.'')
      | Some r \<Rightarrow> Inr r)"
  using parse_filter_eq [of "''number''" "string_of_int n"]
  by (simp add: lookup_def number_filter_def literal_string_of_int)



lemma getFullList_fault:
  "fault pb (GetFullList coll) = Some e \<Longrightarrow> getFullList pb coll = (Inl e, request pb (GetFullList coll))"
  by (simp add: getFullList_def Let_def)

lemma getFullList_ok:
  "fault pb (GetFullList coll) = None \<Longrightarrow>
     getFullList pb coll = (Inr (colls pb coll), request pb (GetFullList coll))"
  by (simp add: getFullList_def Let_def)

lemma find_existing_fault:
  "fault pb (GetFirstListItem coll flt) = Some err \<Longrightarrow>
     find_existing pb coll flt =
       (if status err \<noteq> 404 then Inl err else Inr None, request pb (GetFirstListItem coll flt))"
  by (simp add: find_existing_def getFirstListItem_def Let_def)

lemma find_existing_ok:
  "fault pb (GetFirstListItem coll flt) = None \<Longrightarrow>
     find_existing pb coll flt =
       (case lookup (colls pb coll) flt of
          Inr r \<Rightarrow> Inr (Some r)
        | Inl err \<Rightarrow> if status err \<noteq> 404 then Inl err else Inr None,
        request pb (GetFirstListItem coll flt))"
  by (simp add: find_existing_def getFirstListItem_def Let_def split: sum.splits)

lemma try_create_fault:
  "fault pb (Create coll body) = Some err \<Longrightarrow>
     try_create pb coll body = (Failed, request pb (Create coll body))"
  by (simp add: try_create_def create_def Let_def)

lemma try_create_ok:
  "fault pb (Create coll body) = None \<Longrightarrow>
     try_create pb coll body =
       (Created,
        (request pb (Create coll body))
          \<lparr>colls := (colls pb)(coll := colls pb coll @ [(''id'', mk_id (fresh pb)) # json_body body]),
           fresh := Suc (fresh pb)\<rparr>)"
  by (simp add: try_create_def create_def Let_def)

lemma try_update_fault:
  "fault pb (Update coll rid body) = Some err \<Longrightarrow>
     try_update pb coll rid body = (Failed, request pb (Update coll rid body))"
  by (simp add: try_update_def update_def Let_def)

lemma try_update_ok:
  "fault pb (Update coll rid body) = None \<Longrightarrow>
     try_update pb coll rid body =
       (case find (\<lambda>r. jget r ''id'' = rid) (colls pb coll) of
          None \<Rightarrow> (Failed, request pb (Update coll rid body))
        | Some r \<Rightarrow>
            (Updated,
             (request pb (Update coll rid body))
               \<lparr>colls := (colls pb)(coll := update_first rid (json_body body) (colls pb coll))\<rparr>))"
  by (simp add: try_update_def update_def Let_def split: option.splits)

lemma foldl_upd_map_of:
  "foldl (\<lambda>m r. m(kf r \<mapsto> vf r)) m0 rs = m0 ++ map_of (rev (map (\<lambda>r. (kf r, vf r)) rs))"
  by (induction rs arbitrary: m0) (simp_all add: map_add_upd_left)

lemma cache_names_map_of:
  "cache_names rs = map_of (rev (map (\<lambda>r. (jget r ''name'', jget r ''id'')) rs))"
  by (simp add: cache_names_def foldl_upd_map_of)

text \<open>The three ways through the template.\<close>

lemma reconcile_lookup_error:
  "fault pb (GetFirstListItem coll flt) = Some err \<Longrightarrow> status err \<noteq> 404 \<Longrightarrow>
     reconcile pb coll flt fs payload creates = (Failed, request pb (GetFirstListItem coll flt))"
  by (simp add: reconcile_def find_existing_fault)

lemma reconcile_lookup_404:
  "fault pb (GetFirstListItem coll flt) = Some err \<Longrightarrow> status err = 404 \<Longrightarrow>
     reconcile pb coll flt fs payload creates =
       (if creates then try_create (request pb (GetFirstListItem coll flt)) coll payload
        else (Skipped, request pb (GetFirstListItem coll flt)))"
  by (simp add: reconcile_def find_existing_fault)

lemma reconcile_absent:
  "fault pb (GetFirstListItem coll flt) = None \<Longrightarrow> lookup (colls pb coll) flt = Inl err \<Longrightarrow>
   status err = 404 \<Longrightarrow>
     reconcile pb coll flt fs payload creates =
       (if creates then try_create (request pb (GetFirstListItem coll flt)) coll payload
        else (Skipped, request pb (GetFirstListItem coll flt)))"
  by (simp add: reconcile_def find_existing_ok)

lemma reconcile_found:
  "fault pb (GetFirstListItem coll flt) = None \<Longrightarrow>
   lookup (colls pb coll) flt = Inr existing \<Longrightarrow>
     reconcile pb coll flt fs payload creates =
       (if isChanged fs existing payload
        then try_update (request pb (GetFirstListItem coll flt)) coll (jget existing ''id'') payload
        else (Skipped, request pb (GetFirstListItem coll flt)))"
  by (simp add: reconcile_def find_existing_ok)

lemma find_existing_not_found:
  "not_found pb coll flt \<Longrightarrow>
     find_existing pb coll flt = (Inr None, request pb (GetFirstListItem coll flt))"
  using getFirstListItem_snd [of pb coll flt]
  by (cases "getFirstListItem pb coll flt") (auto simp: not_found_def find_existing_def split: sum.splits)

lemma reconcile_not_found:
  "not_found pb coll flt \<Longrightarrow>
     reconcile pb coll flt fs payload creates =
       (if creates then try_create (request pb (GetFirstListItem coll flt)) coll payload
        else (Skipped, request pb (GetFirstListItem coll flt)))"
  by (simp add: reconcile_def find_existing_not_found)

lemma not_found_frame:
  "fault pb' = fault pb \<Longrightarrow> colls pb' = colls pb \<Longrightarrow>
     not_found pb' coll flt = not_found pb coll flt"
  by (simp add: not_found_def getFirstListItem_def Let_def split: option.splits)

text \<open>Which scripts are instances of the template.\<close>

lemma syncItem_partylist_reconcile:
  "syncItem_partylist s item =
     (case getPartyId (fst s) (snd s) (opt_member (jget item ''party'') ''name'') of
        (partyId, pb1, partyCache) \<Rightarrow>
          (case reconcile pb1 ''partylist'' (name_filter (jget item ''name'')) fields_partylist
                  (payload_partylist item partyId) True of
             (v, pb3) \<Rightarrow> (v, (pb3, partyCache))))"
  by (simp add: syncItem_partylist_def reconcile_def Let_def
      split: prod.splits sum.splits option.splits)

lemma syncItem_referendum_reconcile:
  "syncItem_referendum pb item =
     (case options_find (jget item ''options'') ''agree'' of
        Inl e \<Rightarrow> (Inl e, pb)
      | Inr agreeOption \<Rightarrow>
     (case options_find (jget item ''options'') ''disagree'' of
        Inl e \<Rightarrow> (Inl e, pb)
      | Inr disagreeOption \<Rightarrow>
          (case reconcile pb ''referendum'' (number_filter (jget item ''questionNumber'')) fields_referendum
                  (payload_referendum item agreeOption disagreeOption) True of
             (v, pb3) \<Rightarrow> (Inr v, pb3))))"
  by (simp add: syncItem_referendum_def reconcile_def Let_def
      split: prod.splits sum.splits option.splits)


lemma getPartyId_frame:
  "getPartyId pb c k = (pid, pb1, c1) \<Longrightarrow>
     fault pb1 = fault pb \<and> colls pb1 = colls pb \<and> fresh pb1 = fresh pb \<and> isValid pb1 = isValid pb"
  by (auto simp: getPartyId_def getFullList_def Let_def split: option.splits)

lemma sync_items_length:
  "sync_items f s items = (vs, s') \<Longrightarrow> length vs = length items"
  by (induction items arbitrary: s vs s') (auto split: prod.splits)

lemma length_sync_items: "length (fst (sync_items f s items)) = length items"
  using sync_items_length [of f s items] by (cases "sync_items f s items") simp

lemma sync_items_append:
  "sync_items f s (xs @ ys) =
     (case sync_items f s xs of
        (vs, s1) \<Rightarrow> (case sync_items f s1 ys of (ws, s2) \<Rightarrow> (vs @ ws, s2)))"
  by (induction xs arbitrary: s) (auto split: prod.splits)

lemma sync_items_throwing_ok:
  "list_all (\<lambda>item. \<forall>s. \<exists>v. fst (f s item) = Inr v) items \<Longrightarrow>
     fst (sync_items_throwing f s items) = Inr ()
     \<and> length (fst (snd (sync_items_throwing f s items))) = length items"
proof (induction items arbitrary: s)
  case Nil
  then show ?case by simp
next
  case (Cons item items)
  from Cons.prems obtain v where v: "fst (f s item) = Inr v" by auto
  obtain s1 where s1: "f s item = (Inr v, s1)" using v by (cases "f s item") auto
  from Cons.prems have "list_all (\<lambda>item. \<forall>s. \<exists>v. fst (f s item) = Inr v) items" by simp
  from Cons.IH [OF this, of s1] show ?case
    by (cases "sync_items_throwing f s1 items") (simp add: s1)
qed

lemma syncItem_referendum_throws:
  "(\<exists>e. fst (syncItem_referendum pb item) = Inl e) \<longleftrightarrow>
     (\<exists>e. options_find (jget item ''options'') ''agree'' = Inl e)
     \<or> (\<exists>e. options_find (jget item ''options'') ''disagree'' = Inl e)"
  by (auto simp: syncItem_referendum_reconcile split: sum.splits prod.splits)

lemmas sample_defs =
  client_def no_records_def no_fault_def with_parties_def party_a_def lists_rejected_def
  lookups_rejected_def creates_rejected_def updates_rejected_def list_member_def question_def

lemmas filter_simps = lookup_name_filter lookup_party_filter lookup_number_filter plain_def

lemma getPartyId_results_frame:
  "getPartyId_results env pb c k = (pid, pb1, c1) \<Longrightarrow>
     fault pb1 = fault pb \<and> colls pb1 = colls pb \<and> fresh pb1 = fresh pb \<and> isValid pb1 = isValid pb"
  by (auto simp: getPartyId_results_def getFullList_def Let_def split: option.splits)

lemma getPartyId_results_load_failed:
  "fault pb (GetFullList (parties_collection env)) = Some e \<Longrightarrow>
     fst (getPartyId_results env pb None k) = JUndefined"
  by (simp add: getPartyId_results_def getFullList_fault map_get_def)

lemma getPartyId_results_same:
  "fault pb' = fault pb \<Longrightarrow>
   colls pb' (parties_collection env) = colls pb (parties_collection env) \<Longrightarrow>
     fst (getPartyId_results env pb' None k) = fst (getPartyId_results env pb None k)"
  by (simp add: getPartyId_results_def getFullList_def Let_def split: option.splits)

lemma syncItem_results_unresolved:
  assumes g: "getPartyId_results env pb c (opt_member (jget item ''party'') ''name'') = (partyId, pb1, c1)"
    and u: "\<not> truthy partyId"
  shows "syncItem_results env (pb, c) item =
      (case try_create pb1 ''partylistResults'' (payload_results item partyId) of
         (v, pb3) \<Rightarrow> (v, (pb3, c1)))"
  using u by (simp add: syncItem_results_def g)

text \<open>One run of the script on a single item, in a new process: the cache starts empty.\<close>

lemma results_run_created:
  assumes u: "\<not> truthy (fst (getPartyId_results env pb None (opt_member (jget item ''party'') ''name'')))"
    and ok: "fault pb (Create ''partylistResults''
        (payload_results item (fst (getPartyId_results env pb None (opt_member (jget item ''party'') ''name''))))) = None"
  shows "fst (syncItem_results env (pb, None) item) = Created"
    and "fault (fst (snd (syncItem_results env (pb, None) item))) = fault pb"
    and "colls (fst (snd (syncItem_results env (pb, None) item))) =
      (colls pb)(''partylistResults'' := colls pb ''partylistResults'' @
         [(''id'', mk_id (fresh pb)) # json_body (payload_results item
            (fst (getPartyId_results env pb None (opt_member (jget item ''party'') ''name''))))])"
proof -
  obtain pid pb1 c1 where
    g: "getPartyId_results env pb None (opt_member (jget item ''party'') ''name'') = (pid, pb1, c1)"
    by (metis prod_cases3)
  from getPartyId_results_frame [OF g]
  have fr: "fault pb1 = fault pb" "colls pb1 = colls pb" "fresh pb1 = fresh pb" by simp_all
  from u g have u': "\<not> truthy pid" by simp
  from ok g have ok': "fault pb1 (Create ''partylistResults'' (payload_results item pid)) = None"
    by (simp add: fr)
  note step = syncItem_results_unresolved [OF g u']
  show "fst (syncItem_results env (pb, None) item) = Created"
    by (simp add: step try_create_ok [OF ok'])
  show "fault (fst (snd (syncItem_results env (pb, None) item))) = fault pb"
    by (simp add: step try_create_ok [OF ok'] fr)
  show "colls (fst (snd (syncItem_results env (pb, None) item))) =
      (colls pb)(''partylistResults'' := colls pb ''partylistResults'' @
         [(''id'', mk_id (fresh pb)) # json_body (payload_results item
            (fst (getPartyId_results env pb None (opt_member (jget item ''party'') ''name''))))])"
    by (simp add: step try_create_ok [OF ok'] fr g)
qed

lemma results_runs:
  assumes ne: "parties_collection env \<noteq> ''partylistResults''"
    and u: "\<not> truthy (fst (getPartyId_results env pb None (opt_member (jget item ''party'') ''name'')))"
    and ok: "fault pb (Create ''partylistResults''
        (payload_results item (fst (getPartyId_results env pb None (opt_member (jget item ''party'') ''name''))))) = None"
  shows "fault (((\<lambda>p. fst (snd (syncItem_results env (p, None) item))) ^^ n) pb) = fault pb
    \<and> colls (((\<lambda>p. fst (snd (syncItem_results env (p, None) item))) ^^ n) pb) (parties_collection env)
        = colls pb (parties_collection env)
    \<and> length (colls (((\<lambda>p. fst (snd (syncItem_results env (p, None) item))) ^^ n) pb) ''partylistResults'')
        = length (colls pb ''partylistResults'') + n
    \<and> fst (syncItem_results env (((\<lambda>p. fst (snd (syncItem_results env (p, None) item))) ^^ n) pb, None) item)
        = Created"
proof (induction n)
  case 0
  show ?case using results_run_created(1) [OF u ok] by simp
next
  case (Suc n)
  let ?run = "\<lambda>p. fst (snd (syncItem_results env (p, None) item))"
  let ?p = "(?run ^^ n) pb"
  let ?k = "opt_member (jget item ''party'') ''name''"
  from Suc.IH have f: "fault ?p = fault pb"
    and c: "colls ?p (parties_collection env) = colls pb (parties_collection env)"
    and l: "length (colls ?p ''partylistResults'') = length (colls pb ''partylistResults'') + n"
    by simp_all
  have same: "fst (getPartyId_results env ?p None ?k) = fst (getPartyId_results env pb None ?k)"
    by (rule getPartyId_results_same [OF f c])
  have u': "\<not> truthy (fst (getPartyId_results env ?p None ?k))" using u same by simp
  have ok': "fault ?p (Create ''partylistResults''
        (payload_results item (fst (getPartyId_results env ?p None ?k)))) = None"
    using ok same f by simp
  note r = results_run_created [OF u' ok']
  have f2: "fault (?run ?p) = fault pb" using r(2) f by simp
  have c2: "colls (?run ?p) (parties_collection env) = colls pb (parties_collection env)"
    using r(3) c ne by simp
  have l2: "length (colls (?run ?p) ''partylistResults'') = length (colls pb ''partylistResults'') + Suc n"
    using r(3) l by simp
  have same2: "fst (getPartyId_results env (?run ?p) None ?k) = fst (getPartyId_results env pb None ?k)"
    by (rule getPartyId_results_same [OF f2 c2])
  have u2: "\<not> truthy (fst (getPartyId_results env (?run ?p) None ?k))" using u same2 by simp
  have ok2: "fault (?run ?p) (Create ''partylistResults''
        (payload_results item (fst (getPartyId_results env (?run ?p) None ?k)))) = None"
    using ok same2 f2 by simp
  have v2: "fst (syncItem_results env (?run ?p, None) item) = Created"
    by (rule results_run_created(1) [OF u2 ok2])
  from f2 c2 l2 v2 show ?case by simp
qed

text \<open>
  C10. The partylist results sync looks the record up only inside \<open>if (partyId)\<close>. For an
  item whose party does not resolve (in particular when the party cache failed to load) the
  only call after the resolution is the create: no lookup is made. When the store accepts
  the create the verdict is \<open>'created'\<close> and a record without a party is appended; a rejected
  create gives \<open>'failed'\<close>. Run after run (each run a new process, so with an empty cache) the
  item is created again: after \<open>n\<close> runs the collection holds \<open>n\<close> more records.
\<close>

theorem results_lookup_gated:
  assumes g: "getPartyId_results env pb c (opt_member (jget item ''party'') ''name'') = (partyId, pb1, c1)"
    and u: "\<not> truthy partyId"
  shows
    "(\<forall>e. fault pb (Create ''partylistResults'' (payload_results item partyId)) = Some e \<longrightarrow>
        syncItem_results env (pb, c) item =
          (Failed, (request pb1 (Create ''partylistResults'' (payload_results item partyId)), c1)))
     \<and> (fault pb (Create ''partylistResults'' (payload_results item partyId)) = None \<longrightarrow>
        syncItem_results env (pb, c) item =
          (Created,
           ((request pb1 (Create ''partylistResults'' (payload_results item partyId)))
              \<lparr>colls := (colls pb)(''partylistResults'' := colls pb ''partylistResults'' @
                   [(''id'', mk_id (fresh pb)) # json_body (payload_results item partyId)]),
               fresh := Suc (fresh pb)\<rparr>,
            c1)))
     \<and> (partyId = JUndefined \<longrightarrow>
          jget ((''id'', mk_id (fresh pb)) # json_body (payload_results item partyId)) ''party''
            = JUndefined)
     \<and> ((\<exists>e. c = None \<and> fault pb (GetFullList (parties_collection env)) = Some e) \<longrightarrow>
          partyId = JUndefined)
     \<and> (c = None \<and> parties_collection env \<noteq> ''partylistResults''
         \<and> fault pb (Create ''partylistResults'' (payload_results item partyId)) = None \<longrightarrow>
          (\<forall>n. fst (syncItem_results env
                   (((\<lambda>p. fst (snd (syncItem_results env (p, None) item))) ^^ n) pb, None) item)
                 = Created
               \<and> length (colls (((\<lambda>p. fst (snd (syncItem_results env (p, None) item))) ^^ n) pb)
                           ''partylistResults'')
                 = length (colls pb ''partylistResults'') + n))"
proof -
  from getPartyId_results_frame [OF g]
  have fr: "fault pb1 = fault pb" "colls pb1 = colls pb" "fresh pb1 = fresh pb" by simp_all
  note step = syncItem_results_unresolved [OF g u]
  have 1: "\<forall>e. fault pb (Create ''partylistResults'' (payload_results item partyId)) = Some e \<longrightarrow>
        syncItem_results env (pb, c) item =
          (Failed, (request pb1 (Create ''partylistResults'' (payload_results item partyId)), c1))"
    by (simp add: step try_create_fault fr)
  have 2: "fault pb (Create ''partylistResults'' (payload_results item partyId)) = None \<longrightarrow>
        syncItem_results env (pb, c) item =
          (Created,
           ((request pb1 (Create ''partylistResults'' (payload_results item partyId)))
              \<lparr>colls := (colls pb)(''partylistResults'' := colls pb ''partylistResults'' @
                   [(''id'', mk_id (fresh pb)) # json_body (payload_results item partyId)]),
               fresh := Suc (fresh pb)\<rparr>,
            c1))"
    by (simp add: step try_create_ok fr)
  have 3: "partyId = JUndefined \<longrightarrow>
          jget ((''id'', mk_id (fresh pb)) # json_body (payload_results item partyId)) ''party''
            = JUndefined"
    by (simp add: jget_def json_body_def payload_results_def split: option.splits)
  have 4: "(\<exists>e. c = None \<and> fault pb (GetFullList (parties_collection env)) = Some e) \<longrightarrow>
          partyId = JUndefined"
    using g getPartyId_results_load_failed [of pb env _ "opt_member (jget item ''party'') ''name''"]
    by auto
  have 5: "c = None \<and> parties_collection env \<noteq> ''partylistResults''
         \<and> fault pb (Create ''partylistResults'' (payload_results item partyId)) = None \<longrightarrow>
          (\<forall>n. fst (syncItem_results env
                   (((\<lambda>p. fst (snd (syncItem_results env (p, None) item))) ^^ n) pb, None) item)
                 = Created
               \<and> length (colls (((\<lambda>p. fst (snd (syncItem_results env (p, None) item))) ^^ n) pb)
                           ''partylistResults'')
                 = length (colls pb ''partylistResults'') + n)"
  proof (intro impI allI)
    fix n
    assume h: "c = None \<and> parties_collection env \<noteq> ''partylistResults''
         \<and> fault pb (Create ''partylistResults'' (payload_results item partyId)) = None"
    from h g have pid: "fst (getPartyId_results env pb None (opt_member (jget item ''party'') ''name'')) = partyId"
      by simp
    have u': "\<not> truthy (fst (getPartyId_results env pb None (opt_member (jget item ''party'') ''name'')))"
      using u pid by simp
    have ok': "fault pb (Create ''partylistResults''
        (payload_results item (fst (getPartyId_results env pb None (opt_member (jget item ''party'') ''name''))))) = None"
      using h pid by simp
    from h have ne: "parties_collection env \<noteq> ''partylistResults''" by simp
    from results_runs [OF ne u' ok', of n]
    show "fst (syncItem_results env
                   (((\<lambda>p. fst (snd (syncItem_results env (p, None) item))) ^^ n) pb, None) item)
                 = Created
               \<and> length (colls (((\<lambda>p. fst (snd (syncItem_results env (p, None) item))) ^^ n) pb)
                           ''partylistResults'')
                 = length (colls pb ''partylistResults'') + n"
      by simp
  qed
  from 1 2 3 4 5 show ?thesis by (intro conjI)
qed

theorem results_lookup_gated_witness:
  "syncItem_results None (client no_records no_fault, None) result_item =
     (Created,
      ((request (request (client no_records no_fault) (GetFullList ''parties''))
          (Create ''partylistResults'' (payload_results result_item JUndefined)))
         \<lparr>colls := (colls (client no_records no_fault))
             (''partylistResults'' := colls (client no_records no_fault) ''partylistResults'' @
                [(''id'', mk_id (fresh (client no_records no_fault)))
                 # json_body (payload_results result_item JUndefined)]),
          fresh := Suc (fresh (client no_records no_fault))\<rparr>,
       Some Map.empty))
   \<and> length (colls (((\<lambda>p. fst (snd (syncItem_results None (p, None) result_item))) ^^ 3)
                       (client no_records no_fault)) ''partylistResults'') = 3
   \<and> fst (syncItem_results None (client with_parties lists_rejected, None) list_member) = Created
   \<and> fst (syncItem_results None (client no_records creates_rejected, None) result_item) = Failed"
proof -
  let ?pb = "client no_records no_fault"
  let ?pl = "client with_parties lists_rejected"
  let ?pc = "client no_records creates_rejected"
  have g: "getPartyId_results None ?pb None (opt_member (jget result_item ''party'') ''name'')
      = (JUndefined, request ?pb (GetFullList ''parties''), Some Map.empty)"
    by (simp add: getPartyId_results_def getFullList_def Let_def sample_defs parties_collection_def
        cache_names_def map_get_def)
  have gl: "getPartyId_results None ?pl None (opt_member (jget list_member ''party'') ''name'')
      = (JUndefined, request ?pl (GetFullList ''parties''), Some Map.empty)"
    by (simp add: getPartyId_results_def getFullList_def Let_def sample_defs parties_collection_def
        cache_names_def map_get_def)
  have gc: "getPartyId_results None ?pc None (opt_member (jget result_item ''party'') ''name'')
      = (JUndefined, request ?pc (GetFullList ''parties''), Some Map.empty)"
    by (simp add: getPartyId_results_def getFullList_def Let_def sample_defs parties_collection_def
        cache_names_def map_get_def)
  have u: "\<not> truthy JUndefined" by simp
  have ok: "fault ?pb (Create ''partylistResults'' (payload_results result_item JUndefined)) = None"
    by (simp add: client_def no_fault_def)
  have okl: "fault ?pl (Create ''partylistResults'' (payload_results list_member JUndefined)) = None"
    by (simp add: client_def lists_rejected_def)
  have rej: "fault ?pc (Create ''partylistResults'' (payload_results result_item JUndefined))
      = Some (PbErr 400 ''Failed to create record.'')"
    by (simp add: client_def creates_rejected_def)
  have ne: "parties_collection None \<noteq> ''partylistResults''"
    by (simp add: parties_collection_def)
  note t1 = results_lookup_gated [OF g u]
  note t2 = results_lookup_gated [OF gl u]
  note t3 = results_lookup_gated [OF gc u]
  have 1: "syncItem_results None (?pb, None) result_item =
     (Created,
      ((request (request ?pb (GetFullList ''parties''))
          (Create ''partylistResults'' (payload_results result_item JUndefined)))
         \<lparr>colls := (colls ?pb)
             (''partylistResults'' := colls ?pb ''partylistResults'' @
                [(''id'', mk_id (fresh ?pb)) # json_body (payload_results result_item JUndefined)]),
          fresh := Suc (fresh ?pb)\<rparr>,
       Some Map.empty))"
    using t1 ok by simp
  have "length (colls (((\<lambda>p. fst (snd (syncItem_results None (p, None) result_item))) ^^ 3) ?pb)
                  ''partylistResults'')
      = length (colls ?pb ''partylistResults'') + 3"
    using t1 ok ne by simp
  then have 2: "length (colls (((\<lambda>p. fst (snd (syncItem_results None (p, None) result_item))) ^^ 3) ?pb)
                  ''partylistResults'') = 3"
    by (simp add: client_def no_records_def)
  have 3: "fst (syncItem_results None (?pl, None) list_member) = Created"
    using t2 okl by simp
  have 4: "fst (syncItem_results None (?pc, None) result_item) = Failed"
    using t3 rej by simp
  from 1 2 3 4 show ?thesis by simp
qed

lemma try_create_calls: "calls (snd (try_create pb coll body)) = calls pb @ [Create coll body]"
  by (cases "fault pb (Create coll body)") (simp_all add: try_create_fault try_create_ok)

lemma try_create_verdict:
  "fst (try_create pb coll body) = (if fault pb (Create coll body) = None then Created else Failed)"
  by (cases "fault pb (Create coll body)") (simp_all add: try_create_fault try_create_ok)

lemma try_create_colls:
  "colls (snd (try_create pb coll body)) =
     (if fault pb (Create coll body) = None
      then (colls pb)(coll := colls pb coll @ [(''id'', mk_id (fresh pb)) # json_body body])
      else colls pb)"
  by (cases "fault pb (Create coll body)") (simp_all add: try_create_fault try_create_ok)

lemma map_of_filter_absent: "k \<notin> fst ` set P \<Longrightarrow> map_of (filter Q P) k = None"
  by (induction P) auto

lemma jget_json_body: "distinct (map fst P) \<Longrightarrow> jget (json_body P) k = jget P k"
proof (induction P)
  case Nil
  then show ?case by (simp add: json_body_def)
next
  case (Cons kv P)
  then have ih: "jget (json_body P) k = jget P k" and nk: "fst kv \<notin> fst ` set P" by simp_all
  show ?case
  proof (cases "fst kv = k")
    case True
    with nk have "map_of (filter (\<lambda>kv. snd kv \<noteq> JUndefined) P) k = None"
      by (simp add: map_of_filter_absent)
    with True show ?thesis by (cases kv) (simp add: jget_def json_body_def)
  next
    case False
    with ih show ?thesis by (cases kv) (simp add: jget_def json_body_def)
  qed
qed

lemma jget_created: "k \<noteq> ''id'' \<Longrightarrow> distinct (map fst P) \<Longrightarrow>
    jget ((''id'', i) # json_body P) k = jget P k"
  using jget_json_body [of P k] by (simp add: jget_def)

lemma getProvinceId_frame:
  "getProvinceId pb c k = (pid, pb1, c1) \<Longrightarrow>
     fault pb1 = fault pb \<and> colls pb1 = colls pb \<and> fresh pb1 = fresh pb \<and> isValid pb1 = isValid pb"
  by (auto simp: getProvinceId_def getFullList_def Let_def split: option.splits)

lemma syncItem_candidates_reconcile:
  "syncItem_candidates s item =
     (case getPartyId (fst s) (fst (snd s)) (opt_member (jget item ''party'') ''name'') of
        (partyId, pb0, partyCache) \<Rightarrow>
     (case getProvinceId pb0 (snd (snd s)) (jget item ''provinceName'') of
        (provinceId, pb1, provinceCache) \<Rightarrow>
          (case reconcile pb1 ''candidates'' (name_filter (jget item ''name'')) fields_candidates
                  (payload_candidates item partyId provinceId) True of
             (v, pb3) \<Rightarrow> (v, (pb3, partyCache, provinceCache)))))"
  by (simp add: syncItem_candidates_def reconcile_def Let_def
      split: prod.splits sum.splits option.splits)

lemma syncItem_areas_reconcile:
  "syncItem_areas s item =
     (case getProvinceId (fst s) (snd s) (opt_member (jget item ''province'') ''name'') of
        (provinceId, pb1, provinceCache) \<Rightarrow>
          (case reconcile pb1 ''areas'' (name_filter (jget item ''name'')) fields_areas
                  (payload_areas item provinceId) True of
             (v, pb3) \<Rightarrow> (v, (pb3, provinceCache))))"
  by (simp add: syncItem_areas_def reconcile_def Let_def
      split: prod.splits sum.splits option.splits)

lemma syncItem_score_reconcile:
  "syncItem_score s item =
     (case reconcile (fst s) ''candidates'' (name_filter (jget item ''name'')) fields_score
             (payload_score item) False of
        (v, pb3) \<Rightarrow> (v, (pb3, ())))"
  by (simp add: syncItem_score_def reconcile_def Let_def
      split: prod.splits sum.splits option.splits)

lemma syncItem_province_statistics_reconcile:
  "syncItem_province_statistics s item =
     (case reconcile (fst s) ''provinces'' (name_filter (jget item ''provinceName''))
             fields_province_statistics (payload_province_statistics item) False of
        (v, pb3) \<Rightarrow> (v, (pb3, ())))"
  by (simp add: syncItem_province_statistics_def reconcile_def Let_def
      split: prod.splits sum.splits option.splits)

lemma syncItem_parties_not_found:
  "not_found pb ''parties'' (name_filter (jget item ''name'')) \<Longrightarrow>
     syncItem_parties (pb, ()) item =
       (case try_create (request pb (GetFirstListItem ''parties'' (name_filter (jget item ''name''))))
               ''parties'' (payload_parties item) of
          (v, pb3) \<Rightarrow> (v, (pb3, ())))"
  by (simp add: syncItem_parties_def find_existing_not_found)


text \<open>
  C3 (as amended). When the lookup of the item's natural key answers "not found":
  the update-only scripts (candidate score, province statistics) return \<open>'skipped'\<close> and the
  lookup is their only call; the scripts that create (partylist, parties, areas, candidates,
  referendum) make exactly one further call, the create with the payload they built, and
  return \<open>'created'\<close> when the store accepts it, appending a record whose natural key is the
  item's, and \<open>'failed'\<close> when the store rejects it, leaving the collections as they were.
\<close>

theorem absent_record_create_or_skip:
  assumes gp: "getPartyId pb c (opt_member (jget item ''party'') ''name'') = (partyId, pb1, c1)"
    and gc: "getPartyId pb cp (opt_member (jget item ''party'') ''name'') = (cPartyId, pbA, cpA)"
    and gv: "getProvinceId pbA cv (jget item ''provinceName'') = (cProvinceId, pbB, cvB)"
    and ga: "getProvinceId pb ca (opt_member (jget item ''province'') ''name'') = (aProvinceId, pbC, caC)"
    and oa: "options_find (jget q ''options'') ''agree'' = Inr agreeOption"
    and od: "options_find (jget q ''options'') ''disagree'' = Inr disagreeOption"
  shows
    "(not_found pb ''candidates'' (name_filter (jget item ''name'')) \<longrightarrow>
        syncItem_score (pb, ()) item =
          (Skipped, (request pb (GetFirstListItem ''candidates'' (name_filter (jget item ''name''))), ())))
     \<and> (not_found pb ''provinces'' (name_filter (jget item ''provinceName'')) \<longrightarrow>
        syncItem_province_statistics (pb, ()) item =
          (Skipped,
           (request pb (GetFirstListItem ''provinces'' (name_filter (jget item ''provinceName''))), ())))
     \<and> (not_found pb ''partylist'' (name_filter (jget item ''name'')) \<longrightarrow>
        calls (fst (snd (syncItem_partylist (pb, c) item))) =
          calls pb1 @ [GetFirstListItem ''partylist'' (name_filter (jget item ''name'')),
                       Create ''partylist'' (payload_partylist item partyId)]
        \<and> fst (syncItem_partylist (pb, c) item)
            = (if fault pb (Create ''partylist'' (payload_partylist item partyId)) = None
               then Created else Failed)
        \<and> colls (fst (snd (syncItem_partylist (pb, c) item))) =
            (if fault pb (Create ''partylist'' (payload_partylist item partyId)) = None
             then (colls pb)(''partylist'' := colls pb ''partylist'' @
                    [(''id'', mk_id (fresh pb)) # json_body (payload_partylist item partyId)])
             else colls pb))
     \<and> (not_found pb ''parties'' (name_filter (jget item ''name'')) \<longrightarrow>
        calls (fst (snd (syncItem_parties (pb, ()) item))) =
          calls pb @ [GetFirstListItem ''parties'' (name_filter (jget item ''name'')),
                      Create ''parties'' (payload_parties item)]
        \<and> fst (syncItem_parties (pb, ()) item)
            = (if fault pb (Create ''parties'' (payload_parties item)) = None
               then Created else Failed)
        \<and> colls (fst (snd (syncItem_parties (pb, ()) item))) =
            (if fault pb (Create ''parties'' (payload_parties item)) = None
             then (colls pb)(''parties'' := colls pb ''parties'' @
                    [(''id'', mk_id (fresh pb)) # json_body (payload_parties item)])
             else colls pb))
     \<and> (not_found pb ''areas'' (name_filter (jget item ''name'')) \<longrightarrow>
        calls (fst (snd (syncItem_areas (pb, ca) item))) =
          calls pbC @ [GetFirstListItem ''areas'' (name_filter (jget item ''name'')),
                       Create ''areas'' (payload_areas item aProvinceId)]
        \<and> fst (syncItem_areas (pb, ca) item)
            = (if fault pb (Create ''areas'' (payload_areas item aProvinceId)) = None
               then Created else Failed)
        \<and> colls (fst (snd (syncItem_areas (pb, ca) item))) =
            (if fault pb (Create ''areas'' (payload_areas item aProvinceId)) = None
             then (colls pb)(''areas'' := colls pb ''areas'' @
                    [(''id'', mk_id (fresh pb)) # json_body (payload_areas item aProvinceId)])
             else colls pb))
     \<and> (not_found pb ''candidates'' (name_filter (jget item ''name'')) \<longrightarrow>
        calls (fst (snd (syncItem_candidates (pb, cp, cv) item))) =
          calls pbB @ [GetFirstListItem ''candidates'' (name_filter (jget item ''name'')),
                       Create ''candidates'' (payload_candidates item cPartyId cProvinceId)]
        \<and> fst (syncItem_candidates (pb, cp, cv) item)
            = (if fault pb (Create ''candidates'' (payload_candidates item cPartyId cProvinceId)) = None
               then Created else Failed)
        \<and> colls (fst (snd (syncItem_candidates (pb, cp, cv) item))) =
            (if fault pb (Create ''candidates'' (payload_candidates item cPartyId cProvinceId)) = None
             then (colls pb)(''candidates'' := colls pb ''candidates'' @
                    [(''id'', mk_id (fresh pb))
                     # json_body (payload_candidates item cPartyId cProvinceId)])
             else colls pb))
     \<and> (not_found pb ''referendum'' (number_filter (jget q ''questionNumber'')) \<longrightarrow>
        calls (snd (syncItem_referendum pb q)) =
          calls pb @ [GetFirstListItem ''referendum'' (number_filter (jget q ''questionNumber'')),
                      Create ''referendum'' (payload_referendum q agreeOption disagreeOption)]
        \<and> fst (syncItem_referendum pb q)
            = (if fault pb (Create ''referendum''
                     (payload_referendum q agreeOption disagreeOption)) = None
               then Inr Created else Inr Failed)
        \<and> colls (snd (syncItem_referendum pb q)) =
            (if fault pb (Create ''referendum''
                   (payload_referendum q agreeOption disagreeOption)) = None
             then (colls pb)(''referendum'' := colls pb ''referendum'' @
                    [(''id'', mk_id (fresh pb))
                     # json_body (payload_referendum q agreeOption disagreeOption)])
             else colls pb))
     \<and> jget ((''id'', mk_id (fresh pb)) # json_body (payload_partylist item partyId)) ''name''
         = jget item ''name''
     \<and> jget ((''id'', mk_id (fresh pb)) # json_body (payload_parties item)) ''name''
         = jget item ''name''
     \<and> jget ((''id'', mk_id (fresh pb)) # json_body (payload_areas item aProvinceId)) ''name''
         = jget item ''name''
     \<and> jget ((''id'', mk_id (fresh pb)) # json_body (payload_candidates item cPartyId cProvinceId))
           ''name'' = jget item ''name''
     \<and> jget ((''id'', mk_id (fresh pb))
              # json_body (payload_referendum q agreeOption disagreeOption)) ''number''
         = jget q ''questionNumber''"
proof -
  from getPartyId_frame [OF gp]
  have f1: "fault pb1 = fault pb" "colls pb1 = colls pb" "fresh pb1 = fresh pb" by simp_all
  from getPartyId_frame [OF gc]
  have fA: "fault pbA = fault pb" "colls pbA = colls pb" "fresh pbA = fresh pb" by simp_all
  from getProvinceId_frame [OF gv] fA
  have fB: "fault pbB = fault pb" "colls pbB = colls pb" "fresh pbB = fresh pb" by simp_all
  from getProvinceId_frame [OF ga]
  have fC: "fault pbC = fault pb" "colls pbC = colls pb" "fresh pbC = fresh pb" by simp_all
  have u1: "not_found pb ''candidates'' (name_filter (jget item ''name'')) \<longrightarrow>
        syncItem_score (pb, ()) item =
          (Skipped, (request pb (GetFirstListItem ''candidates'' (name_filter (jget item ''name''))), ()))"
    by (simp add: syncItem_score_reconcile reconcile_not_found)
  have u2: "not_found pb ''provinces'' (name_filter (jget item ''provinceName'')) \<longrightarrow>
        syncItem_province_statistics (pb, ()) item =
          (Skipped,
           (request pb (GetFirstListItem ''provinces'' (name_filter (jget item ''provinceName''))), ()))"
    by (simp add: syncItem_province_statistics_reconcile reconcile_not_found)
  have k1: "not_found pb ''partylist'' (name_filter (jget item ''name'')) \<longrightarrow>
        calls (fst (snd (syncItem_partylist (pb, c) item))) =
          calls pb1 @ [GetFirstListItem ''partylist'' (name_filter (jget item ''name'')),
                       Create ''partylist'' (payload_partylist item partyId)]
        \<and> fst (syncItem_partylist (pb, c) item)
            = (if fault pb (Create ''partylist'' (payload_partylist item partyId)) = None
               then Created else Failed)
        \<and> colls (fst (snd (syncItem_partylist (pb, c) item))) =
            (if fault pb (Create ''partylist'' (payload_partylist item partyId)) = None
             then (colls pb)(''partylist'' := colls pb ''partylist'' @
                    [(''id'', mk_id (fresh pb)) # json_body (payload_partylist item partyId)])
             else colls pb)"
  proof
    assume nf: "not_found pb ''partylist'' (name_filter (jget item ''name''))"
    then have nf1: "not_found pb1 ''partylist'' (name_filter (jget item ''name''))"
      by (simp add: not_found_frame [OF f1(1) f1(2)])
    show "calls (fst (snd (syncItem_partylist (pb, c) item))) =
          calls pb1 @ [GetFirstListItem ''partylist'' (name_filter (jget item ''name'')),
                       Create ''partylist'' (payload_partylist item partyId)]
        \<and> fst (syncItem_partylist (pb, c) item)
            = (if fault pb (Create ''partylist'' (payload_partylist item partyId)) = None
               then Created else Failed)
        \<and> colls (fst (snd (syncItem_partylist (pb, c) item))) =
            (if fault pb (Create ''partylist'' (payload_partylist item partyId)) = None
             then (colls pb)(''partylist'' := colls pb ''partylist'' @
                    [(''id'', mk_id (fresh pb)) # json_body (payload_partylist item partyId)])
             else colls pb)"
      by (simp add: syncItem_partylist_reconcile gp reconcile_not_found [OF nf1]
          split_beta try_create_calls try_create_verdict try_create_colls f1)
  qed
  have k2: "not_found pb ''parties'' (name_filter (jget item ''name'')) \<longrightarrow>
        calls (fst (snd (syncItem_parties (pb, ()) item))) =
          calls pb @ [GetFirstListItem ''parties'' (name_filter (jget item ''name'')),
                      Create ''parties'' (payload_parties item)]
        \<and> fst (syncItem_parties (pb, ()) item)
            = (if fault pb (Create ''parties'' (payload_parties item)) = None
               then Created else Failed)
        \<and> colls (fst (snd (syncItem_parties (pb, ()) item))) =
            (if fault pb (Create ''parties'' (payload_parties item)) = None
             then (colls pb)(''parties'' := colls pb ''parties'' @
                    [(''id'', mk_id (fresh pb)) # json_body (payload_parties item)])
             else colls pb)"
    by (simp add: syncItem_parties_not_found split_beta try_create_calls try_create_verdict
        try_create_colls)
  have k3: "not_found pb ''areas'' (name_filter (jget item ''name'')) \<longrightarrow>
        calls (fst (snd (syncItem_areas (pb, ca) item))) =
          calls pbC @ [GetFirstListItem ''areas'' (name_filter (jget item ''name'')),
                       Create ''areas'' (payload_areas item aProvinceId)]
        \<and> fst (syncItem_areas (pb, ca) item)
            = (if fault pb (Create ''areas'' (payload_areas item aProvinceId)) = None
               then Created else Failed)
        \<and> colls (fst (snd (syncItem_areas (pb, ca) item))) =
            (if fault pb (Create ''areas'' (payload_areas item aProvinceId)) = None
             then (colls pb)(''areas'' := colls pb ''areas'' @
                    [(''id'', mk_id (fresh pb)) # json_body (payload_areas item aProvinceId)])
             else colls pb)"
  proof
    assume nf: "not_found pb ''areas'' (name_filter (jget item ''name''))"
    then have nf1: "not_found pbC ''areas'' (name_filter (jget item ''name''))"
      by (simp add: not_found_frame [OF fC(1) fC(2)])
    show "calls (fst (snd (syncItem_areas (pb, ca) item))) =
          calls pbC @ [GetFirstListItem ''areas'' (name_filter (jget item ''name'')),
                       Create ''areas'' (payload_areas item aProvinceId)]
        \<and> fst (syncItem_areas (pb, ca) item)
            = (if fault pb (Create ''areas'' (payload_areas item aProvinceId)) = None
               then Created else Failed)
        \<and> colls (fst (snd (syncItem_areas (pb, ca) item))) =
            (if fault pb (Create ''areas'' (payload_areas item aProvinceId)) = None
             then (colls pb)(''areas'' := colls pb ''areas'' @
                    [(''id'', mk_id (fresh pb)) # json_body (payload_areas item aProvinceId)])
             else colls pb)"
      by (simp add: syncItem_areas_reconcile ga reconcile_not_found [OF nf1]
          split_beta try_create_calls try_create_verdict try_create_colls fC)
  qed
  have k4: "not_found pb ''candidates'' (name_filter (jget item ''name'')) \<longrightarrow>
        calls (fst (snd (syncItem_candidates (pb, cp, cv) item))) =
          calls pbB @ [GetFirstListItem ''candidates'' (name_filter (jget item ''name'')),
                       Create ''candidates'' (payload_candidates item cPartyId cProvinceId)]
        \<and> fst (syncItem_candidates (pb, cp, cv) item)
            = (if fault pb (Create ''candidates'' (payload_candidates item cPartyId cProvinceId)) = None
               then Created else Failed)
        \<and> colls (fst (snd (syncItem_candidates (pb, cp, cv) item))) =
            (if fault pb (Create ''candidates'' (payload_candidates item cPartyId cProvinceId)) = None
             then (colls pb)(''candidates'' := colls pb ''candidates'' @
                    [(''id'', mk_id (fresh pb))
                     # json_body (payload_candidates item cPartyId cProvinceId)])
             else colls pb)"
  proof
    assume nf: "not_found pb ''candidates'' (name_filter (jget item ''name''))"
    then have nf1: "not_found pbB ''candidates'' (name_filter (jget item ''name''))"
      by (simp add: not_found_frame [OF fB(1) fB(2)])
    show "calls (fst (snd (syncItem_candidates (pb, cp, cv) item))) =
          calls pbB @ [GetFirstListItem ''candidates'' (name_filter (jget item ''name'')),
                       Create ''candidates'' (payload_candidates item cPartyId cProvinceId)]
        \<and> fst (syncItem_candidates (pb, cp, cv) item)
            = (if fault pb (Create ''candidates'' (payload_candidates item cPartyId cProvinceId)) = None
               then Created else Failed)
        \<and> colls (fst (snd (syncItem_candidates (pb, cp, cv) item))) =
            (if fault pb (Create ''candidates'' (payload_candidates item cPartyId cProvinceId)) = None
             then (colls pb)(''candidates'' := colls pb ''candidates'' @
                    [(''id'', mk_id (fresh pb))
                     # json_body (payload_candidates item cPartyId cProvinceId)])
             else colls pb)"
      by (simp add: syncItem_candidates_reconcile gc gv reconcile_not_found [OF nf1]
          split_beta try_create_calls try_create_verdict try_create_colls fB)
  qed
  have k5: "not_found pb ''referendum'' (number_filter (jget q ''questionNumber'')) \<longrightarrow>
        calls (snd (syncItem_referendum pb q)) =
          calls pb @ [GetFirstListItem ''referendum'' (number_filter (jget q ''questionNumber'')),
                      Create ''referendum'' (payload_referendum q agreeOption disagreeOption)]
        \<and> fst (syncItem_referendum pb q)
            = (if fault pb (Create ''referendum''
                     (payload_referendum q agreeOption disagreeOption)) = None
               then Inr Created else Inr Failed)
        \<and> colls (snd (syncItem_referendum pb q)) =
            (if fault pb (Create ''referendum''
                   (payload_referendum q agreeOption disagreeOption)) = None
             then (colls pb)(''referendum'' := colls pb ''referendum'' @
                    [(''id'', mk_id (fresh pb))
                     # json_body (payload_referendum q agreeOption disagreeOption)])
             else colls pb)"
    by (simp add: syncItem_referendum_reconcile oa od reconcile_not_found
        split_beta try_create_calls try_create_verdict try_create_colls)
  have n1: "jget ((''id'', mk_id (fresh pb)) # json_body (payload_partylist item partyId)) ''name''
         = jget item ''name''"
    by (subst jget_created) (simp_all add: payload_partylist_def jget_def)
  have n2: "jget ((''id'', mk_id (fresh pb)) # json_body (payload_parties item)) ''name''
         = jget item ''name''"
    by (subst jget_created) (simp_all add: payload_parties_def jget_def)
  have n3: "jget ((''id'', mk_id (fresh pb)) # json_body (payload_areas item aProvinceId)) ''name''
         = jget item ''name''"
    by (subst jget_created) (simp_all add: payload_areas_def jget_def)
  have n4: "jget ((''id'', mk_id (fresh pb)) # json_body (payload_candidates item cPartyId cProvinceId))
           ''name'' = jget item ''name''"
    by (subst jget_created) (simp_all add: payload_candidates_def jget_def)
  have n5: "jget ((''id'', mk_id (fresh pb))
              # json_body (payload_referendum q agreeOption disagreeOption)) ''number''
         = jget q ''questionNumber''"
    by (subst jget_created) (simp_all add: payload_referendum_def jget_def)
  from u1 u2 k1 k2 k3 k4 k5 n1 n2 n3 n4 n5 show ?thesis by (intro conjI)
qed

theorem absent_record_counterexample:
  "colls (client with_parties creates_rejected) ''partylist'' = []
   \<and> fst (syncItem_partylist (client with_parties creates_rejected, None) list_member) = Failed
   \<and> fst (syncItem_partylist (client with_parties creates_rejected, None) list_member) \<noteq> Created"
  by (simp add: syncItem_partylist_def getPartyId_def getFullList_def find_existing_def
      getFirstListItem_def try_create_def create_def Let_def sample_defs jget_def opt_member_def
      cache_names_def map_get_def payload_partylist_def filter_simps)

theorem absent_record_create_or_skip_witness:
  "syncItem_score (client with_parties no_fault, ()) candidate =
     (Skipped, (request (client with_parties no_fault)
                  (GetFirstListItem ''candidates'' (name_filter (JStr ''Somsri Rakthai''))), ()))
   \<and> fst (syncItem_province_statistics (client with_parties no_fault, ()) candidate) = Skipped
   \<and> fst (syncItem_partylist (client with_parties no_fault, None) candidate) = Created
   \<and> calls (fst (snd (syncItem_partylist (client with_parties no_fault, None) candidate))) =
       [GetFullList ''parties'', GetFirstListItem ''partylist'' (name_filter (JStr ''Somsri Rakthai'')),
        Create ''partylist'' (payload_partylist candidate (JStr ''id1''))]
   \<and> fst (syncItem_parties (client with_parties no_fault, ()) candidate) = Created
   \<and> fst (syncItem_areas (client with_parties no_fault, None) candidate) = Created
   \<and> fst (syncItem_candidates (client with_parties no_fault, None, None) candidate) = Created
   \<and> fst (syncItem_referendum (client with_parties no_fault) question) = Inr Created
   \<and> fst (syncItem_referendum (client with_parties creates_rejected) question) = Inr Failed"
proof -
  let ?agree = "JObj [(''optionCode'', JStr ''agree''), (''totalVotes'', JNum 60),
                    (''percentage'', JNum 60), (''rank'', JNum 1)]"
  let ?disagree = "JObj [(''optionCode'', JStr ''disagree''), (''totalVotes'', JNum 40),
                    (''percentage'', JNum 40), (''rank'', JNum 2)]"
  let ?pb = "client with_parties no_fault"
  let ?pc = "client with_parties creates_rejected"
  let ?pA = "request ?pb (GetFullList ''parties'')"
  let ?pcA = "request ?pc (GetFullList ''parties'')"
  have gp: "getPartyId ?pb None (opt_member (jget candidate ''party'') ''name'')
      = (JStr ''id1'', ?pA, Some (cache_names [party_a]))"
    by (simp add: getPartyId_def getFullList_def Let_def sample_defs candidate_def jget_def
        opt_member_def cache_names_def map_get_def)
  have gv: "getProvinceId ?pA None (jget candidate ''provinceName'')
      = (JUndefined, request ?pA (GetFullList ''provinces''), Some (cache_names []))"
    by (simp add: getProvinceId_def getFullList_def Let_def sample_defs candidate_def jget_def
        opt_member_def cache_names_def map_get_def)
  have ga: "getProvinceId ?pb None (opt_member (jget candidate ''province'') ''name'')
      = (JUndefined, request ?pb (GetFullList ''provinces''), Some (cache_names []))"
    by (simp add: getProvinceId_def getFullList_def Let_def sample_defs candidate_def jget_def
        opt_member_def cache_names_def map_get_def)
  have gpc: "getPartyId ?pc None (opt_member (jget candidate ''party'') ''name'')
      = (JStr ''id1'', ?pcA, Some (cache_names [party_a]))"
    by (simp add: getPartyId_def getFullList_def Let_def sample_defs candidate_def jget_def
        opt_member_def cache_names_def map_get_def)
  have gvc: "getProvinceId ?pcA None (jget candidate ''provinceName'')
      = (JUndefined, request ?pcA (GetFullList ''provinces''), Some (cache_names []))"
    by (simp add: getProvinceId_def getFullList_def Let_def sample_defs candidate_def jget_def
        opt_member_def cache_names_def map_get_def)
  have gac: "getProvinceId ?pc None (opt_member (jget candidate ''province'') ''name'')
      = (JUndefined, request ?pc (GetFullList ''provinces''), Some (cache_names []))"
    by (simp add: getProvinceId_def getFullList_def Let_def sample_defs candidate_def jget_def
        opt_member_def cache_names_def map_get_def)
  have oa: "options_find (jget question ''options'') ''agree'' = Inr ?agree"
    by (simp add: options_find_def question_def jget_def)
  have od: "options_find (jget question ''options'') ''disagree'' = Inr ?disagree"
    by (simp add: options_find_def question_def jget_def)
  have k: "jget candidate ''name'' = JStr ''Somsri Rakthai''"
    "jget candidate ''provinceName'' = JStr ''Chiang Mai''"
    "jget question ''questionNumber'' = JNum 1"
    by (simp_all add: candidate_def question_def jget_def)
  have pa: "jget party_a ''name'' = JStr ''Party A''" by (simp add: party_a_def jget_def)
  have nf: "not_found ?pb ''candidates'' (name_filter (jget candidate ''name''))"
    "not_found ?pb ''provinces'' (name_filter (jget candidate ''provinceName''))"
    "not_found ?pb ''partylist'' (name_filter (jget candidate ''name''))"
    "not_found ?pb ''parties'' (name_filter (jget candidate ''name''))"
    "not_found ?pb ''areas'' (name_filter (jget candidate ''name''))"
    "not_found ?pb ''referendum'' (number_filter (jget question ''questionNumber''))"
    "not_found ?pc ''referendum'' (number_filter (jget question ''questionNumber''))"
    by (simp_all add: not_found_def getFirstListItem_def Let_def filter_simps k pa client_def
        no_fault_def creates_rejected_def with_parties_def)
  have ok: "fault ?pb = (\<lambda>c. None)" by (simp add: client_def no_fault_def)
  have rej: "fault ?pc (Create ''referendum'' (payload_referendum question ?agree ?disagree)) \<noteq> None"
    by (simp add: client_def creates_rejected_def)
  have cs: "calls ?pb = []" by (simp add: client_def)
  note t1 = absent_record_create_or_skip [OF gp gp gv ga oa od]
  note t2 = absent_record_create_or_skip [OF gpc gpc gvc gac oa od]
  have 1: "syncItem_score (?pb, ()) candidate =
     (Skipped, (request ?pb (GetFirstListItem ''candidates'' (name_filter (jget candidate ''name''))), ()))"
    using t1 nf by simp
  have 2: "fst (syncItem_province_statistics (?pb, ()) candidate) = Skipped"
    using t1 nf by simp
  have 3: "fst (syncItem_partylist (?pb, None) candidate) = Created"
    using t1 nf ok by simp
  have 4: "calls (fst (snd (syncItem_partylist (?pb, None) candidate))) =
       calls ?pA @ [GetFirstListItem ''partylist'' (name_filter (jget candidate ''name'')),
        Create ''partylist'' (payload_partylist candidate (JStr ''id1''))]"
    using t1 nf by simp
  have 5: "fst (syncItem_parties (?pb, ()) candidate) = Created"
    using t1 nf ok by simp
  have 6: "fst (syncItem_areas (?pb, None) candidate) = Created"
    using t1 nf ok by simp
  have 7: "fst (syncItem_candidates (?pb, None, None) candidate) = Created"
    using t1 nf ok by simp
  have 8: "fst (syncItem_referendum ?pb question) = Inr Created"
    using t1 nf ok by simp
  have 9: "fst (syncItem_referendum ?pc question) = Inr Failed"
    using t2 nf rej by simp
  from 1 2 3 4 5 6 7 8 9 show ?thesis by (simp add: k cs)
qed

lemma authenticate_frame:
  "fault (snd (authenticate cfg pb)) = fault pb
   \<and> colls (snd (authenticate cfg pb)) = colls pb
   \<and> fresh (snd (authenticate cfg pb)) = fresh pb"
  by (auto simp: authenticate_def authWithPassword_users_def authWithPassword_admins_def Let_def
      split: option.splits)

text \<open>
  C9 (as amended). The parties sync on a source that returns the one party
  \<open>{name: "X", code: "X1", totalCandidates: 5}\<close>, when authentication succeeds, no record
  named \<open>X\<close> is found and the store accepts the create: the verdict is \<open>'created'\<close>, the
  counters end as \<open>{created: 1, updated: 0, failed: 0}\<close>, the process exits with status 0, and
  the payload of the create call has the six fields of the script's list (\<open>name\<close>, \<open>code\<close>,
  \<open>abbreviation\<close>, \<open>color\<close>, \<open>logoUrl\<close>, \<open>totalCandidates\<close>), the three the item lacks being
  \<open>undefined\<close>, so that the stored record has \<open>name\<close>, \<open>code\<close> and \<open>totalCandidates\<close>.
\<close>

theorem party_scenario:
  assumes auth: "fst (authenticate cfg pb) = Inr ()"
    and nf: "not_found pb ''parties'' (name_filter (JStr ''X''))"
    and ok: "fault pb (Create ''parties'' (payload_parties party_x)) = None"
  shows
    "verdicts (main_parties cfg (Inr \<lparr>listing = Some [party_x], totalPages = NoTotal\<rparr>) pb) = [Created]
     \<and> summary (main_parties cfg (Inr \<lparr>listing = Some [party_x], totalPages = NoTotal\<rparr>) pb)
         = Some [(''created'', 1), (''updated'', 0), (''failed'', 0)]
     \<and> exit_status (main_parties cfg (Inr \<lparr>listing = Some [party_x], totalPages = NoTotal\<rparr>) pb) = 0
     \<and> calls (fst (final (main_parties cfg (Inr \<lparr>listing = Some [party_x], totalPages = NoTotal\<rparr>) pb)))
         = calls (snd (authenticate cfg pb))
           @ [GetFirstListItem ''parties'' (name_filter (JStr ''X'')),
              Create ''parties''
                [(''name'', JStr ''X''), (''code'', JStr ''X1''), (''abbreviation'', JUndefined),
                 (''color'', JUndefined), (''logoUrl'', JUndefined), (''totalCandidates'', JNum 5)]]
     \<and> payload_parties party_x
         = [(''name'', JStr ''X''), (''code'', JStr ''X1''), (''abbreviation'', JUndefined),
            (''color'', JUndefined), (''logoUrl'', JUndefined), (''totalCandidates'', JNum 5)]
     \<and> colls (fst (final (main_parties cfg (Inr \<lparr>listing = Some [party_x], totalPages = NoTotal\<rparr>) pb)))
           ''parties''
         = colls pb ''parties''
           @ [[(''id'', mk_id (fresh pb)), (''name'', JStr ''X''), (''code'', JStr ''X1''),
               (''totalCandidates'', JNum 5)]]"
proof -
  obtain pb1 where a: "authenticate cfg pb = (Inr (), pb1)"
    using auth by (cases "authenticate cfg pb") auto
  from authenticate_frame [of cfg pb] a
  have fr: "fault pb1 = fault pb" "colls pb1 = colls pb" "fresh pb1 = fresh pb" by simp_all
  have pl: "payload_parties party_x
         = [(''name'', JStr ''X''), (''code'', JStr ''X1''), (''abbreviation'', JUndefined),
            (''color'', JUndefined), (''logoUrl'', JUndefined), (''totalCandidates'', JNum 5)]"
    by (simp add: payload_parties_def party_x_def jget_def)
  have key: "jget party_x ''name'' = JStr ''X''" by (simp add: party_x_def jget_def)
  have nf1: "not_found pb1 ''parties'' (name_filter (jget party_x ''name''))"
    using nf by (simp add: key not_found_frame [OF fr(1) fr(2)])
  have ok1: "fault pb1 (Create ''parties'' (payload_parties party_x)) = None"
    using ok by (simp add: fr)
  have step: "syncItem_parties (pb1, ()) party_x =
      (Created,
       ((request (request pb1 (GetFirstListItem ''parties'' (name_filter (JStr ''X''))))
           (Create ''parties'' (payload_parties party_x)))
          \<lparr>colls := (colls pb)(''parties'' := colls pb ''parties'' @
               [(''id'', mk_id (fresh pb)) # json_body (payload_parties party_x)]),
           fresh := Suc (fresh pb)\<rparr>, ()))"
    using ok1 by (simp add: syncItem_parties_not_found [OF nf1] try_create_ok key fr)
  have jb: "json_body (payload_parties party_x)
      = [(''name'', JStr ''X''), (''code'', JStr ''X1''), (''totalCandidates'', JNum 5)]"
    by (simp add: pl json_body_def)
  have run: "main_parties cfg (Inr \<lparr>listing = Some [party_x], totalPages = NoTotal\<rparr>) pb =
      \<lparr>exit_status = 0, summary = Some (foldl tally_parties stats_parties [Created]),
       verdicts = [Created],
       final = ((request (request pb1 (GetFirstListItem ''parties'' (name_filter (JStr ''X''))))
           (Create ''parties'' (payload_parties party_x)))
          \<lparr>colls := (colls pb)(''parties'' := colls pb ''parties'' @
               [(''id'', mk_id (fresh pb)) # json_body (payload_parties party_x)]),
           fresh := Suc (fresh pb)\<rparr>, ())\<rparr>"
    by (simp add: main_parties_def main_list_def a fetchData_def or_empty_def step)
  have st: "tally_parties stats_parties Created
      = [(''created'', 1), (''updated'', 0), (''failed'', 0)]"
    by (simp add: tally_parties_def stats_parties_def incr_def)
  show ?thesis
    using a by (simp add: run st pl) (simp add: json_body_def)
qed

theorem party_scenario_counterexample:
  "map fst (payload_parties party_x)
     = [''name'', ''code'', ''abbreviation'', ''color'', ''logoUrl'', ''totalCandidates'']
   \<and> length (payload_parties party_x) \<noteq> 5"
  by (simp add: payload_parties_def)

theorem party_scenario_witness:
  "verdicts (main_parties credentials (Inr \<lparr>listing = Some [party_x], totalPages = NoTotal\<rparr>)
       (client no_records no_fault)) = [Created]
   \<and> summary (main_parties credentials (Inr \<lparr>listing = Some [party_x], totalPages = NoTotal\<rparr>)
       (client no_records no_fault)) = Some [(''created'', 1), (''updated'', 0), (''failed'', 0)]
   \<and> exit_status (main_parties credentials (Inr \<lparr>listing = Some [party_x], totalPages = NoTotal\<rparr>)
       (client no_records no_fault)) = 0"
proof -
  let ?pb = "client no_records no_fault"
  have auth: "fst (authenticate credentials ?pb) = Inr ()"
    by (simp add: authenticate_def authWithPassword_users_def Let_def client_def no_fault_def)
  have nf: "not_found ?pb ''parties'' (name_filter (JStr ''X''))"
    by (simp add: not_found_def getFirstListItem_def Let_def filter_simps client_def no_fault_def
        no_records_def)
  have ok: "fault ?pb (Create ''parties'' (payload_parties party_x)) = None"
    by (simp add: client_def no_fault_def)
  from party_scenario [OF auth nf ok] show ?thesis by simp
qed

lemma fetchPage_ok: "src p = Inr resp \<Longrightarrow> \<exists>items tp. fetchPage src p = Inr (items, tp)"
  by (simp add: fetchPage_def)

lemma pages_loop_no_error:
  "\<forall>q. \<exists>resp. src q = Inr resp \<Longrightarrow>
     pages_loop fuel is_last f src p s = Some (r, vs, s') \<Longrightarrow> r = Inr ()"
proof (induction fuel arbitrary: p s r vs s')
  case 0
  then show ?case by simp
next
  case (Suc fuel)
  from Suc.prems(1) obtain resp where resp: "src p = Inr resp" by blast
  then obtain items tp where fp: "fetchPage src p = Inr (items, tp)"
    using fetchPage_ok by blast
  show ?case
  proof (cases "items = []")
    case True
    with Suc.prems(2) fp show ?thesis by simp
  next
    case False
    obtain results s1 where si: "sync_items f s items = (results, s1)"
      by (cases "sync_items f s items") auto
    show ?thesis
    proof (cases "is_last p tp")
      case True
      with Suc.prems(2) fp False si show ?thesis by simp
    next
      case nl: False
      with Suc.prems(2) fp False si
      obtain later s2 where "pages_loop fuel is_last f src (Suc p) s1 = Some (r, later, s2)"
        by (auto split: option.splits prod.splits)
      from Suc.IH [OF Suc.prems(1) this] show ?thesis .
    qed
  qed
qed

lemma main_paginated_auth_failed:
  "fst (authenticate cfg pb) \<noteq> Inr () \<Longrightarrow>
     map_option exit_status (main_paginated fuel fatal is_last f count stats0 caches cfg src pb)
       = Some fatal"
  by (cases "authenticate cfg pb") (auto simp: main_paginated_def split: sum.splits)

lemma main_paginated_first_fetch_failed:
  "fst (authenticate cfg pb) = Inr () \<Longrightarrow> \<exists>msg. src 1 = Inl msg \<Longrightarrow>
     map_option exit_status (main_paginated (Suc fuel) fatal is_last f count stats0 caches cfg src pb)
       = Some fatal"
  by (cases "authenticate cfg pb") (auto simp: main_paginated_def fetchPage_def split: sum.splits)

lemma main_paginated_completed:
  assumes "fst (authenticate cfg pb) = Inr ()" and "\<forall>q. \<exists>resp. src q = Inr resp"
    and "main_paginated fuel fatal is_last f count stats0 caches cfg src pb = Some out"
  shows "exit_status out = 0 \<and> summary out \<noteq> None"
proof -
  obtain pb1 where a: "authenticate cfg pb = (Inr (), pb1)"
    using assms(1) by (cases "authenticate cfg pb") auto
  from assms(3) a obtain r vs s where l: "pages_loop fuel is_last f src 1 (pb1, caches) = Some (r, vs, s)"
    by (auto simp: main_paginated_def split: option.splits)
  from pages_loop_no_error [OF assms(2) l] have "r = Inr ()" .
  with assms(3) a l show ?thesis by (auto simp: main_paginated_def)
qed

lemma main_paginated_status:
  "main_paginated fuel fatal is_last f count stats0 caches cfg src pb = Some out \<Longrightarrow>
     exit_status out = 0 \<or> exit_status out = fatal"
  by (auto simp: main_paginated_def split: option.splits sum.splits prod.splits)

lemma main_paginated_nonzero:
  assumes "main_paginated fuel fatal is_last f count stats0 caches cfg src pb = Some out"
    and "exit_status out \<noteq> 0"
  shows "exit_status out = fatal
    \<and> (fst (authenticate cfg pb) \<noteq> Inr () \<or> (\<exists>q msg. src q = Inl msg))"
proof -
  from main_paginated_status [OF assms(1)] assms(2) have 1: "exit_status out = fatal" by simp
  have 2: "fst (authenticate cfg pb) \<noteq> Inr () \<or> (\<exists>q msg. src q = Inl msg)"
  proof (rule ccontr)
    assume "\<not> (fst (authenticate cfg pb) \<noteq> Inr () \<or> (\<exists>q msg. src q = Inl msg))"
    then have a: "fst (authenticate cfg pb) = Inr ()" and n: "\<forall>q. \<exists>resp. src q = Inr resp"
      by (simp, metis sum.exhaust_sel sum.collapse(1) old.sum.exhaust)
    from main_paginated_completed [OF a n assms(1)] assms(2) show False by simp
  qed
  from 1 2 show ?thesis by simp
qed

lemma main_list_exit:
  "exit_status (main_list fatal f count stats0 caches cfg lsrc pb)
     = (if fst (authenticate cfg pb) = Inr () \<and> (\<exists>resp. lsrc = Inr resp) then 0 else fatal)"
  by (cases "authenticate cfg pb"; cases lsrc)
     (auto simp: main_list_def fetchData_def split: sum.splits prod.splits)

lemma main_list_exit_0: "exit_status (main_list 0 f count stats0 caches cfg lsrc pb) = 0"
  by (simp add: main_list_exit)

lemma main_referendum_exit: "exit_status (main_referendum cfg lsrc pb) = 0"
  by (auto simp: main_referendum_def split: sum.splits prod.splits)

lemma main_national_exit: "fst (main_national cfg nsrc pb) = 0"
  by (auto simp: main_national_def split: sum.splits prod.splits)

lemma paginated_exit_1:
  "fst (authenticate cfg pb) \<noteq> Inr () \<longrightarrow>
     map_option exit_status (main_paginated fuel 1 is_last f count stats0 caches cfg src pb) = Some 1"
  by (simp add: main_paginated_auth_failed)

lemma paginated_exit_2:
  "fst (authenticate cfg pb) = Inr () \<and> (\<exists>msg. src 1 = Inl msg) \<longrightarrow>
     map_option exit_status (main_paginated (Suc fuel) 1 is_last f count stats0 caches cfg src pb)
       = Some 1"
  using main_paginated_first_fetch_failed [of cfg pb src fuel 1 is_last f count stats0 caches]
  by blast

lemma paginated_exit_3:
  "fst (authenticate cfg pb) = Inr () \<and> (\<forall>q. \<exists>resp. src q = Inr resp) \<longrightarrow>
     (\<forall>out. main_paginated fuel 1 is_last f count stats0 caches cfg src pb = Some out \<longrightarrow>
        exit_status out = 0 \<and> summary out \<noteq> None)"
  using main_paginated_completed [of cfg pb src fuel 1 is_last f count stats0 caches]
  by blast

lemma paginated_exit_4:
  "\<forall>out. main_paginated fuel 1 is_last f count stats0 caches cfg src pb = Some out
       \<and> exit_status out \<noteq> 0 \<longrightarrow>
     exit_status out = 1
     \<and> (fst (authenticate cfg pb) \<noteq> Inr () \<or> (\<exists>q msg. src q = Inl msg))"
  using main_paginated_nonzero [of fuel 1 is_last f count stats0 caches cfg src pb]
  by blast

lemmas paginated_mains =
  main_partylist_def main_candidates_def main_areas_def main_profile_def main_score_def

lemmas store_defs =
  authenticate_def authWithPassword_users_def authWithPassword_admins_def getFirstListItem_def
  getFullList_def create_def update_def find_existing_def try_create_def try_update_def Let_def

lemma pages_loop_plan:
  "pages_loop fuel is_last f src p s =
     (case pages_plan fuel is_last src p of
        None \<Rightarrow> None
      | Some (r, items) \<Rightarrow> Some (r, fst (sync_items f s items), snd (sync_items f s items)))"
proof (induction fuel arbitrary: p s)
  case 0
  then show ?case by simp
next
  case (Suc fuel)
  show ?case
  proof (cases "fetchPage src p")
    case (Inl e)
    then show ?thesis by simp
  next
    case (Inr pg)
    obtain items tp where pg: "pg = (items, tp)" by (cases pg)
    obtain results s1 where si: "sync_items f s items = (results, s1)"
      by (cases "sync_items f s items")
    show ?thesis
    proof (cases "items = [] \<or> is_last p tp")
      case True
      with Inr pg si show ?thesis by auto
    next
      case False
      show ?thesis
      proof (cases "pages_plan fuel is_last src (Suc p)")
        case None
        with Inr pg si False Suc.IH [of "Suc p" s1] show ?thesis by simp
      next
        case (Some rl)
        obtain r later where rl: "rl = (r, later)" by (cases rl)
        from Some rl Suc.IH [of "Suc p" s1]
        have "pages_loop fuel is_last f src (Suc p) s1 =
            Some (r, fst (sync_items f s1 later), snd (sync_items f s1 later))" by simp
        with Inr pg si False Some rl show ?thesis
          by (simp add: sync_items_append split: prod.splits)
      qed
    qed
  qed
qed

lemma pages_plan_terminates:
  "src k = Inr resp \<Longrightarrow> or_empty (listing resp) = [] \<Longrightarrow> p \<le> k \<Longrightarrow> k - p < fuel \<Longrightarrow>
     pages_plan fuel is_last src p \<noteq> None"
proof (induction fuel arbitrary: p)
  case 0
  then show ?case by simp
next
  case (Suc fuel)
  show ?case
  proof (cases "fetchPage src p")
    case (Inl e)
    then show ?thesis by simp
  next
    case (Inr pg)
    obtain items tp where pg: "pg = (items, tp)" by (cases pg)
    show ?thesis
    proof (cases "items = [] \<or> is_last p tp")
      case True
      with Inr pg show ?thesis by auto
    next
      case False
      have "p \<noteq> k"
      proof
        assume "p = k"
        with Inr pg Suc.prems(1,2) have "items = []" by (simp add: fetchPage_def)
        with False show False by simp
      qed
      with Suc.prems(3,4) have "Suc p \<le> k" "k - Suc p < fuel" by simp_all
      from Suc.IH [OF Suc.prems(1,2) this]
      have "pages_plan fuel is_last src (Suc p) \<noteq> None" .
      with Inr pg False show ?thesis by (auto split: option.splits)
    qed
  qed
qed

lemma pages_loop_terminates:
  assumes "src k = Inr resp" "or_empty (listing resp) = []" "p \<le> k" "k - p < fuel"
  shows "\<exists>res. pages_loop fuel is_last f src p s = Some res"
  using assms pages_plan_terminates [of src k resp p fuel is_last]
  by (auto simp: pages_loop_plan split: option.splits)

lemma pages_loop_empty_page:
  "src p = Inr resp \<Longrightarrow> or_empty (listing resp) = [] \<Longrightarrow>
     pages_loop (Suc fuel) is_last f src p s = Some (Inr (), [], s)"
  by (simp add: fetchPage_def)

lemma pages_loop_last_page:
  "src p = Inr resp \<Longrightarrow> or_empty (listing resp) \<noteq> [] \<Longrightarrow> is_last p (totalPages resp) \<Longrightarrow>
     pages_loop (Suc fuel) is_last f src p s =
       Some (Inr (), fst (sync_items f s (or_empty (listing resp))),
             snd (sync_items f s (or_empty (listing resp))))"
  by (simp add: fetchPage_def split: prod.splits)

lemma pages_loop_next_page:
  "src p = Inr resp \<Longrightarrow> or_empty (listing resp) \<noteq> [] \<Longrightarrow> \<not> is_last p (totalPages resp) \<Longrightarrow>
     pages_loop (Suc fuel) is_last f src p s =
       (case pages_loop fuel is_last f src (Suc p) (snd (sync_items f s (or_empty (listing resp)))) of
          None \<Rightarrow> None
        | Some (r, later, s2) \<Rightarrow>
            Some (r, fst (sync_items f s (or_empty (listing resp))) @ later, s2))"
  by (cases "sync_items f s (or_empty (listing resp))")
     (auto simp: fetchPage_def split: option.splits)

lemma main_paginated_verdicts:
  "fst (authenticate cfg pb) = Inr () \<Longrightarrow>
     map_option verdicts (main_paginated fuel fatal is_last f count stats0 caches cfg src pb) =
       map_option (\<lambda>res. fst (snd res))
         (pages_loop fuel is_last f src 1 (snd (authenticate cfg pb), caches))"
  by (cases "authenticate cfg pb")
     (auto simp: main_paginated_def split: option.splits sum.splits prod.splits)


lemma string_of_nat_2: "string_of_nat (Suc (Suc 0)) = ''2''"
  by code_simp

lemma map_of_assign: "map_of (assign r body) = map_of r ++ map_of (rev body)"
proof (induction body arbitrary: r)
  case Nil
  then show ?case by simp
next
  case (Cons kv body)
  have "map_of (assign r (kv # body)) = map_of (AList.update (fst kv) (snd kv) r) ++ map_of (rev body)"
    by (simp add: Cons.IH)
  also have "\<dots> = map_of r ++ map_of (rev (kv # body))"
    by (cases kv) (simp add: update_conv' map_add_upd_left)
  finally show ?case .
qed

lemma map_of_rev_distinct: "distinct (map fst xs) \<Longrightarrow> map_of (rev xs) = map_of xs"
proof (induction xs)
  case Nil
  then show ?case by simp
next
  case (Cons kv xs)
  then have nk: "fst kv \<notin> fst ` set xs" and ih: "map_of (rev xs) = map_of xs" by simp_all
  from nk have "map_of xs (fst kv) = None" by (simp add: map_of_eq_None_iff)
  then show ?case
    by (cases kv) (auto simp: ih map_add_def fun_eq_iff split: option.splits)
qed

lemma jget_assign:
  assumes "distinct (map fst body)"
  shows "jget (assign r body) k = (if k \<in> fst ` set body then jget body k else jget r k)"
proof (cases "map_of body k")
  case None
  then have "k \<notin> fst ` set body" by (simp add: map_of_eq_None_iff)
  with None show ?thesis
    by (simp add: jget_def map_of_assign map_of_rev_distinct [OF assms] map_add_def)
next
  case (Some v)
  then have "(k, v) \<in> set body" by (rule map_of_SomeD)
  then have "k \<in> fst ` set body" by force
  with Some show ?thesis
    by (simp add: jget_def map_of_assign map_of_rev_distinct [OF assms] map_add_def)
qed

lemma json_body_keys: "fst ` set (json_body body) \<subseteq> fst ` set body"
  by (auto simp: json_body_def)

lemma distinct_json_body: "distinct (map fst body) \<Longrightarrow> distinct (map fst (json_body body))"
  by (simp add: json_body_def distinct_map_filter)

lemma json_body_key_iff:
  assumes "distinct (map fst body)"
  shows "k \<in> fst ` set (json_body body) \<longleftrightarrow> k \<in> fst ` set body \<and> jget body k \<noteq> JUndefined"
proof
  assume "k \<in> fst ` set (json_body body)"
  then obtain v where v: "(k, v) \<in> set body" "v \<noteq> JUndefined"
    by (auto simp: json_body_def)
  from v(1) assms have "map_of body k = Some v" by (simp add: map_of_is_SomeI)
  with v show "k \<in> fst ` set body \<and> jget body k \<noteq> JUndefined"
    by (force simp: jget_def)
next
  assume h: "k \<in> fst ` set body \<and> jget body k \<noteq> JUndefined"
  then obtain v where v: "(k, v) \<in> set body" by auto
  from v assms have "map_of body k = Some v" by (simp add: map_of_is_SomeI)
  with h have "v \<noteq> JUndefined" by (simp add: jget_def)
  with v show "k \<in> fst ` set (json_body body)" by (force simp: json_body_def)
qed

lemma jget_assign_json:
  assumes "distinct (map fst body)"
  shows "jget (assign r (json_body body)) k =
     (if k \<in> fst ` set body \<and> jget body k \<noteq> JUndefined then jget body k else jget r k)"
  using assms
  by (simp add: jget_assign [OF distinct_json_body] json_body_key_iff jget_json_body)

lemma length_update_first [simp]: "length (update_first rid body rs) = length rs"
  by (induction rs) auto

lemma update_first_frame:
  "i < length rs \<Longrightarrow> distinct (map fst body) \<Longrightarrow> k \<notin> fst ` set body \<Longrightarrow>
     jget (update_first rid (json_body body) rs ! i) k = jget (rs ! i) k"
proof (induction rs arbitrary: i)
  case Nil
  then show ?case by simp
next
  case (Cons r rs)
  show ?case
  proof (cases i)
    case 0
    with Cons.prems show ?thesis by (simp add: jget_assign_json)
  next
    case (Suc j)
    with Cons show ?thesis by simp
  qed
qed

lemma update_first_written:
  "find (\<lambda>r. jget r ''id'' = rid) rs = Some r \<Longrightarrow> distinct (map fst body) \<Longrightarrow>
   ''id'' \<notin> fst ` set body \<Longrightarrow>
     find (\<lambda>r. jget r ''id'' = rid) (update_first rid (json_body body) rs)
       = Some (assign r (json_body body))"
proof (induction rs)
  case Nil
  then show ?case by simp
next
  case (Cons x rs)
  show ?case
  proof (cases "jget x ''id'' = rid")
    case True
    with Cons.prems show ?thesis by (simp add: jget_assign_json)
  next
    case False
    with Cons show ?thesis by simp
  qed
qed

lemma lookup_in_set: "lookup rs flt = Inr existing \<Longrightarrow> existing \<in> set rs"
  by (auto simp: lookup_def find_Some_iff split: option.splits)

lemma find_by_key_has_id:
  "lookup rs flt = Inr existing \<Longrightarrow>
     \<exists>r. find (\<lambda>r. jget r ''id'' = jget existing ''id'') rs = Some r"
proof -
  assume "lookup rs flt = Inr existing"
  then have "existing \<in> set rs" by (rule lookup_in_set)
  then have "\<exists>r\<in>set rs. jget r ''id'' = jget existing ''id''" by blast
  then show ?thesis by (cases "find (\<lambda>r. jget r ''id'' = jget existing ''id'') rs") (auto simp: find_None_iff)
qed

lemma reconcile_updated:
  assumes "fault pb (GetFirstListItem coll flt) = None"
    and "lookup (colls pb coll) flt = Inr existing"
    and "isChanged fs existing payload"
    and "fault pb (Update coll (jget existing ''id'') payload) = None"
  shows "reconcile pb coll flt fs payload creates =
      (Updated,
       (request (request pb (GetFirstListItem coll flt)) (Update coll (jget existing ''id'') payload))
         \<lparr>colls := (colls pb)(coll := update_first (jget existing ''id'') (json_body payload)
                                        (colls pb coll))\<rparr>)"
proof -
  from find_by_key_has_id [OF assms(2)] obtain r where
    r: "find (\<lambda>r. jget r ''id'' = jget existing ''id'') (colls pb coll) = Some r" by blast
  show ?thesis
    using assms r by (simp add: reconcile_found try_update_ok)
qed

lemma reconcile_unchanged:
  assumes "fault pb (GetFirstListItem coll flt) = None"
    and "lookup (colls pb coll) flt = Inr existing"
    and "\<not> isChanged fs existing payload"
  shows "reconcile pb coll flt fs payload creates = (Skipped, request pb (GetFirstListItem coll flt))"
  using assms by (simp add: reconcile_found)

lemma getAreaId_frame:
  "getAreaId pb c p n = (aid, pb1, c1) \<Longrightarrow>
     fault pb1 = fault pb \<and> colls pb1 = colls pb \<and> fresh pb1 = fresh pb \<and> isValid pb1 = isValid pb"
  by (auto simp: getAreaId_def getFullList_def Let_def split: option.splits)

lemma syncItem_profile_reconcile:
  "syncItem_profile s item =
     (case getPartyId (fst s) (fst (snd s)) (opt_member (jget item ''party'') ''name'') of
        (partyId, pb0, partyCache) \<Rightarrow>
     (case getProvinceId pb0 (fst (snd (snd s))) (opt_member (jget item ''province'') ''name'') of
        (provinceId, pb0', provinceCache) \<Rightarrow>
     (case (if truthy provinceId \<and> truthy (opt_member (jget item ''electionArea'') ''areaNumber'')
            then getAreaId pb0' (snd (snd (snd s))) provinceId
                   (opt_member (jget item ''electionArea'') ''areaNumber'')
            else (JNull, pb0', snd (snd (snd s)))) of
        (areaId, pb1, areaCache) \<Rightarrow>
          (case reconcile pb1 ''candidates'' (name_filter (jget item ''name'')) fields_profile
                  (payload_profile item (opt_member (jget item ''electionArea'') ''areaNumber'')
                     partyId provinceId areaId) True of
             (v, pb3) \<Rightarrow> (v, (pb3, partyCache, provinceCache, areaCache))))))"
  by (simp add: syncItem_profile_def reconcile_def Let_def
      split: prod.splits sum.splits option.splits)


text \<open>
  C2 (as amended). The candidate profile sync and the referendum sync, for an item whose
  record is found. When one of the fields the script compares differs (by \<open>!==\<close>) and the
  store accepts the update, the verdict is \<open>'updated'\<close> and the collection becomes the old one
  with the payload written onto the record that has the id of the found one. When none of
  the compared fields differs the verdict is \<open>'skipped'\<close> and nothing is written, whatever the
  other fields of the payload are. The payload holds the compared fields and more
  (\<open>name\<close>, \<open>number\<close>, \<open>provinceCode\<close>, \<open>provinceName\<close>, \<open>areaNumber\<close> in the profile sync;
  \<open>number\<close>, \<open>goodVotes\<close>, \<open>invalidVotes\<close>, \<open>noVotes\<close> in the referendum sync). The update
  keeps the number of records, leaves every field outside the payload as it was on every
  record, and sets on the updated record each payload field whose value is defined.
\<close>

theorem owned_field_update_frame:
  assumes gp: "getPartyId pb cp (opt_member (jget item ''party'') ''name'') = (partyId, pb0, cp1)"
    and gv: "getProvinceId pb0 cv (opt_member (jget item ''province'') ''name'') = (provinceId, pb0', cv1)"
    and ga: "(if truthy provinceId \<and> truthy (opt_member (jget item ''electionArea'') ''areaNumber'')
              then getAreaId pb0' ca provinceId (opt_member (jget item ''electionArea'') ''areaNumber'')
              else (JNull, pb0', ca)) = (areaId, pb1, ca1)"
    and pP: "P = payload_profile item (opt_member (jget item ''electionArea'') ''areaNumber'') partyId provinceId areaId"
    and oa: "options_find (jget q ''options'') ''agree'' = Inr agreeOption"
    and od: "options_find (jget q ''options'') ''disagree'' = Inr disagreeOption"
    and qQ: "Q = payload_referendum q agreeOption disagreeOption"
  shows
    "(\<forall>existing. fault pb (GetFirstListItem ''candidates'' (name_filter (jget item ''name''))) = None
          \<and> lookup (colls pb ''candidates'') (name_filter (jget item ''name'')) = Inr existing
          \<and> isChanged fields_profile existing P
          \<and> fault pb (Update ''candidates'' (jget existing ''id'') P) = None \<longrightarrow>
        fst (syncItem_profile (pb, cp, cv, ca) item) = Updated
        \<and> colls (fst (snd (syncItem_profile (pb, cp, cv, ca) item))) =
            (colls pb)(''candidates'' :=
               update_first (jget existing ''id'') (json_body P) (colls pb ''candidates'')))
     \<and> (\<forall>existing. fault pb (GetFirstListItem ''candidates'' (name_filter (jget item ''name''))) = None
          \<and> lookup (colls pb ''candidates'') (name_filter (jget item ''name'')) = Inr existing
          \<and> \<not> isChanged fields_profile existing P \<longrightarrow>
        fst (syncItem_profile (pb, cp, cv, ca) item) = Skipped
        \<and> colls (fst (snd (syncItem_profile (pb, cp, cv, ca) item))) = colls pb)
     \<and> set fields_profile \<subseteq> fst ` set P
     \<and> {''name'', ''number'', ''provinceCode'', ''provinceName'', ''areaNumber''}
          \<subseteq> fst ` set P - set fields_profile
     \<and> (\<forall>existing. fault pb (GetFirstListItem ''referendum'' (number_filter (jget q ''questionNumber''))) = None
          \<and> lookup (colls pb ''referendum'') (number_filter (jget q ''questionNumber'')) = Inr existing
          \<and> isChanged fields_referendum existing Q
          \<and> fault pb (Update ''referendum'' (jget existing ''id'') Q) = None \<longrightarrow>
        fst (syncItem_referendum pb q) = Inr Updated
        \<and> colls (snd (syncItem_referendum pb q)) =
            (colls pb)(''referendum'' :=
               update_first (jget existing ''id'') (json_body Q) (colls pb ''referendum'')))
     \<and> (\<forall>existing. fault pb (GetFirstListItem ''referendum'' (number_filter (jget q ''questionNumber''))) = None
          \<and> lookup (colls pb ''referendum'') (number_filter (jget q ''questionNumber'')) = Inr existing
          \<and> \<not> isChanged fields_referendum existing Q \<longrightarrow>
        fst (syncItem_referendum pb q) = Inr Skipped
        \<and> colls (snd (syncItem_referendum pb q)) = colls pb)
     \<and> set fields_referendum \<subseteq> fst ` set Q
     \<and> {''number'', ''goodVotes'', ''invalidVotes'', ''noVotes''}
          \<subseteq> fst ` set Q - set fields_referendum
     \<and> (\<forall>rid rs i k. i < length rs \<and> k \<notin> fst ` set P \<longrightarrow>
          jget (update_first rid (json_body P) rs ! i) k = jget (rs ! i) k)
     \<and> (\<forall>rid rs. length (update_first rid (json_body P) rs) = length rs)
     \<and> (\<forall>rid rs r. find (\<lambda>r. jget r ''id'' = rid) rs = Some r \<longrightarrow>
          (\<exists>r'. find (\<lambda>r. jget r ''id'' = rid) (update_first rid (json_body P) rs) = Some r'
             \<and> (\<forall>k. jget r' k =
                   (if k \<in> fst ` set P \<and> jget P k \<noteq> JUndefined then jget P k
                    else jget r k))))
     \<and> (\<forall>rid rs i k. i < length rs \<and> k \<notin> fst ` set Q \<longrightarrow>
          jget (update_first rid (json_body Q) rs ! i) k = jget (rs ! i) k)
     \<and> (\<forall>rid rs. length (update_first rid (json_body Q) rs) = length rs)
     \<and> (\<forall>rid rs r. find (\<lambda>r. jget r ''id'' = rid) rs = Some r \<longrightarrow>
          (\<exists>r'. find (\<lambda>r. jget r ''id'' = rid) (update_first rid (json_body Q) rs) = Some r'
             \<and> (\<forall>k. jget r' k =
                   (if k \<in> fst ` set Q \<and> jget Q k \<noteq> JUndefined then jget Q k
                    else jget r k))))"
proof -
  from getPartyId_frame [OF gp]
  have fA: "fault pb0 = fault pb" "colls pb0 = colls pb" by simp_all
  from getProvinceId_frame [OF gv] fA
  have fB: "fault pb0' = fault pb" "colls pb0' = colls pb" by simp_all
  have f1: "fault pb1 = fault pb" "colls pb1 = colls pb"
    using ga fB getAreaId_frame [of pb0' ca provinceId "opt_member (jget item ''electionArea'') ''areaNumber''" areaId pb1 ca1]
    by (auto split: if_splits)
  have step: "syncItem_profile (pb, cp, cv, ca) item =
      (case reconcile pb1 ''candidates'' (name_filter (jget item ''name'')) fields_profile P True of
         (v, pb3) \<Rightarrow> (v, (pb3, cp1, cv1, ca1)))"
  proof (cases "truthy provinceId \<and> truthy (opt_member (jget item ''electionArea'') ''areaNumber'')")
    case True
    with ga have "getAreaId pb0' ca provinceId (opt_member (jget item ''electionArea'') ''areaNumber'')
        = (areaId, pb1, ca1)" by simp
    with True show ?thesis by (simp add: syncItem_profile_reconcile gp gv pP)
  next
    case False
    with ga have "areaId = JNull" "pb1 = pb0'" "ca1 = ca" by auto
    with False show ?thesis by (auto simp: syncItem_profile_reconcile gp gv pP)
  qed
  have qstep: "syncItem_referendum pb q =
      (case reconcile pb ''referendum'' (number_filter (jget q ''questionNumber'')) fields_referendum Q True of
         (v, pb3) \<Rightarrow> (Inr v, pb3))"
    by (simp add: syncItem_referendum_reconcile oa od qQ)
  have dP: "distinct (map fst P)" by (simp add: pP payload_profile_def)
  have iP: "''id'' \<notin> fst ` set P" by (simp add: pP payload_profile_def)
  have dQ: "distinct (map fst Q)" by (simp add: qQ payload_referendum_def)
  have iQ: "''id'' \<notin> fst ` set Q" by (simp add: qQ payload_referendum_def)
  have p1: "(\<forall>existing. fault pb (GetFirstListItem ''candidates'' (name_filter (jget item ''name''))) = None
          \<and> lookup (colls pb ''candidates'') (name_filter (jget item ''name'')) = Inr existing
          \<and> isChanged fields_profile existing P
          \<and> fault pb (Update ''candidates'' (jget existing ''id'') P) = None \<longrightarrow>
        fst (syncItem_profile (pb, cp, cv, ca) item) = Updated
        \<and> colls (fst (snd (syncItem_profile (pb, cp, cv, ca) item))) =
            (colls pb)(''candidates'' :=
               update_first (jget existing ''id'') (json_body P) (colls pb ''candidates'')))"
    using step by (auto simp: reconcile_updated f1)
  have p2: "(\<forall>existing. fault pb (GetFirstListItem ''candidates'' (name_filter (jget item ''name''))) = None
          \<and> lookup (colls pb ''candidates'') (name_filter (jget item ''name'')) = Inr existing
          \<and> \<not> isChanged fields_profile existing P \<longrightarrow>
        fst (syncItem_profile (pb, cp, cv, ca) item) = Skipped
        \<and> colls (fst (snd (syncItem_profile (pb, cp, cv, ca) item))) = colls pb)"
    using step by (auto simp: reconcile_unchanged f1)
  have p3: "set fields_profile \<subseteq> fst ` set P"
    by (simp add: pP payload_profile_def fields_profile_def)
  have p4: "{''name'', ''number'', ''provinceCode'', ''provinceName'', ''areaNumber''}
          \<subseteq> fst ` set P - set fields_profile"
    by (simp add: pP payload_profile_def fields_profile_def)
  have q1: "(\<forall>existing. fault pb (GetFirstListItem ''referendum'' (number_filter (jget q ''questionNumber''))) = None
          \<and> lookup (colls pb ''referendum'') (number_filter (jget q ''questionNumber'')) = Inr existing
          \<and> isChanged fields_referendum existing Q
          \<and> fault pb (Update ''referendum'' (jget existing ''id'') Q) = None \<longrightarrow>
        fst (syncItem_referendum pb q) = Inr Updated
        \<and> colls (snd (syncItem_referendum pb q)) =
            (colls pb)(''referendum'' :=
               update_first (jget existing ''id'') (json_body Q) (colls pb ''referendum'')))"
    using qstep by (auto simp: reconcile_updated)
  have q2: "(\<forall>existing. fault pb (GetFirstListItem ''referendum'' (number_filter (jget q ''questionNumber''))) = None
          \<and> lookup (colls pb ''referendum'') (number_filter (jget q ''questionNumber'')) = Inr existing
          \<and> \<not> isChanged fields_referendum existing Q \<longrightarrow>
        fst (syncItem_referendum pb q) = Inr Skipped
        \<and> colls (snd (syncItem_referendum pb q)) = colls pb)"
    using qstep by (auto simp: reconcile_unchanged)
  have q3: "set fields_referendum \<subseteq> fst ` set Q"
    by (simp add: qQ payload_referendum_def fields_referendum_def)
  have q4: "{''number'', ''goodVotes'', ''invalidVotes'', ''noVotes''}
          \<subseteq> fst ` set Q - set fields_referendum"
    by (simp add: qQ payload_referendum_def fields_referendum_def)
  have fP: "(\<forall>rid rs i k. i < length rs \<and> k \<notin> fst ` set P \<longrightarrow>
          jget (update_first rid (json_body P) rs ! i) k = jget (rs ! i) k)"
    using update_first_frame [OF _ dP] by blast
  have lP: "(\<forall>rid rs. length (update_first rid (json_body P) rs) = length rs)"
    by simp
  have wP: "(\<forall>rid rs r. find (\<lambda>r. jget r ''id'' = rid) rs = Some r \<longrightarrow>
          (\<exists>r'. find (\<lambda>r. jget r ''id'' = rid) (update_first rid (json_body P) rs) = Some r'
             \<and> (\<forall>k. jget r' k =
                   (if k \<in> fst ` set P \<and> jget P k \<noteq> JUndefined then jget P k
                    else jget r k))))"
    using update_first_written [OF _ dP iP] jget_assign_json [OF dP] by (metis (no_types, lifting))
  have fQ: "(\<forall>rid rs i k. i < length rs \<and> k \<notin> fst ` set Q \<longrightarrow>
          jget (update_first rid (json_body Q) rs ! i) k = jget (rs ! i) k)"
    using update_first_frame [OF _ dQ] by blast
  have lQ: "(\<forall>rid rs. length (update_first rid (json_body Q) rs) = length rs)"
    by simp
  have wQ: "(\<forall>rid rs r. find (\<lambda>r. jget r ''id'' = rid) rs = Some r \<longrightarrow>
          (\<exists>r'. find (\<lambda>r. jget r ''id'' = rid) (update_first rid (json_body Q) rs) = Some r'
             \<and> (\<forall>k. jget r' k =
                   (if k \<in> fst ` set Q \<and> jget Q k \<noteq> JUndefined then jget Q k
                    else jget r k))))"
    using update_first_written [OF _ dQ iQ] jget_assign_json [OF dQ] by (metis (no_types, lifting))
  from p1 p2 p3 p4 q1 q2 q3 q4 fP lP wP fQ lQ wQ show ?thesis by (intro conjI)
qed

lemmas script_defs =
  syncItem_referendum_def syncItem_profile_def syncItem_partylist_def syncItem_parties_def
  getPartyId_def getProvinceId_def getAreaId_def options_find_def option_field_def
  payload_referendum_def payload_profile_def payload_partylist_def payload_parties_def
  fields_referendum_def fields_profile_def fields_partylist_def isChanged_def
  jget_def opt_member_def cache_names_def map_get_def json_body_def

theorem owned_field_counterexample:
  "''goodVotes'' \<notin> set fields_referendum
   \<and> jget old_question ''goodVotes'' = JNum 90
   \<and> fst (syncItem_referendum (client (with_question old_question) no_fault) question) = Inr Updated
   \<and> map (\<lambda>r. jget r ''goodVotes'')
        (colls (snd (syncItem_referendum (client (with_question old_question) no_fault) question))
           ''referendum'') = [JNum 100]
   \<and> jget stale_question ''goodVotes'' = JNum 90
   \<and> jget question ''goodVotes'' = JNum 100
   \<and> fst (syncItem_referendum (client (with_question stale_question) no_fault) question) = Inr Skipped"
  by (simp add: script_defs store_defs filter_simps client_def no_fault_def with_question_def
      old_question_def stale_question_def question_def)


theorem owned_field_update_frame_witness:
  "fst (syncItem_profile (client stored no_fault, None, None, None) candidate) = Updated
   \<and> fst (syncItem_referendum (client stored no_fault) question) = Inr Updated
   \<and> length (colls (snd (syncItem_referendum (client stored no_fault) question)) ''referendum'') = 1
   \<and> jget (colls (snd (syncItem_referendum (client stored no_fault) question)) ''referendum'' ! 0)
        ''note'' = JStr ''kept''
   \<and> fst (syncItem_referendum (client (with_question stale_question) no_fault) question)
        = Inr Skipped"
proof -
  let ?pb = "client stored no_fault"
  let ?ps = "client (with_question stale_question) no_fault"
  let ?pA = "request ?pb (GetFullList ''parties'')"
  let ?pB = "request ?pA (GetFullList ''provinces'')"
  let ?sA = "request ?ps (GetFullList ''parties'')"
  let ?sB = "request ?sA (GetFullList ''provinces'')"
  let ?agree = "JObj [(''optionCode'', JStr ''agree''), (''totalVotes'', JNum 60),
                    (''percentage'', JNum 60), (''rank'', JNum 1)]"
  let ?disagree = "JObj [(''optionCode'', JStr ''disagree''), (''totalVotes'', JNum 40),
                    (''percentage'', JNum 40), (''rank'', JNum 2)]"
  let ?P = "payload_profile candidate (opt_member (jget candidate ''electionArea'') ''areaNumber'')
              (JStr ''id1'') JUndefined JNull"
  let ?Q = "payload_referendum question ?agree ?disagree"
  have gp: "getPartyId ?pb None (opt_member (jget candidate ''party'') ''name'')
      = (JStr ''id1'', ?pA, Some (cache_names [party_a]))"
    by (simp add: getPartyId_def getFullList_def Let_def client_def no_fault_def stored_def
        party_a_def candidate_def jget_def opt_member_def cache_names_def map_get_def)
  have gv: "getProvinceId ?pA None (opt_member (jget candidate ''province'') ''name'')
      = (JUndefined, ?pB, Some (cache_names []))"
    by (simp add: getProvinceId_def getFullList_def Let_def client_def no_fault_def stored_def
        candidate_def jget_def opt_member_def cache_names_def map_get_def)
  have ga: "(if truthy JUndefined \<and> truthy (opt_member (jget candidate ''electionArea'') ''areaNumber'')
             then getAreaId ?pB None JUndefined (opt_member (jget candidate ''electionArea'') ''areaNumber'')
             else (JNull, ?pB, None)) = (JNull, ?pB, None :: cache)"
    by simp
  have gps: "getPartyId ?ps None (opt_member (jget candidate ''party'') ''name'')
      = (JUndefined, ?sA, Some (cache_names []))"
    by (simp add: getPartyId_def getFullList_def Let_def client_def no_fault_def with_question_def
        candidate_def jget_def opt_member_def cache_names_def map_get_def)
  have gvs: "getProvinceId ?sA None (opt_member (jget candidate ''province'') ''name'')
      = (JUndefined, ?sB, Some (cache_names []))"
    by (simp add: getProvinceId_def getFullList_def Let_def client_def no_fault_def with_question_def
        candidate_def jget_def opt_member_def cache_names_def map_get_def)
  have gas: "(if truthy JUndefined \<and> truthy (opt_member (jget candidate ''electionArea'') ''areaNumber'')
             then getAreaId ?sB None JUndefined (opt_member (jget candidate ''electionArea'') ''areaNumber'')
             else (JNull, ?sB, None)) = (JNull, ?sB, None :: cache)"
    by simp
  have oa: "options_find (jget question ''options'') ''agree'' = Inr ?agree"
    by (simp add: options_find_def question_def jget_def)
  have od: "options_find (jget question ''options'') ''disagree'' = Inr ?disagree"
    by (simp add: options_find_def question_def jget_def)
  note t = owned_field_update_frame [OF gp gv ga refl oa od refl]
  note ts = owned_field_update_frame [OF gps gvs gas refl oa od refl]
  have hp: "fault ?pb (GetFirstListItem ''candidates'' (name_filter (jget candidate ''name''))) = None
      \<and> lookup (colls ?pb ''candidates'') (name_filter (jget candidate ''name'')) = Inr old_candidate
      \<and> isChanged fields_profile old_candidate ?P
      \<and> fault ?pb (Update ''candidates'' (jget old_candidate ''id'') ?P) = None"
    by (simp add: client_def no_fault_def stored_def old_candidate_def candidate_def jget_def
        isChanged_def fields_profile_def payload_profile_def opt_member_def filter_simps)
  have hq: "fault ?pb (GetFirstListItem ''referendum'' (number_filter (jget question ''questionNumber''))) = None
      \<and> lookup (colls ?pb ''referendum'') (number_filter (jget question ''questionNumber'')) = Inr old_question
      \<and> isChanged fields_referendum old_question ?Q
      \<and> fault ?pb (Update ''referendum'' (jget old_question ''id'') ?Q) = None"
    by (simp add: client_def no_fault_def stored_def old_question_def question_def jget_def
        isChanged_def fields_referendum_def payload_referendum_def option_field_def filter_simps)
  have hs: "fault ?ps (GetFirstListItem ''referendum'' (number_filter (jget question ''questionNumber''))) = None
      \<and> lookup (colls ?ps ''referendum'') (number_filter (jget question ''questionNumber'')) = Inr stale_question
      \<and> \<not> isChanged fields_referendum stale_question ?Q"
    by (simp add: client_def no_fault_def with_question_def stale_question_def question_def jget_def
        isChanged_def fields_referendum_def payload_referendum_def option_field_def filter_simps)
  have 1: "fst (syncItem_profile (?pb, None, None, None) candidate) = Updated"
    by (rule t [THEN conjunct1, THEN spec, THEN mp, OF hp, THEN conjunct1])
  have q: "fst (syncItem_referendum ?pb question) = Inr Updated
      \<and> colls (snd (syncItem_referendum ?pb question)) =
          (colls ?pb)(''referendum'' :=
             update_first (jget old_question ''id'') (json_body ?Q) (colls ?pb ''referendum''))"
    by (rule t [THEN conjunct2, THEN conjunct2, THEN conjunct2, THEN conjunct2, THEN conjunct1,
          THEN spec, THEN mp, OF hq])
  have recs: "colls ?pb ''referendum'' = [old_question]" by (simp add: client_def stored_def)
  have nk: "''note'' \<notin> fst ` set ?Q" by (simp add: payload_referendum_def)
  have fr: "jget (update_first (jget old_question ''id'') (json_body ?Q) [old_question] ! 0) ''note''
      = jget ([old_question] ! 0) ''note''"
  proof -
    have "0 < length [old_question] \<and> ''note'' \<notin> fst ` set ?Q" using nk by simp
    then show ?thesis
      by (rule t [THEN conjunct2, THEN conjunct2, THEN conjunct2, THEN conjunct2, THEN conjunct2,
          THEN conjunct2, THEN conjunct2, THEN conjunct2, THEN conjunct2, THEN conjunct2,
          THEN conjunct2, THEN conjunct1, THEN spec, THEN spec, THEN spec, THEN spec, THEN mp])
  qed
  have ln: "length (update_first (jget old_question ''id'') (json_body ?Q) [old_question])
      = length [old_question]"
    by (rule t [THEN conjunct2, THEN conjunct2, THEN conjunct2, THEN conjunct2, THEN conjunct2,
          THEN conjunct2, THEN conjunct2, THEN conjunct2, THEN conjunct2, THEN conjunct2,
          THEN conjunct2, THEN conjunct2, THEN conjunct1, THEN spec, THEN spec])
  have 2: "fst (syncItem_referendum ?pb question) = Inr Updated" using q by simp
  have 3: "length (colls (snd (syncItem_referendum ?pb question)) ''referendum'') = 1"
    using q ln by (simp add: recs)
  have 4: "jget (colls (snd (syncItem_referendum ?pb question)) ''referendum'' ! 0) ''note''
      = JStr ''kept''"
    using q fr by (simp add: recs) (simp add: old_question_def jget_def)
  have 5: "fst (syncItem_referendum ?ps question) = Inr Skipped"
    by (rule ts [THEN conjunct2, THEN conjunct2, THEN conjunct2, THEN conjunct2, THEN conjunct2,
          THEN conjunct1, THEN spec, THEN mp, OF hs, THEN conjunct1])
  from 1 2 3 4 5 show ?thesis by (intro conjI)
qed

lemma sync_items_nth:
  assumes "i < length items"
  shows "fst (sync_items f s items) ! i = fst (f (snd (sync_items f s (take i items))) (items ! i))"
    and "snd (sync_items f s (take (Suc i) items))
           = snd (f (snd (sync_items f s (take i items))) (items ! i))"
proof -
  from assms have split: "items = take i items @ (items ! i) # drop (Suc i) items"
    by (simp add: id_take_nth_drop)
  obtain vs s1 where a: "sync_items f s (take i items) = (vs, s1)"
    by (cases "sync_items f s (take i items)")
  from sync_items_length [OF a] assms have l: "length vs = i" by simp
  obtain v s2 where b: "f s1 (items ! i) = (v, s2)" by (cases "f s1 (items ! i)")
  obtain ws s3 where c: "sync_items f s2 (drop (Suc i) items) = (ws, s3)"
    by (cases "sync_items f s2 (drop (Suc i) items)")
  have "sync_items f s items = sync_items f s (take i items @ (items ! i) # drop (Suc i) items)"
    using split by simp
  also have "\<dots> = (vs @ v # ws, s3)"
    by (simp add: sync_items_append a b c)
  finally have whole: "sync_items f s items = (vs @ v # ws, s3)" .
  show "fst (sync_items f s items) ! i = fst (f (snd (sync_items f s (take i items))) (items ! i))"
    using l by (simp add: whole a b nth_append)
  have "sync_items f s (take (Suc i) items) = sync_items f s (take i items @ [items ! i])"
    using assms by (simp add: take_Suc_conv_app_nth)
  also have "\<dots> = (vs @ [v], s2)" by (simp add: sync_items_append a b)
  finally show "snd (sync_items f s (take (Suc i) items))
           = snd (f (snd (sync_items f s (take i items))) (items ! i))"
    by (simp add: a b)
qed

text \<open>
  When no item makes \<open>syncItem\<close> throw, the loop of the referendum script is the plain loop.
\<close>

lemma sync_items_throwing_plain:
  "list_all (\<lambda>item. \<forall>s. \<exists>v. fst (f s item) = Inr v) items \<Longrightarrow>
     sync_items_throwing f s items =
       (Inr (),
        sync_items (\<lambda>s x. (case fst (f s x) of Inr v \<Rightarrow> v | Inl e \<Rightarrow> Failed, snd (f s x))) s items)"
proof (induction items arbitrary: s)
  case Nil
  then show ?case by simp
next
  case (Cons item items)
  from Cons.prems obtain v where v: "fst (f s item) = Inr v" by auto
  obtain s1 where s1: "f s item = (Inr v, s1)" using v by (cases "f s item") auto
  from Cons.prems have "list_all (\<lambda>item. \<forall>s. \<exists>v. fst (f s item) = Inr v) items" by simp
  from Cons.IH [OF this, of s1] show ?case
    by (simp add: s1 split: prod.splits)
qed

lemma sync_items_throwing_nth:
  assumes ok: "list_all (\<lambda>item. \<forall>s. \<exists>v. fst (f s item) = Inr v) items"
    and i: "i < length items"
  shows "fst (f (snd (snd (sync_items_throwing f s (take i items)))) (items ! i))
           = Inr (fst (snd (sync_items_throwing f s items)) ! i)"
    and "snd (snd (sync_items_throwing f s (take (Suc i) items)))
           = snd (f (snd (snd (sync_items_throwing f s (take i items)))) (items ! i))"
proof -
  let ?g = "\<lambda>s x. (case fst (f s x) of Inr v \<Rightarrow> v | Inl e \<Rightarrow> Failed, snd (f s x))"
  have oki: "list_all (\<lambda>item. \<forall>s. \<exists>v. fst (f s item) = Inr v) (take i items)"
    and okS: "list_all (\<lambda>item. \<forall>s. \<exists>v. fst (f s item) = Inr v) (take (Suc i) items)"
    using ok by (auto simp: list_all_iff dest: in_set_takeD)
  have w: "sync_items_throwing f s items = (Inr (), sync_items ?g s items)"
    by (rule sync_items_throwing_plain [OF ok])
  have wi: "sync_items_throwing f s (take i items) = (Inr (), sync_items ?g s (take i items))"
    by (rule sync_items_throwing_plain [OF oki])
  have wS: "sync_items_throwing f s (take (Suc i) items) = (Inr (), sync_items ?g s (take (Suc i) items))"
    by (rule sync_items_throwing_plain [OF okS])
  let ?si = "snd (sync_items ?g s (take i items))"
  from ok i have "\<exists>v. fst (f ?si (items ! i)) = Inr v"
    by (auto simp: list_all_iff)
  then obtain v where v: "fst (f ?si (items ! i)) = Inr v" by blast
  from sync_items_nth(1) [OF i, of ?g s] v
  have "fst (sync_items ?g s items) ! i = v" by simp
  with v show "fst (f (snd (snd (sync_items_throwing f s (take i items)))) (items ! i))
           = Inr (fst (snd (sync_items_throwing f s items)) ! i)"
    by (simp add: w wi)
  from sync_items_nth(2) [OF i, of ?g s]
  show "snd (snd (sync_items_throwing f s (take (Suc i) items)))
           = snd (f (snd (snd (sync_items_throwing f s (take i items)))) (items ! i))"
    by (simp add: wi wS)
qed

text \<open>
  C8. Errors stay inside \<open>syncItem\<close> (sync-partylist.js and sync-referendum.js). A lookup
  that fails with a status other than 404 gives \<open>'failed'\<close> and no write is attempted; a
  404 is the not-found path and leads to the create; a rejected create or update gives
  \<open>'failed'\<close>. The loop gives every item a verdict, and the verdict of each item is the
  result of \<open>syncItem\<close> for it on the state that the items before it left, whatever their
  verdicts were; the state it leaves is the one the next item starts from. In the referendum
  script only the \<open>TypeError\<close> of a malformed \<open>options\<close> property, raised before the \<open>try\<close>,
  leaves \<open>syncItem\<close>; no response of the store does.
\<close>

theorem per_item_error_containment:
  assumes g: "getPartyId pb c (opt_member (jget item ''party'') ''name'') = (partyId, pb1, c1)"
    and a: "options_find (jget q ''options'') ''agree'' = Inr agreeOption"
    and d: "options_find (jget q ''options'') ''disagree'' = Inr disagreeOption"
  shows
    "(\<forall>err. fault pb (GetFirstListItem ''partylist'' (name_filter (jget item ''name''))) = Some err
         \<and> status err \<noteq> 404 \<longrightarrow>
       syncItem_partylist (pb, c) item =
         (Failed, (request pb1 (GetFirstListItem ''partylist'' (name_filter (jget item ''name''))), c1)))
     \<and> (not_found pb ''partylist'' (name_filter (jget item ''name''))
         \<and> fault pb (Create ''partylist'' (payload_partylist item partyId)) = None \<longrightarrow>
       fst (syncItem_partylist (pb, c) item) = Created)
     \<and> (not_found pb ''partylist'' (name_filter (jget item ''name''))
         \<and> fault pb (Create ''partylist'' (payload_partylist item partyId)) \<noteq> None \<longrightarrow>
       fst (syncItem_partylist (pb, c) item) = Failed)
     \<and> (\<forall>existing. fault pb (GetFirstListItem ''partylist'' (name_filter (jget item ''name''))) = None
         \<and> lookup (colls pb ''partylist'') (name_filter (jget item ''name'')) = Inr existing
         \<and> isChanged fields_partylist existing (payload_partylist item partyId)
         \<and> fault pb (Update ''partylist'' (jget existing ''id'') (payload_partylist item partyId)) \<noteq> None \<longrightarrow>
       fst (syncItem_partylist (pb, c) item) = Failed)
     \<and> length (fst (sync_items syncItem_partylist s items)) = length items
     \<and> (\<forall>i<length items.
          fst (sync_items syncItem_partylist s items) ! i =
            fst (syncItem_partylist (snd (sync_items syncItem_partylist s (take i items))) (items ! i))
          \<and> snd (sync_items syncItem_partylist s (take (Suc i) items)) =
            snd (syncItem_partylist (snd (sync_items syncItem_partylist s (take i items))) (items ! i)))
     \<and> sync_items syncItem_partylist s [] = ([], s)
     \<and> fst (sync_items syncItem_partylist s (items @ rest)) =
         fst (sync_items syncItem_partylist s items)
         @ fst (sync_items syncItem_partylist (snd (sync_items syncItem_partylist s items)) rest)
     \<and> (\<forall>err. fault pb (GetFirstListItem ''referendum'' (number_filter (jget q ''questionNumber''))) = Some err
         \<and> status err \<noteq> 404 \<longrightarrow>
       syncItem_referendum pb q =
         (Inr Failed, request pb (GetFirstListItem ''referendum'' (number_filter (jget q ''questionNumber'')))))
     \<and> (not_found pb ''referendum'' (number_filter (jget q ''questionNumber''))
         \<and> fault pb (Create ''referendum'' (payload_referendum q agreeOption disagreeOption)) = None \<longrightarrow>
       fst (syncItem_referendum pb q) = Inr Created)
     \<and> (not_found pb ''referendum'' (number_filter (jget q ''questionNumber''))
         \<and> fault pb (Create ''referendum'' (payload_referendum q agreeOption disagreeOption)) \<noteq> None \<longrightarrow>
       fst (syncItem_referendum pb q) = Inr Failed)
     \<and> (\<forall>existing. fault pb (GetFirstListItem ''referendum'' (number_filter (jget q ''questionNumber''))) = None
         \<and> lookup (colls pb ''referendum'') (number_filter (jget q ''questionNumber'')) = Inr existing
         \<and> isChanged fields_referendum existing (payload_referendum q agreeOption disagreeOption)
         \<and> fault pb (Update ''referendum'' (jget existing ''id'')
                        (payload_referendum q agreeOption disagreeOption)) \<noteq> None \<longrightarrow>
       fst (syncItem_referendum pb q) = Inr Failed)
     \<and> ((\<exists>e. fst (syncItem_referendum pb' q') = Inl e) \<longleftrightarrow>
          (\<exists>e. options_find (jget q' ''options'') ''agree'' = Inl e)
          \<or> (\<exists>e. options_find (jget q' ''options'') ''disagree'' = Inl e))
     \<and> (list_all (\<lambda>x. \<exists>ao. options_find (jget x ''options'') ''agree'' = Inr ao) qs
         \<and> list_all (\<lambda>x. \<exists>dopt. options_find (jget x ''options'') ''disagree'' = Inr dopt) qs \<longrightarrow>
        fst (sync_items_throwing syncItem_referendum pb' qs) = Inr ()
        \<and> length (fst (snd (sync_items_throwing syncItem_referendum pb' qs))) = length qs
        \<and> (\<forall>i<length qs.
             fst (syncItem_referendum
                    (snd (snd (sync_items_throwing syncItem_referendum pb' (take i qs)))) (qs ! i))
               = Inr (fst (snd (sync_items_throwing syncItem_referendum pb' qs)) ! i)
             \<and> snd (snd (sync_items_throwing syncItem_referendum pb' (take (Suc i) qs)))
               = snd (syncItem_referendum
                        (snd (snd (sync_items_throwing syncItem_referendum pb' (take i qs))))
                        (qs ! i))))"
proof -
  from getPartyId_frame [OF g]
  have fr: "fault pb1 = fault pb" "colls pb1 = colls pb" by simp_all
  have step: "syncItem_partylist (pb, c) item =
      (case reconcile pb1 ''partylist'' (name_filter (jget item ''name'')) fields_partylist
              (payload_partylist item partyId) True of (v, pb3) \<Rightarrow> (v, (pb3, c1)))"
    by (simp add: syncItem_partylist_reconcile g)
  have qstep: "syncItem_referendum pb q =
      (case reconcile pb ''referendum'' (number_filter (jget q ''questionNumber'')) fields_referendum
              (payload_referendum q agreeOption disagreeOption) True of (v, pb3) \<Rightarrow> (Inr v, pb3))"
    by (simp add: syncItem_referendum_reconcile a d)
  have nf1: "not_found pb1 ''partylist'' (name_filter (jget item ''name''))
      = not_found pb ''partylist'' (name_filter (jget item ''name''))"
    by (rule not_found_frame [OF fr])
  have p1: "\<forall>err. fault pb (GetFirstListItem ''partylist'' (name_filter (jget item ''name''))) = Some err
         \<and> status err \<noteq> 404 \<longrightarrow>
       syncItem_partylist (pb, c) item =
         (Failed, (request pb1 (GetFirstListItem ''partylist'' (name_filter (jget item ''name''))), c1))"
    by (simp add: step reconcile_lookup_error fr)
  have p2: "not_found pb ''partylist'' (name_filter (jget item ''name''))
         \<and> fault pb (Create ''partylist'' (payload_partylist item partyId)) = None \<longrightarrow>
       fst (syncItem_partylist (pb, c) item) = Created"
    using nf1 by (simp add: step reconcile_not_found fr try_create_ok)
  have p3: "not_found pb ''partylist'' (name_filter (jget item ''name''))
         \<and> fault pb (Create ''partylist'' (payload_partylist item partyId)) \<noteq> None \<longrightarrow>
       fst (syncItem_partylist (pb, c) item) = Failed"
    using nf1 by (auto simp: step reconcile_not_found fr try_create_fault)
  have p4: "\<forall>existing. fault pb (GetFirstListItem ''partylist'' (name_filter (jget item ''name''))) = None
         \<and> lookup (colls pb ''partylist'') (name_filter (jget item ''name'')) = Inr existing
         \<and> isChanged fields_partylist existing (payload_partylist item partyId)
         \<and> fault pb (Update ''partylist'' (jget existing ''id'') (payload_partylist item partyId)) \<noteq> None \<longrightarrow>
       fst (syncItem_partylist (pb, c) item) = Failed"
    by (auto simp: step reconcile_found fr try_update_fault)
  have p5: "length (fst (sync_items syncItem_partylist s items)) = length items"
    by (rule length_sync_items)
  have p6: "\<forall>i<length items.
          fst (sync_items syncItem_partylist s items) ! i =
            fst (syncItem_partylist (snd (sync_items syncItem_partylist s (take i items))) (items ! i))
          \<and> snd (sync_items syncItem_partylist s (take (Suc i) items)) =
            snd (syncItem_partylist (snd (sync_items syncItem_partylist s (take i items))) (items ! i))"
    using sync_items_nth [of _ items syncItem_partylist s] by blast
  have p7: "sync_items syncItem_partylist s [] = ([], s)" by simp
  have p8: "fst (sync_items syncItem_partylist s (items @ rest)) =
         fst (sync_items syncItem_partylist s items)
         @ fst (sync_items syncItem_partylist (snd (sync_items syncItem_partylist s items)) rest)"
    by (simp add: sync_items_append split: prod.splits)
  have r1: "\<forall>err. fault pb (GetFirstListItem ''referendum'' (number_filter (jget q ''questionNumber''))) = Some err
         \<and> status err \<noteq> 404 \<longrightarrow>
       syncItem_referendum pb q =
         (Inr Failed, request pb (GetFirstListItem ''referendum'' (number_filter (jget q ''questionNumber''))))"
    by (simp add: qstep reconcile_lookup_error)
  have r2: "not_found pb ''referendum'' (number_filter (jget q ''questionNumber''))
         \<and> fault pb (Create ''referendum'' (payload_referendum q agreeOption disagreeOption)) = None \<longrightarrow>
       fst (syncItem_referendum pb q) = Inr Created"
    by (simp add: qstep reconcile_not_found try_create_ok)
  have r3: "not_found pb ''referendum'' (number_filter (jget q ''questionNumber''))
         \<and> fault pb (Create ''referendum'' (payload_referendum q agreeOption disagreeOption)) \<noteq> None \<longrightarrow>
       fst (syncItem_referendum pb q) = Inr Failed"
    by (auto simp: qstep reconcile_not_found try_create_fault)
  have r4: "\<forall>existing. fault pb (GetFirstListItem ''referendum'' (number_filter (jget q ''questionNumber''))) = None
         \<and> lookup (colls pb ''referendum'') (number_filter (jget q ''questionNumber'')) = Inr existing
         \<and> isChanged fields_referendum existing (payload_referendum q agreeOption disagreeOption)
         \<and> fault pb (Update ''referendum'' (jget existing ''id'')
                        (payload_referendum q agreeOption disagreeOption)) \<noteq> None \<longrightarrow>
       fst (syncItem_referendum pb q) = Inr Failed"
    by (auto simp: qstep reconcile_found try_update_fault)
  have r5: "(\<exists>e. fst (syncItem_referendum pb' q') = Inl e) \<longleftrightarrow>
          (\<exists>e. options_find (jget q' ''options'') ''agree'' = Inl e)
          \<or> (\<exists>e. options_find (jget q' ''options'') ''disagree'' = Inl e)"
    by (rule syncItem_referendum_throws)
  have r6: "list_all (\<lambda>x. \<exists>ao. options_find (jget x ''options'') ''agree'' = Inr ao) qs
         \<and> list_all (\<lambda>x. \<exists>dopt. options_find (jget x ''options'') ''disagree'' = Inr dopt) qs \<longrightarrow>
        fst (sync_items_throwing syncItem_referendum pb' qs) = Inr ()
        \<and> length (fst (snd (sync_items_throwing syncItem_referendum pb' qs))) = length qs
        \<and> (\<forall>i<length qs.
             fst (syncItem_referendum
                    (snd (snd (sync_items_throwing syncItem_referendum pb' (take i qs)))) (qs ! i))
               = Inr (fst (snd (sync_items_throwing syncItem_referendum pb' qs)) ! i)
             \<and> snd (snd (sync_items_throwing syncItem_referendum pb' (take (Suc i) qs)))
               = snd (syncItem_referendum
                        (snd (snd (sync_items_throwing syncItem_referendum pb' (take i qs))))
                        (qs ! i)))"
  proof
    assume h: "list_all (\<lambda>x. \<exists>ao. options_find (jget x ''options'') ''agree'' = Inr ao) qs
         \<and> list_all (\<lambda>x. \<exists>dopt. options_find (jget x ''options'') ''disagree'' = Inr dopt) qs"
    have ok: "list_all (\<lambda>item. \<forall>s. \<exists>v. fst (syncItem_referendum s item) = Inr v) qs"
      using h unfolding list_all_iff
      by (auto simp: syncItem_referendum_reconcile split: sum.splits prod.splits)
    from sync_items_throwing_ok [OF ok]
    have 1: "fst (sync_items_throwing syncItem_referendum pb' qs) = Inr ()
        \<and> length (fst (snd (sync_items_throwing syncItem_referendum pb' qs))) = length qs" .
    have 2: "\<forall>i<length qs.
             fst (syncItem_referendum
                    (snd (snd (sync_items_throwing syncItem_referendum pb' (take i qs)))) (qs ! i))
               = Inr (fst (snd (sync_items_throwing syncItem_referendum pb' qs)) ! i)
             \<and> snd (snd (sync_items_throwing syncItem_referendum pb' (take (Suc i) qs)))
               = snd (syncItem_referendum
                        (snd (snd (sync_items_throwing syncItem_referendum pb' (take i qs))))
                        (qs ! i))"
      using sync_items_throwing_nth [OF ok, of _ pb'] by blast
    from 1 2 show "fst (sync_items_throwing syncItem_referendum pb' qs) = Inr ()
        \<and> length (fst (snd (sync_items_throwing syncItem_referendum pb' qs))) = length qs
        \<and> (\<forall>i<length qs.
             fst (syncItem_referendum
                    (snd (snd (sync_items_throwing syncItem_referendum pb' (take i qs)))) (qs ! i))
               = Inr (fst (snd (sync_items_throwing syncItem_referendum pb' qs)) ! i)
             \<and> snd (snd (sync_items_throwing syncItem_referendum pb' (take (Suc i) qs)))
               = snd (syncItem_referendum
                        (snd (snd (sync_items_throwing syncItem_referendum pb' (take i qs))))
                        (qs ! i)))"
      by (intro conjI) simp_all
  qed
  from p1 p2 p3 p4 p5 p6 p7 p8 r1 r2 r3 r4 r5 r6 show ?thesis by (intro conjI)
qed

theorem per_item_error_containment_witness:
  "syncItem_partylist (client with_parties lookups_rejected, None) list_member
     = (Failed,
        (request (request (client with_parties lookups_rejected) (GetFullList ''parties''))
           (GetFirstListItem ''partylist'' (name_filter (JStr ''Somchai Jaidee''))),
         Some (cache_names [party_a])))
   \<and> fst (syncItem_partylist (client with_parties creates_rejected, None) list_member) = Failed
   \<and> length (fst (sync_items syncItem_partylist (client with_parties lookups_rejected, None)
                 [list_member, list_member])) = 2
   \<and> fst (sync_items syncItem_partylist (client with_parties one_lookup_rejected, None)
            [list_member, candidate]) ! 0 = Failed
   \<and> fst (sync_items syncItem_partylist (client with_parties one_lookup_rejected, None)
            [list_member, candidate]) ! 1 = Created
   \<and> fst (syncItem_referendum (client with_parties lookups_rejected) question) = Inr Failed
   \<and> fst (syncItem_referendum (client with_parties creates_rejected) question) = Inr Failed
   \<and> fst (sync_items_throwing syncItem_referendum (client with_parties lookups_rejected)
           [question, question]) = Inr ()
   \<and> fst (snd (sync_items_throwing syncItem_referendum (client with_parties lookups_rejected)
           [question, question])) ! 1 = Failed"
proof -
  let ?agree = "JObj [(''optionCode'', JStr ''agree''), (''totalVotes'', JNum 60),
                    (''percentage'', JNum 60), (''rank'', JNum 1)]"
  let ?disagree = "JObj [(''optionCode'', JStr ''disagree''), (''totalVotes'', JNum 40),
                    (''percentage'', JNum 40), (''rank'', JNum 2)]"
  let ?pb = "client with_parties lookups_rejected"
  let ?pc = "client with_parties creates_rejected"
  let ?po = "client with_parties one_lookup_rejected"
  have g: "getPartyId ?pb None (opt_member (jget list_member ''party'') ''name'')
      = (JStr ''id1'', request ?pb (GetFullList ''parties''), Some (cache_names [party_a]))"
    by (simp add: getPartyId_def getFullList_def Let_def sample_defs jget_def opt_member_def
        cache_names_def map_get_def)
  have g': "getPartyId ?pc None (opt_member (jget list_member ''party'') ''name'')
      = (JStr ''id1'', request ?pc (GetFullList ''parties''), Some (cache_names [party_a]))"
    by (simp add: getPartyId_def getFullList_def Let_def sample_defs jget_def opt_member_def
        cache_names_def map_get_def)
  have a: "options_find (jget question ''options'') ''agree'' = Inr ?agree"
    by (simp add: options_find_def question_def jget_def)
  have d: "options_find (jget question ''options'') ''disagree'' = Inr ?disagree"
    by (simp add: options_find_def question_def jget_def)
  have k: "jget list_member ''name'' = JStr ''Somchai Jaidee''"
    by (simp add: list_member_def jget_def)
  have f1: "fault ?pb (GetFirstListItem ''partylist'' (name_filter (jget list_member ''name'')))
       = Some (PbErr 500 ''Something went wrong.'')
     \<and> status (PbErr 500 ''Something went wrong.'') \<noteq> 404"
    by (simp add: client_def lookups_rejected_def)
  have f2: "not_found ?pc ''partylist'' (name_filter (jget list_member ''name''))
     \<and> fault ?pc (Create ''partylist'' (payload_partylist list_member (JStr ''id1''))) \<noteq> None"
    by (simp add: not_found_def getFirstListItem_def Let_def filter_simps k client_def
        creates_rejected_def with_parties_def)
  have f3: "fault ?pb (GetFirstListItem ''referendum'' (number_filter (jget question ''questionNumber'')))
       = Some (PbErr 500 ''Something went wrong.'')
     \<and> status (PbErr 500 ''Something went wrong.'') \<noteq> 404"
    by (simp add: client_def lookups_rejected_def)
  have kq: "jget question ''questionNumber'' = JNum 1" by (simp add: question_def jget_def)
  have f4: "not_found ?pc ''referendum'' (number_filter (jget question ''questionNumber''))
     \<and> fault ?pc (Create ''referendum'' (payload_referendum question ?agree ?disagree)) \<noteq> None"
    by (simp add: not_found_def getFirstListItem_def Let_def filter_simps kq client_def
        creates_rejected_def with_parties_def)
  have f5: "list_all (\<lambda>x. \<exists>ao. options_find (jget x ''options'') ''agree'' = Inr ao) [question, question]
     \<and> list_all (\<lambda>x. \<exists>dopt. options_find (jget x ''options'') ''disagree'' = Inr dopt) [question, question]"
    using a d by simp
  note t1 = per_item_error_containment [OF g a d,
      of "(?pb, None)" "[list_member, list_member]" "[]" ?pb question "[question, question]"]
  note t2 = per_item_error_containment [OF g' a d,
      of "(?pc, None)" "[]" "[]" ?pc question "[]"]
  note t3 = per_item_error_containment [OF g a d,
      of "(?po, None)" "[list_member, candidate]" "[]" ?pb question "[]"]
  have 1: "syncItem_partylist (?pb, None) list_member
     = (Failed, (request (request ?pb (GetFullList ''parties''))
           (GetFirstListItem ''partylist'' (name_filter (jget list_member ''name''))),
         Some (cache_names [party_a])))"
    using t1 f1 by simp
  have 2: "fst (syncItem_partylist (?pc, None) list_member) = Failed"
    using t2 f2 by simp
  have 3: "length (fst (sync_items syncItem_partylist (?pb, None) [list_member, list_member]))
      = length [list_member, list_member]"
    using t1 by simp
  have e0: "fst (syncItem_partylist (snd (sync_items syncItem_partylist (?po, None)
                (take 0 [list_member, candidate]))) ([list_member, candidate] ! 0)) = Failed"
    by (simp add: syncItem_partylist_def getPartyId_def store_defs sample_defs
        one_lookup_rejected_def jget_def opt_member_def cache_names_def map_get_def
        split: prod.splits)
  have e1: "fst (syncItem_partylist (snd (sync_items syncItem_partylist (?po, None)
                (take 1 [list_member, candidate]))) ([list_member, candidate] ! 1)) = Created"
    by (simp add: syncItem_partylist_def getPartyId_def store_defs sample_defs
        one_lookup_rejected_def candidate_def jget_def opt_member_def cache_names_def map_get_def
        payload_partylist_def plain_def name_filter_def quoted_def lookup_def parse_filter_def)
  have l0: "(0::nat) < length [list_member, candidate]" and l1: "(1::nat) < length [list_member, candidate]"
    by simp_all
  note loop = t3 [THEN conjunct2, THEN conjunct2, THEN conjunct2, THEN conjunct2, THEN conjunct2,
      THEN conjunct1]
  have 4: "fst (sync_items syncItem_partylist (?po, None) [list_member, candidate]) ! 0 = Failed"
    using loop [THEN spec, THEN mp, OF l0, THEN conjunct1] by (simp only: e0)
  have 5: "fst (sync_items syncItem_partylist (?po, None) [list_member, candidate]) ! 1 = Created"
    using loop [THEN spec, THEN mp, OF l1, THEN conjunct1] by (simp only: e1)
  have 6: "fst (syncItem_referendum ?pb question) = Inr Failed"
    using t1 f3 by simp
  have 7: "fst (syncItem_referendum ?pc question) = Inr Failed"
    using t2 f4 by simp
  note rloop = t1 [THEN conjunct2, THEN conjunct2, THEN conjunct2, THEN conjunct2, THEN conjunct2,
      THEN conjunct2, THEN conjunct2, THEN conjunct2, THEN conjunct2, THEN conjunct2,
      THEN conjunct2, THEN conjunct2, THEN conjunct2, THEN mp, OF f5]
  have 8: "fst (sync_items_throwing syncItem_referendum ?pb [question, question]) = Inr ()"
    using rloop by simp
  have q1: "(1::nat) < length [question, question]" by simp
  have e2: "fst (syncItem_referendum
        (snd (snd (sync_items_throwing syncItem_referendum ?pb (take 1 [question, question]))))
        ([question, question] ! 1)) = Inr Failed"
    by (simp add: syncItem_referendum_def options_find_def store_defs sample_defs jget_def
        split: prod.splits)
  have 9: "fst (snd (sync_items_throwing syncItem_referendum ?pb [question, question])) ! 1 = Failed"
    using rloop [THEN conjunct2, THEN conjunct2, THEN spec, THEN mp, OF q1, THEN conjunct1]
    by (simp only: e2 sum.inject)
  from 1 2 3 4 5 6 7 8 9 show ?thesis by (simp add: k)
qed

lemma cache_areas_map_of:
  "cache_areas rs =
     map_of (rev (map (\<lambda>r. (area_key (jget r ''province'') (jget r ''number''), jget r ''id'')) rs))"
  by (simp add: cache_areas_def foldl_upd_map_of)

lemma primitive_area_key [simp]: "primitive (area_key p n)"
  by (simp add: area_key_def)

text \<open>
  C7. The relation caches (\<open>getPartyId\<close>, \<open>getProvinceId\<close>, \<open>getAreaId\<close>). When the one
  full-list load fails, the error is caught: the resolution returns \<open>undefined\<close> and leaves an
  empty cache; on an empty cache every later resolution returns \<open>undefined\<close>, whatever the
  store holds by then, and makes no call. When the load succeeds, the cache maps each name
  (for areas: each key \<open>province_number\<close>) to the id of the last record with that name; a key
  of the cache resolves to its id and any other key to \<open>undefined\<close>, without a call. An object
  or an array is never a key of the cache. The functions have no exceptional result.
\<close>

theorem relation_cache_semantics:
  "(\<forall>e. fault pb (GetFullList ''parties'') = Some e \<longrightarrow>
      getPartyId pb None k = (JUndefined, request pb (GetFullList ''parties''), Some Map.empty))
   \<and> (\<forall>pb' k'. getPartyId pb' (Some Map.empty) k' = (JUndefined, pb', Some Map.empty))
   \<and> (fault pb (GetFullList ''parties'') = None \<longrightarrow>
        getPartyId pb None k =
          (map_get (cache_names (colls pb ''parties'')) k, request pb (GetFullList ''parties''),
           Some (cache_names (colls pb ''parties''))))
   \<and> (\<forall>m v. primitive k \<and> m k = Some v \<longrightarrow> getPartyId pb (Some m) k = (v, pb, Some m))
   \<and> (\<forall>m. m k = None \<or> \<not> primitive k \<longrightarrow> getPartyId pb (Some m) k = (JUndefined, pb, Some m))
   \<and> (\<forall>e. fault pb (GetFullList ''provinces'') = Some e \<longrightarrow>
      getProvinceId pb None k = (JUndefined, request pb (GetFullList ''provinces''), Some Map.empty))
   \<and> (\<forall>pb' k'. getProvinceId pb' (Some Map.empty) k' = (JUndefined, pb', Some Map.empty))
   \<and> (fault pb (GetFullList ''provinces'') = None \<longrightarrow>
        getProvinceId pb None k =
          (map_get (cache_names (colls pb ''provinces'')) k, request pb (GetFullList ''provinces''),
           Some (cache_names (colls pb ''provinces''))))
   \<and> (\<forall>m v. primitive k \<and> m k = Some v \<longrightarrow> getProvinceId pb (Some m) k = (v, pb, Some m))
   \<and> (\<forall>m. m k = None \<or> \<not> primitive k \<longrightarrow> getProvinceId pb (Some m) k = (JUndefined, pb, Some m))
   \<and> (\<forall>e. fault pb (GetFullList ''areas'') = Some e \<longrightarrow>
      getAreaId pb None p n = (JUndefined, request pb (GetFullList ''areas''), Some Map.empty))
   \<and> (\<forall>pb' p' n'. getAreaId pb' (Some Map.empty) p' n' = (JUndefined, pb', Some Map.empty))
   \<and> (fault pb (GetFullList ''areas'') = None \<longrightarrow>
        getAreaId pb None p n =
          (map_get (cache_areas (colls pb ''areas'')) (area_key p n),
           request pb (GetFullList ''areas''), Some (cache_areas (colls pb ''areas''))))
   \<and> (\<forall>m v. m (area_key p n) = Some v \<longrightarrow> getAreaId pb (Some m) p n = (v, pb, Some m))
   \<and> (\<forall>m. m (area_key p n) = None \<longrightarrow> getAreaId pb (Some m) p n = (JUndefined, pb, Some m))
   \<and> cache_names rs = map_of (rev (map (\<lambda>r. (jget r ''name'', jget r ''id'')) rs))
   \<and> cache_areas rs =
       map_of (rev (map (\<lambda>r. (area_key (jget r ''province'') (jget r ''number''), jget r ''id'')) rs))
   \<and> area_key p n = JStr (to_string p @ ''_'' @ to_string n)"
proof -
  have party: "(\<forall>e. fault pb (GetFullList ''parties'') = Some e \<longrightarrow>
      getPartyId pb None k = (JUndefined, request pb (GetFullList ''parties''), Some Map.empty))
   \<and> (\<forall>pb' k'. getPartyId pb' (Some Map.empty) k' = (JUndefined, pb', Some Map.empty))
   \<and> (fault pb (GetFullList ''parties'') = None \<longrightarrow>
        getPartyId pb None k =
          (map_get (cache_names (colls pb ''parties'')) k, request pb (GetFullList ''parties''),
           Some (cache_names (colls pb ''parties''))))
   \<and> (\<forall>m v. primitive k \<and> m k = Some v \<longrightarrow> getPartyId pb (Some m) k = (v, pb, Some m))
   \<and> (\<forall>m. m k = None \<or> \<not> primitive k \<longrightarrow> getPartyId pb (Some m) k = (JUndefined, pb, Some m))"
    by (auto simp: getPartyId_def getFullList_fault getFullList_ok map_get_def)
  have province: "(\<forall>e. fault pb (GetFullList ''provinces'') = Some e \<longrightarrow>
      getProvinceId pb None k = (JUndefined, request pb (GetFullList ''provinces''), Some Map.empty))
   \<and> (\<forall>pb' k'. getProvinceId pb' (Some Map.empty) k' = (JUndefined, pb', Some Map.empty))
   \<and> (fault pb (GetFullList ''provinces'') = None \<longrightarrow>
        getProvinceId pb None k =
          (map_get (cache_names (colls pb ''provinces'')) k, request pb (GetFullList ''provinces''),
           Some (cache_names (colls pb ''provinces''))))
   \<and> (\<forall>m v. primitive k \<and> m k = Some v \<longrightarrow> getProvinceId pb (Some m) k = (v, pb, Some m))
   \<and> (\<forall>m. m k = None \<or> \<not> primitive k \<longrightarrow> getProvinceId pb (Some m) k = (JUndefined, pb, Some m))"
    by (auto simp: getProvinceId_def getFullList_fault getFullList_ok map_get_def)
  have area: "(\<forall>e. fault pb (GetFullList ''areas'') = Some e \<longrightarrow>
      getAreaId pb None p n = (JUndefined, request pb (GetFullList ''areas''), Some Map.empty))
   \<and> (\<forall>pb' p' n'. getAreaId pb' (Some Map.empty) p' n' = (JUndefined, pb', Some Map.empty))
   \<and> (fault pb (GetFullList ''areas'') = None \<longrightarrow>
        getAreaId pb None p n =
          (map_get (cache_areas (colls pb ''areas'')) (area_key p n),
           request pb (GetFullList ''areas''), Some (cache_areas (colls pb ''areas''))))
   \<and> (\<forall>m v. m (area_key p n) = Some v \<longrightarrow> getAreaId pb (Some m) p n = (v, pb, Some m))
   \<and> (\<forall>m. m (area_key p n) = None \<longrightarrow> getAreaId pb (Some m) p n = (JUndefined, pb, Some m))"
    by (auto simp: getAreaId_def getFullList_fault getFullList_ok map_get_def)
  have maps: "cache_names rs = map_of (rev (map (\<lambda>r. (jget r ''name'', jget r ''id'')) rs))
   \<and> cache_areas rs =
       map_of (rev (map (\<lambda>r. (area_key (jget r ''province'') (jget r ''number''), jget r ''id'')) rs))
   \<and> area_key p n = JStr (to_string p @ ''_'' @ to_string n)"
    by (simp add: cache_names_map_of cache_areas_map_of area_key_def)
  from party province area maps show ?thesis by (intro conjI) simp_all
qed

theorem relation_cache_semantics_witness:
  "getPartyId (client with_parties lists_rejected) None (JStr ''Party A'')
     = (JUndefined, request (client with_parties lists_rejected) (GetFullList ''parties''),
        Some Map.empty)
   \<and> getPartyId (client with_parties no_fault) (Some Map.empty) (JStr ''Party A'')
     = (JUndefined, client with_parties no_fault, Some Map.empty)
   \<and> fst (getPartyId (client with_parties no_fault) None (JStr ''Party A'')) = JStr ''id1''
   \<and> fst (getPartyId (client with_parties no_fault) None (JStr ''Party B'')) = JUndefined
   \<and> fst (getPartyId (client no_records no_fault) (Some [JStr ''Party A'' \<mapsto> JStr ''id1''])
          (JStr ''Party A'')) = JStr ''id1''
   \<and> fst (getPartyId (client no_records no_fault) (Some [JStr ''Party A'' \<mapsto> JStr ''id1''])
          (JStr ''Party B'')) = JUndefined
   \<and> fst (getPartyId (client no_records no_fault) (Some [JObj [] \<mapsto> JStr ''id1'']) (JObj []))
       = JUndefined
   \<and> fst (getProvinceId (client geo no_fault) None (JStr ''Chiang Mai'')) = JStr ''pv1''
   \<and> getProvinceId (client geo lists_rejected) None (JStr ''Chiang Mai'')
     = (JUndefined, request (client geo lists_rejected) (GetFullList ''provinces''), Some Map.empty)
   \<and> getAreaId (client geo lists_rejected) None (JStr ''pv1'') (JNum 3)
     = (JUndefined, request (client geo lists_rejected) (GetFullList ''areas''), Some Map.empty)
   \<and> getAreaId (client geo no_fault) (Some Map.empty) (JStr ''pv1'') (JNum 3)
     = (JUndefined, client geo no_fault, Some Map.empty)
   \<and> fst (getAreaId (client geo no_fault) None (JStr ''pv1'') (JNum 3)) = JStr ''a3''
   \<and> fst (getAreaId (client geo no_fault) None (JStr ''pv2'') (JNum 3)) = JUndefined"
proof -
  let ?pl = "client with_parties lists_rejected"
  let ?pn = "client with_parties no_fault"
  let ?p0 = "client no_records no_fault"
  let ?gl = "client geo lists_rejected"
  let ?gn = "client geo no_fault"
  have rej: "fault ?pl (GetFullList ''parties'') = Some (PbErr 500 ''Something went wrong.'')"
    "fault ?gl (GetFullList ''provinces'') = Some (PbErr 500 ''Something went wrong.'')"
    "fault ?gl (GetFullList ''areas'') = Some (PbErr 500 ''Something went wrong.'')"
    by (simp_all add: client_def lists_rejected_def)
  have ok: "fault ?pn (GetFullList ''parties'') = None"
    "fault ?gn (GetFullList ''provinces'') = None"
    "fault ?gn (GetFullList ''areas'') = None"
    by (simp_all add: client_def no_fault_def)
  have recs: "colls ?pn ''parties'' = [party_a]"
    "colls ?gn ''provinces'' = [[(''id'', JStr ''pv1''), (''name'', JStr ''Chiang Mai'')]]"
    "colls ?gn ''areas'' = [[(''id'', JStr ''a3''), (''province'', JStr ''pv1''), (''number'', JNum 3)]]"
    by (simp_all add: client_def with_parties_def geo_def)
  have m: "cache_names [party_a] = [JStr ''Party A'' \<mapsto> JStr ''id1'']"
    "cache_names [[(''id'', JStr ''pv1''), (''name'', JStr ''Chiang Mai'')]]
       = [JStr ''Chiang Mai'' \<mapsto> JStr ''pv1'']"
    "cache_areas [[(''id'', JStr ''a3''), (''province'', JStr ''pv1''), (''number'', JNum 3)]]
       = [area_key (JStr ''pv1'') (JNum 3) \<mapsto> JStr ''a3'']"
    by (simp_all add: cache_names_def cache_areas_def party_a_def jget_def)
  have ak: "area_key (JStr ''pv2'') (JNum 3) \<noteq> area_key (JStr ''pv1'') (JNum 3)"
    by (simp add: area_key_def)
  note t1 = relation_cache_semantics [of ?pl "JStr ''Party A''"]
  note t2 = relation_cache_semantics [of ?pn "JStr ''Party A''"]
  note t3 = relation_cache_semantics [of ?pn "JStr ''Party B''"]
  note t4 = relation_cache_semantics [of ?p0 "JStr ''Party A''"]
  note t5 = relation_cache_semantics [of ?p0 "JStr ''Party B''"]
  note t6 = relation_cache_semantics [of ?p0 "JObj []"]
  note t7 = relation_cache_semantics [of ?gn "JStr ''Chiang Mai''" "JStr ''pv1''" "JNum 3"]
  note t8 = relation_cache_semantics [of ?gl "JStr ''Chiang Mai''" "JStr ''pv1''" "JNum 3"]
  note t9 = relation_cache_semantics [of ?gn "JStr ''Chiang Mai''" "JStr ''pv2''" "JNum 3"]
  have 1: "getPartyId ?pl None (JStr ''Party A'')
     = (JUndefined, request ?pl (GetFullList ''parties''), Some Map.empty)"
    using t1 rej by simp
  have 2: "getPartyId ?pn (Some Map.empty) (JStr ''Party A'') = (JUndefined, ?pn, Some Map.empty)"
    using t1 by simp
  have 3: "fst (getPartyId ?pn None (JStr ''Party A'')) = JStr ''id1''"
    using t2 ok by (simp add: recs m map_get_def)
  have 4: "fst (getPartyId ?pn None (JStr ''Party B'')) = JUndefined"
    using t3 ok by (simp add: recs m map_get_def)
  have 5: "fst (getPartyId ?p0 (Some [JStr ''Party A'' \<mapsto> JStr ''id1'']) (JStr ''Party A'')) = JStr ''id1''"
    using t4 by simp
  have 6: "fst (getPartyId ?p0 (Some [JStr ''Party A'' \<mapsto> JStr ''id1'']) (JStr ''Party B'')) = JUndefined"
    using t5 by simp
  have 7: "fst (getPartyId ?p0 (Some [JObj [] \<mapsto> JStr ''id1'']) (JObj [])) = JUndefined"
    using t6 by simp
  have 8: "fst (getProvinceId ?gn None (JStr ''Chiang Mai'')) = JStr ''pv1''"
    using t7 ok by (simp add: recs m map_get_def)
  have 9: "getProvinceId ?gl None (JStr ''Chiang Mai'')
     = (JUndefined, request ?gl (GetFullList ''provinces''), Some Map.empty)"
    using t8 rej by simp
  have 10: "getAreaId ?gl None (JStr ''pv1'') (JNum 3)
     = (JUndefined, request ?gl (GetFullList ''areas''), Some Map.empty)"
    using t8 rej by simp
  have 11: "getAreaId ?gn (Some Map.empty) (JStr ''pv1'') (JNum 3) = (JUndefined, ?gn, Some Map.empty)"
    using t8 by simp
  have 12: "fst (getAreaId ?gn None (JStr ''pv1'') (JNum 3)) = JStr ''a3''"
    using t7 ok by (simp add: recs m map_get_def)
  have 13: "fst (getAreaId ?gn None (JStr ''pv2'') (JNum 3)) = JUndefined"
    using t9 ok ak by (simp add: recs m map_get_def)
  from 1 2 3 4 5 6 7 8 9 10 11 12 13 show ?thesis by (intro conjI)
qed

lemma main_paginated_loop:
  "fst (authenticate cfg pb) = Inr () \<Longrightarrow>
     main_paginated fuel fatal is_last f count stats0 caches cfg src pb =
       (case pages_loop fuel is_last f src 1 (snd (authenticate cfg pb), caches) of
          None \<Rightarrow> None
        | Some (Inl e, results, s) \<Rightarrow>
            Some \<lparr>exit_status = fatal, summary = None, verdicts = results, final = s\<rparr>
        | Some (Inr u, results, s) \<Rightarrow>
            Some \<lparr>exit_status = 0, summary = Some (foldl count stats0 results),
                  verdicts = results, final = s\<rparr>)"
  by (cases "authenticate cfg pb") (auto simp: main_paginated_def)

text \<open>
  C4 (as amended). The pagination loop. Each of the five paginated drivers, once
  authenticated, is the loop started at page 1 with the script's own \<open>syncItem\<close> and its own
  test for the last page: \<open>page >= totalPages\<close> in the candidates, areas and score syncs, and
  \<open>totalPages && page >= totalPages\<close> in sync-partylist.js and the candidate profile sync. A
  fetched page with no items ends the loop at once, nothing more being reconciled, whatever
  \<open>totalPages\<close> it reports. A page with items is reconciled; the loop then ends when the test
  for the last page holds, and otherwise goes on with the next page number. The plain test
  holds for a reported number that the page has reached and for \<open>null\<close> (which counts as 0),
  and never for a missing \<open>totalPages\<close>; the guarded test holds only for a reported number
  other than 0 that the page has reached. With enough fuel the loop returns whenever some
  page from the current one on is empty.
\<close>

theorem pagination_loop:
  "(fst (authenticate cfg pb) = Inr () \<longrightarrow>
      main_partylist fuel cfg src pb =
        (case pages_loop fuel last_page_guarded syncItem_partylist src 1
                (snd (authenticate cfg pb), None) of
           None \<Rightarrow> None
         | Some (Inl e, results, s) \<Rightarrow>
             Some \<lparr>exit_status = 1, summary = None, verdicts = results, final = s\<rparr>
         | Some (Inr u, results, s) \<Rightarrow>
             Some \<lparr>exit_status = 0, summary = Some (foldl tally stats4 results),
                   verdicts = results, final = s\<rparr>)
      \<and> main_candidates fuel cfg src pb =
        (case pages_loop fuel last_page_plain syncItem_candidates src 1
                (snd (authenticate cfg pb), (None, None)) of
           None \<Rightarrow> None
         | Some (Inl e, results, s) \<Rightarrow>
             Some \<lparr>exit_status = 1, summary = None, verdicts = results, final = s\<rparr>
         | Some (Inr u, results, s) \<Rightarrow>
             Some \<lparr>exit_status = 0, summary = Some (foldl tally stats4 results),
                   verdicts = results, final = s\<rparr>)
      \<and> main_areas fuel cfg src pb =
        (case pages_loop fuel last_page_plain syncItem_areas src 1
                (snd (authenticate cfg pb), None) of
           None \<Rightarrow> None
         | Some (Inl e, results, s) \<Rightarrow>
             Some \<lparr>exit_status = 1, summary = None, verdicts = results, final = s\<rparr>
         | Some (Inr u, results, s) \<Rightarrow>
             Some \<lparr>exit_status = 0, summary = Some (foldl tally stats4 results),
                   verdicts = results, final = s\<rparr>)
      \<and> main_profile fuel cfg src pb =
        (case pages_loop fuel last_page_guarded syncItem_profile src 1
                (snd (authenticate cfg pb), (None, None, None)) of
           None \<Rightarrow> None
         | Some (Inl e, results, s) \<Rightarrow>
             Some \<lparr>exit_status = 1, summary = None, verdicts = results, final = s\<rparr>
         | Some (Inr u, results, s) \<Rightarrow>
             Some \<lparr>exit_status = 0, summary = Some (foldl tally stats4 results),
                   verdicts = results, final = s\<rparr>)
      \<and> main_score fuel cfg src pb =
        (case pages_loop fuel last_page_plain syncItem_score src 1
                (snd (authenticate cfg pb), ()) of
           None \<Rightarrow> None
         | Some (Inl e, results, s) \<Rightarrow>
             Some \<lparr>exit_status = 1, summary = None, verdicts = results, final = s\<rparr>
         | Some (Inr u, results, s) \<Rightarrow>
             Some \<lparr>exit_status = 0, summary = Some (foldl tally stats4 results),
                   verdicts = results, final = s\<rparr>))
   \<and> (\<forall>resp. src p = Inr resp \<and> or_empty (listing resp) = [] \<longrightarrow>
        pages_loop (Suc fuel) is_last f src p s = Some (Inr (), [], s))
   \<and> (\<forall>resp. src p = Inr resp \<and> or_empty (listing resp) \<noteq> [] \<and> is_last p (totalPages resp) \<longrightarrow>
        pages_loop (Suc fuel) is_last f src p s =
          Some (Inr (), fst (sync_items f s (or_empty (listing resp))),
                snd (sync_items f s (or_empty (listing resp)))))
   \<and> (\<forall>resp. src p = Inr resp \<and> or_empty (listing resp) \<noteq> [] \<and> \<not> is_last p (totalPages resp) \<longrightarrow>
        pages_loop (Suc fuel) is_last f src p s =
          (case pages_loop fuel is_last f src (Suc p)
                  (snd (sync_items f s (or_empty (listing resp)))) of
             None \<Rightarrow> None
           | Some (r, later, s2) \<Rightarrow>
               Some (r, fst (sync_items f s (or_empty (listing resp))) @ later, s2)))
   \<and> (last_page_plain p tp \<longleftrightarrow> tp = NullTotal \<or> (\<exists>n. tp = TotalNum n \<and> n \<le> int p))
   \<and> (last_page_guarded p tp \<longleftrightarrow> (\<exists>n. tp = TotalNum n \<and> n \<noteq> 0 \<and> n \<le> int p))
   \<and> (\<forall>k resp. src k = Inr resp \<and> or_empty (listing resp) = [] \<and> p \<le> k \<and> k - p < fuel \<longrightarrow>
        (\<exists>res. pages_loop fuel is_last f src p s = Some res))"
proof -
  have 1: "fst (authenticate cfg pb) = Inr () \<longrightarrow>
      main_partylist fuel cfg src pb =
        (case pages_loop fuel last_page_guarded syncItem_partylist src 1
                (snd (authenticate cfg pb), None) of
           None \<Rightarrow> None
         | Some (Inl e, results, s) \<Rightarrow>
             Some \<lparr>exit_status = 1, summary = None, verdicts = results, final = s\<rparr>
         | Some (Inr u, results, s) \<Rightarrow>
             Some \<lparr>exit_status = 0, summary = Some (foldl tally stats4 results),
                   verdicts = results, final = s\<rparr>)
      \<and> main_candidates fuel cfg src pb =
        (case pages_loop fuel last_page_plain syncItem_candidates src 1
                (snd (authenticate cfg pb), (None, None)) of
           None \<Rightarrow> None
         | Some (Inl e, results, s) \<Rightarrow>
             Some \<lparr>exit_status = 1, summary = None, verdicts = results, final = s\<rparr>
         | Some (Inr u, results, s) \<Rightarrow>
             Some \<lparr>exit_status = 0, summary = Some (foldl tally stats4 results),
                   verdicts = results, final = s\<rparr>)
      \<and> main_areas fuel cfg src pb =
        (case pages_loop fuel last_page_plain syncItem_areas src 1
                (snd (authenticate cfg pb), None) of
           None \<Rightarrow> None
         | Some (Inl e, results, s) \<Rightarrow>
             Some \<lparr>exit_status = 1, summary = None, verdicts = results, final = s\<rparr>
         | Some (Inr u, results, s) \<Rightarrow>
             Some \<lparr>exit_status = 0, summary = Some (foldl tally stats4 results),
                   verdicts = results, final = s\<rparr>)
      \<and> main_profile fuel cfg src pb =
        (case pages_loop fuel last_page_guarded syncItem_profile src 1
                (snd (authenticate cfg pb), (None, None, None)) of
           None \<Rightarrow> None
         | Some (Inl e, results, s) \<Rightarrow>
             Some \<lparr>exit_status = 1, summary = None, verdicts = results, final = s\<rparr>
         | Some (Inr u, results, s) \<Rightarrow>
             Some \<lparr>exit_status = 0, summary = Some (foldl tally stats4 results),
                   verdicts = results, final = s\<rparr>)
      \<and> main_score fuel cfg src pb =
        (case pages_loop fuel last_page_plain syncItem_score src 1
                (snd (authenticate cfg pb), ()) of
           None \<Rightarrow> None
         | Some (Inl e, results, s) \<Rightarrow>
             Some \<lparr>exit_status = 1, summary = None, verdicts = results, final = s\<rparr>
         | Some (Inr u, results, s) \<Rightarrow>
             Some \<lparr>exit_status = 0, summary = Some (foldl tally stats4 results),
                   verdicts = results, final = s\<rparr>)"
    unfolding paginated_mains by (intro impI conjI) (rule main_paginated_loop, assumption)+
  have 2: "\<forall>resp. src p = Inr resp \<and> or_empty (listing resp) = [] \<longrightarrow>
        pages_loop (Suc fuel) is_last f src p s = Some (Inr (), [], s)"
    using pages_loop_empty_page [of src p _ fuel is_last f s] by blast
  have 3: "\<forall>resp. src p = Inr resp \<and> or_empty (listing resp) \<noteq> [] \<and> is_last p (totalPages resp) \<longrightarrow>
        pages_loop (Suc fuel) is_last f src p s =
          Some (Inr (), fst (sync_items f s (or_empty (listing resp))),
                snd (sync_items f s (or_empty (listing resp))))"
    using pages_loop_last_page [of src p _ is_last fuel f s] by blast
  have 4: "\<forall>resp. src p = Inr resp \<and> or_empty (listing resp) \<noteq> [] \<and> \<not> is_last p (totalPages resp) \<longrightarrow>
        pages_loop (Suc fuel) is_last f src p s =
          (case pages_loop fuel is_last f src (Suc p)
                  (snd (sync_items f s (or_empty (listing resp)))) of
             None \<Rightarrow> None
           | Some (r, later, s2) \<Rightarrow>
               Some (r, fst (sync_items f s (or_empty (listing resp))) @ later, s2))"
    using pages_loop_next_page [of src p _ is_last fuel f s] by blast
  have 5: "last_page_plain p tp \<longleftrightarrow> tp = NullTotal \<or> (\<exists>n. tp = TotalNum n \<and> n \<le> int p)"
    by (cases tp) (simp_all add: last_page_plain_def)
  have 6: "last_page_guarded p tp \<longleftrightarrow> (\<exists>n. tp = TotalNum n \<and> n \<noteq> 0 \<and> n \<le> int p)"
    by (cases tp) (simp_all add: last_page_guarded_def)
  have 7: "\<forall>k resp. src k = Inr resp \<and> or_empty (listing resp) = [] \<and> p \<le> k \<and> k - p < fuel \<longrightarrow>
        (\<exists>res. pages_loop fuel is_last f src p s = Some res)"
    using pages_loop_terminates [of src _ _ p fuel is_last f s] by blast
  from 1 2 3 4 5 6 7 show ?thesis by (intro conjI)
qed

theorem pagination_loop_counterexample:
  "zero_total 1 = Inr \<lparr>listing = Some [list_member], totalPages = TotalNum 0\<rparr>
   \<and> (0::int) \<le> int 1
   \<and> map_option fst (pages_loop (Suc (Suc 0)) last_page_guarded syncItem_partylist zero_total 1
          (client no_records no_fault, None))
      = Some (Inl (Error ''Fetch Page 2 Failed: no such page''))
   \<and> map_option fst (pages_loop (Suc (Suc 0)) last_page_plain syncItem_partylist zero_total 1
          (client no_records no_fault, None))
      = Some (Inr ())"
  by (simp add: fetchPage_def zero_total_def or_empty_def last_page_guarded_def last_page_plain_def
      string_of_nat_2 split: prod.splits)

theorem pagination_loop_witness:
  "pages_loop (Suc 0) last_page_plain syncItem_partylist two_pages 3 (client no_records no_fault, None)
     = Some (Inr (), [], (client no_records no_fault, None))
   \<and> map_option (\<lambda>res. fst (snd res))
        (pages_loop (Suc 0) last_page_guarded syncItem_partylist one_page 1
           (client no_records no_fault, None)) = Some [Created]
   \<and> (\<exists>res. pages_loop 3 last_page_plain syncItem_partylist two_pages 1
           (client no_records no_fault, None) = Some res)
   \<and> last_page_plain 2 (TotalNum 2) \<and> \<not> last_page_plain 2 NoTotal \<and> last_page_plain 1 NullTotal
   \<and> \<not> last_page_guarded 1 (TotalNum 0) \<and> \<not> last_page_guarded 1 NullTotal
   \<and> map_option exit_status (main_profile (Suc 0) credentials offline (client no_records no_fault))
       = Some 1
   \<and> map_option exit_status (main_score (Suc 0) credentials offline (client no_records no_fault))
       = Some 1"
proof -
  let ?pb = "client no_records no_fault"
  let ?s = "(?pb, None :: cache)"
  have e: "two_pages 3 = Inr \<lparr>listing = Some [], totalPages = TotalNum 7\<rparr>
      \<and> or_empty (listing \<lparr>listing = Some [], totalPages = TotalNum 7\<rparr>) = []"
    by (simp add: two_pages_def or_empty_def)
  have l: "one_page 1 = Inr \<lparr>listing = Some [list_member], totalPages = TotalNum 1\<rparr>
      \<and> or_empty (listing \<lparr>listing = Some [list_member], totalPages = TotalNum 1\<rparr>) \<noteq> []
      \<and> last_page_guarded 1 (totalPages \<lparr>listing = Some [list_member], totalPages = TotalNum 1\<rparr>)"
    by (simp add: one_page_def or_empty_def last_page_guarded_def)
  have t: "two_pages 3 = Inr \<lparr>listing = Some [], totalPages = TotalNum 7\<rparr>
      \<and> or_empty (listing \<lparr>listing = Some [], totalPages = TotalNum 7\<rparr>) = []
      \<and> (1::nat) \<le> 3 \<and> (3::nat) - 1 < 3"
    by (simp add: two_pages_def or_empty_def)
  have v: "fst (sync_items syncItem_partylist ?s [list_member]) = [Created]"
    by (simp add: syncItem_partylist_def getPartyId_def store_defs sample_defs jget_def
        opt_member_def cache_names_def map_get_def filter_simps split: prod.splits)
  have auth: "fst (authenticate credentials ?pb) = Inr ()"
    by (simp add: authenticate_def authWithPassword_users_def Let_def client_def no_fault_def)
  have off: "pages_loop (Suc 0) is_last f offline (Suc 0) s0
      = Some (Inl (Error (''Fetch Page '' @ string_of_nat (Suc 0) @ '' Failed: connect ECONNREFUSED'')), [], s0)"
    for is_last :: "nat \<Rightarrow> total \<Rightarrow> bool" and f :: "'s \<Rightarrow> obj \<Rightarrow> verdict \<times> 's" and s0
    by (simp add: fetchPage_def offline_def)
  note t1 = pagination_loop [where src = two_pages and p = 3 and fuel = 0 and s = "?s"
      and is_last = last_page_plain and f = syncItem_partylist]
  note t2 = pagination_loop [where src = one_page and p = 1 and fuel = 0 and s = "?s"
      and is_last = last_page_guarded and f = syncItem_partylist]
  note t3 = pagination_loop [where src = two_pages and p = 1 and fuel = 3 and s = "?s"
      and is_last = last_page_plain and f = syncItem_partylist]
  note c5 = conjunct2 [THEN conjunct2, THEN conjunct2, THEN conjunct2, THEN conjunct1]
  note c6 = conjunct2 [THEN conjunct2, THEN conjunct2, THEN conjunct2, THEN conjunct2, THEN conjunct1]
  note t4 = pagination_loop [where cfg = credentials and pb = "?pb" and src = two_pages and fuel = 0
      and s = "?s" and is_last = last_page_plain and f = syncItem_partylist and p = 2 and tp = "TotalNum 2", THEN c5]
  note t5 = pagination_loop [where cfg = credentials and pb = "?pb" and src = two_pages and fuel = 0
      and s = "?s" and is_last = last_page_plain and f = syncItem_partylist and p = 2 and tp = "NoTotal", THEN c5]
  note t5' = pagination_loop [where cfg = credentials and pb = "?pb" and src = two_pages and fuel = 0
      and s = "?s" and is_last = last_page_plain and f = syncItem_partylist and p = 1 and tp = "NullTotal", THEN c5]
  note t6 = pagination_loop [where cfg = credentials and pb = "?pb" and src = two_pages and fuel = 0
      and s = "?s" and is_last = last_page_plain and f = syncItem_partylist and p = 1 and tp = "TotalNum 0", THEN c6]
  note t6' = pagination_loop [where cfg = credentials and pb = "?pb" and src = two_pages and fuel = 0
      and s = "?s" and is_last = last_page_plain and f = syncItem_partylist and p = 1 and tp = "NullTotal", THEN c6]
  note t7 = pagination_loop [where cfg = credentials and pb = "?pb" and src = offline and fuel = "Suc 0",
      THEN conjunct1, THEN mp, OF auth]
  have 1: "pages_loop (Suc 0) last_page_plain syncItem_partylist two_pages 3 ?s
     = Some (Inr (), [], ?s)"
    using t1 e by (simp del: pages_loop.simps)
  have 2: "pages_loop (Suc 0) last_page_guarded syncItem_partylist one_page 1 ?s
     = Some (Inr (), fst (sync_items syncItem_partylist ?s [list_member]),
             snd (sync_items syncItem_partylist ?s [list_member]))"
    using t2 l by (simp add: or_empty_def del: pages_loop.simps sync_items.simps)
  have two: "map_option (\<lambda>res. fst (snd res))
        (pages_loop (Suc 0) last_page_guarded syncItem_partylist one_page 1 ?s) = Some [Created]"
    by (simp only: 2 v option.map fst_conv snd_conv)
  have 3: "\<exists>res. pages_loop 3 last_page_plain syncItem_partylist two_pages 1 ?s = Some res"
    using t3 t by blast
  have 4: "last_page_plain 2 (TotalNum 2)" using t4 by simp
  have 5: "\<not> last_page_plain 2 NoTotal" using t5 by simp
  have five: "last_page_plain 1 NullTotal" using t5' by simp
  have 6: "\<not> last_page_guarded 1 (TotalNum 0)" using t6 by simp
  have six: "\<not> last_page_guarded 1 NullTotal" using t6' by simp
  have 7: "map_option exit_status (main_profile (Suc 0) credentials offline ?pb) = Some 1"
    using t7 [THEN conjunct2, THEN conjunct2, THEN conjunct2, THEN conjunct1]
    by (simp add: off del: pages_loop.simps)
  have 8: "map_option exit_status (main_score (Suc 0) credentials offline ?pb) = Some 1"
    using t7 [THEN conjunct2, THEN conjunct2, THEN conjunct2, THEN conjunct2]
    by (simp add: off del: pages_loop.simps)
  from 1 two 3 4 5 five 6 six 7 8 show ?thesis by (intro conjI)
qed

lemma goes_on_page:
  "goes_on is_last src p \<Longrightarrow>
     \<exists>resp. src p = Inr resp \<and> or_empty (listing resp) \<noteq> [] \<and> \<not> is_last p (totalPages resp)"
  by (cases "src p") (simp_all add: goes_on_def)

lemma pages_loop_fetch_fails:
  "src k = Inl msg \<Longrightarrow> p \<le> k \<Longrightarrow> k - p < fuel \<Longrightarrow> list_all (goes_on is_last src) [p..<k] \<Longrightarrow>
     \<exists>vs s'. pages_loop fuel is_last f src p s =
        Some (Inl (Error (''Fetch Page '' @ string_of_nat k @ '' Failed: '' @ msg)), vs, s')"
proof (induction fuel arbitrary: p s)
  case 0
  then show ?case by simp
next
  case (Suc fuel)
  show ?case
  proof (cases "p = k")
    case True
    with Suc.prems(1) show ?thesis by (simp add: fetchPage_def)
  next
    case False
    with Suc.prems(2) have lt: "p < k" by simp
    then have up: "[p..<k] = p # [Suc p..<k]" by (simp add: upt_conv_Cons)
    from Suc.prems(4) up have g: "goes_on is_last src p"
      and rest: "list_all (goes_on is_last src) [Suc p..<k]" by simp_all
    from lt Suc.prems(3) have "Suc p \<le> k" "k - Suc p < fuel" by simp_all
    note ih = Suc.IH [OF Suc.prems(1) this rest]
    from goes_on_page [OF g] obtain resp where
      r: "src p = Inr resp" "or_empty (listing resp) \<noteq> []" "\<not> is_last p (totalPages resp)"
      by blast
    from ih [of "snd (sync_items f s (or_empty (listing resp)))"] obtain vs s' where
      "pages_loop fuel is_last f src (Suc p) (snd (sync_items f s (or_empty (listing resp))))
        = Some (Inl (Error (''Fetch Page '' @ string_of_nat k @ '' Failed: '' @ msg)), vs, s')"
      by blast
    then show ?thesis using r by (simp add: pages_loop_next_page [of src p resp is_last fuel f s] del: pages_loop.simps)
  qed
qed

lemma pages_loop_ends:
  "ends_at is_last src k \<Longrightarrow> p \<le> k \<Longrightarrow> k - p < fuel \<Longrightarrow> list_all (goes_on is_last src) [p..<k] \<Longrightarrow>
     \<exists>vs s'. pages_loop fuel is_last f src p s = Some (Inr (), vs, s')"
proof (induction fuel arbitrary: p s)
  case 0
  then show ?case by simp
next
  case (Suc fuel)
  show ?case
  proof (cases "p = k")
    case True
    with Suc.prems(1) show ?thesis
      by (cases "src k") (auto simp: ends_at_def fetchPage_def split: prod.splits)
  next
    case False
    with Suc.prems(2) have lt: "p < k" by simp
    then have up: "[p..<k] = p # [Suc p..<k]" by (simp add: upt_conv_Cons)
    from Suc.prems(4) up have g: "goes_on is_last src p"
      and rest: "list_all (goes_on is_last src) [Suc p..<k]" by simp_all
    from lt Suc.prems(3) have "Suc p \<le> k" "k - Suc p < fuel" by simp_all
    note ih = Suc.IH [OF Suc.prems(1) this rest]
    from goes_on_page [OF g] obtain resp where
      r: "src p = Inr resp" "or_empty (listing resp) \<noteq> []" "\<not> is_last p (totalPages resp)"
      by blast
    from ih [of "snd (sync_items f s (or_empty (listing resp)))"] obtain vs s' where
      "pages_loop fuel is_last f src (Suc p) (snd (sync_items f s (or_empty (listing resp))))
        = Some (Inr (), vs, s')"
      by blast
    then show ?thesis using r by (simp add: pages_loop_next_page [of src p resp is_last fuel f s] del: pages_loop.simps)
  qed
qed

lemma paginated_exit_5:
  "\<forall>k msg. fst (authenticate cfg pb) = Inr () \<and> 1 \<le> k \<and> k \<le> fuel \<and> src k = Inl msg
       \<and> list_all (goes_on is_last src) [1..<k] \<longrightarrow>
     map_option exit_status (main_paginated fuel 1 is_last f count stats0 caches cfg src pb) = Some 1
     \<and> map_option summary (main_paginated fuel 1 is_last f count stats0 caches cfg src pb) = Some None"
proof (intro allI impI)
  fix k msg
  assume h: "fst (authenticate cfg pb) = Inr () \<and> 1 \<le> k \<and> k \<le> fuel \<and> src k = Inl msg
       \<and> list_all (goes_on is_last src) [1..<k]"
  then have "k - 1 < fuel" by auto
  from pages_loop_fetch_fails [of src k msg 1 fuel is_last f "(snd (authenticate cfg pb), caches)"] h this
  obtain vs s' where "pages_loop fuel is_last f src 1 (snd (authenticate cfg pb), caches) =
        Some (Inl (Error (''Fetch Page '' @ string_of_nat k @ '' Failed: '' @ msg)), vs, s')"
    by auto
  with h show "map_option exit_status (main_paginated fuel 1 is_last f count stats0 caches cfg src pb) = Some 1
     \<and> map_option summary (main_paginated fuel 1 is_last f count stats0 caches cfg src pb) = Some None"
    by (simp add: main_paginated_loop)
qed

lemma paginated_exit_6:
  "\<forall>k. fst (authenticate cfg pb) = Inr () \<and> 1 \<le> k \<and> k \<le> fuel \<and> ends_at is_last src k
       \<and> list_all (goes_on is_last src) [1..<k] \<longrightarrow>
     (\<exists>out. main_paginated fuel 1 is_last f count stats0 caches cfg src pb = Some out
        \<and> exit_status out = 0 \<and> summary out = Some (foldl count stats0 (verdicts out)))"
proof (intro allI impI)
  fix k
  assume h: "fst (authenticate cfg pb) = Inr () \<and> 1 \<le> k \<and> k \<le> fuel \<and> ends_at is_last src k
       \<and> list_all (goes_on is_last src) [1..<k]"
  then have "k - 1 < fuel" by auto
  from pages_loop_ends [of is_last src k 1 fuel f "(snd (authenticate cfg pb), caches)"] h this
  obtain vs s' where "pages_loop fuel is_last f src 1 (snd (authenticate cfg pb), caches) =
        Some (Inr (), vs, s')"
    by auto
  with h show "\<exists>out. main_paginated fuel 1 is_last f count stats0 caches cfg src pb = Some out
        \<and> exit_status out = 0 \<and> summary out = Some (foldl count stats0 (verdicts out))"
    by (simp add: main_paginated_loop)
qed

text \<open>
  C5 (as amended). The exit status of each script. In the scripts whose \<open>catch\<close> calls
  \<open>process.exit(1)\<close> (partylist, candidates, areas, candidate profile, candidate score,
  parties, partylist results, provinces) a failed authentication and a failed fetch of the
  first page or of the whole list end the process with status 1, and so does a failed fetch of
  a later page that the loop reaches; a run that ends with status other than 0 ends with 1
  and had a failed authentication or a failed fetch; and a run whose authentication succeeds
  and whose loop ends at a fetched page (or whose list is fetched) ends with status 0 and
  prints its counters, whatever the verdicts of the items were. The referendum, national
  statistics, province statistics and national parties syncs only log the error in their
  \<open>catch\<close>: they end with status 0 always.
\<close>

theorem exit_status_by_script:
  "(fst (authenticate cfg pb) \<noteq> Inr () \<longrightarrow>
        map_option exit_status (main_partylist fuel cfg src pb) = Some 1)
     \<and> (fst (authenticate cfg pb) = Inr () \<and> (\<exists>msg. src 1 = Inl msg) \<longrightarrow>
        map_option exit_status (main_partylist (Suc fuel) cfg src pb) = Some 1)
     \<and> (fst (authenticate cfg pb) = Inr () \<and> (\<forall>q. \<exists>resp. src q = Inr resp) \<longrightarrow>
        (\<forall>out. main_partylist fuel cfg src pb = Some out \<longrightarrow> exit_status out = 0 \<and> summary out \<noteq> None))
     \<and> (\<forall>out. main_partylist fuel cfg src pb = Some out \<and> exit_status out \<noteq> 0 \<longrightarrow>
        exit_status out = 1
        \<and> (fst (authenticate cfg pb) \<noteq> Inr () \<or> (\<exists>q msg. src q = Inl msg)))
     \<and> (\<forall>k msg. fst (authenticate cfg pb) = Inr () \<and> 1 \<le> k \<and> k \<le> fuel \<and> src k = Inl msg
          \<and> list_all (goes_on last_page_guarded src) [1..<k] \<longrightarrow>
        map_option exit_status (main_partylist fuel cfg src pb) = Some 1
        \<and> map_option summary (main_partylist fuel cfg src pb) = Some None)
     \<and> (\<forall>k. fst (authenticate cfg pb) = Inr () \<and> 1 \<le> k \<and> k \<le> fuel \<and> ends_at last_page_guarded src k
          \<and> list_all (goes_on last_page_guarded src) [1..<k] \<longrightarrow>
        (\<exists>out. main_partylist fuel cfg src pb = Some out
           \<and> exit_status out = 0 \<and> summary out = Some (foldl tally stats4 (verdicts out))))
     \<and> (fst (authenticate cfg pb) \<noteq> Inr () \<longrightarrow>
        map_option exit_status (main_candidates fuel cfg src pb) = Some 1)
     \<and> (fst (authenticate cfg pb) = Inr () \<and> (\<exists>msg. src 1 = Inl msg) \<longrightarrow>
        map_option exit_status (main_candidates (Suc fuel) cfg src pb) = Some 1)
     \<and> (fst (authenticate cfg pb) = Inr () \<and> (\<forall>q. \<exists>resp. src q = Inr resp) \<longrightarrow>
        (\<forall>out. main_candidates fuel cfg src pb = Some out \<longrightarrow> exit_status out = 0 \<and> summary out \<noteq> None))
     \<and> (\<forall>out. main_candidates fuel cfg src pb = Some out \<and> exit_status out \<noteq> 0 \<longrightarrow>
        exit_status out = 1
        \<and> (fst (authenticate cfg pb) \<noteq> Inr () \<or> (\<exists>q msg. src q = Inl msg)))
     \<and> (\<forall>k msg. fst (authenticate cfg pb) = Inr () \<and> 1 \<le> k \<and> k \<le> fuel \<and> src k = Inl msg
          \<and> list_all (goes_on last_page_plain src) [1..<k] \<longrightarrow>
        map_option exit_status (main_candidates fuel cfg src pb) = Some 1
        \<and> map_option summary (main_candidates fuel cfg src pb) = Some None)
     \<and> (\<forall>k. fst (authenticate cfg pb) = Inr () \<and> 1 \<le> k \<and> k \<le> fuel \<and> ends_at last_page_plain src k
          \<and> list_all (goes_on last_page_plain src) [1..<k] \<longrightarrow>
        (\<exists>out. main_candidates fuel cfg src pb = Some out
           \<and> exit_status out = 0 \<and> summary out = Some (foldl tally stats4 (verdicts out))))
     \<and> (fst (authenticate cfg pb) \<noteq> Inr () \<longrightarrow>
        map_option exit_status (main_areas fuel cfg src pb) = Some 1)
     \<and> (fst (authenticate cfg pb) = Inr () \<and> (\<exists>msg. src 1 = Inl msg) \<longrightarrow>
        map_option exit_status (main_areas (Suc fuel) cfg src pb) = Some 1)
     \<and> (fst (authenticate cfg pb) = Inr () \<and> (\<forall>q. \<exists>resp. src q = Inr resp) \<longrightarrow>
        (\<forall>out. main_areas fuel cfg src pb = Some out \<longrightarrow> exit_status out = 0 \<and> summary out \<noteq> None))
     \<and> (\<forall>out. main_areas fuel cfg src pb = Some out \<and> exit_status out \<noteq> 0 \<longrightarrow>
        exit_status out = 1
        \<and> (fst (authenticate cfg pb) \<noteq> Inr () \<or> (\<exists>q msg. src q = Inl msg)))
     \<and> (\<forall>k msg. fst (authenticate cfg pb) = Inr () \<and> 1 \<le> k \<and> k \<le> fuel \<and> src k = Inl msg
          \<and> list_all (goes_on last_page_plain src) [1..<k] \<longrightarrow>
        map_option exit_status (main_areas fuel cfg src pb) = Some 1
        \<and> map_option summary (main_areas fuel cfg src pb) = Some None)
     \<and> (\<forall>k. fst (authenticate cfg pb) = Inr () \<and> 1 \<le> k \<and> k \<le> fuel \<and> ends_at last_page_plain src k
          \<and> list_all (goes_on last_page_plain src) [1..<k] \<longrightarrow>
        (\<exists>out. main_areas fuel cfg src pb = Some out
           \<and> exit_status out = 0 \<and> summary out = Some (foldl tally stats4 (verdicts out))))
     \<and> (fst (authenticate cfg pb) \<noteq> Inr () \<longrightarrow>
        map_option exit_status (main_profile fuel cfg src pb) = Some 1)
     \<and> (fst (authenticate cfg pb) = Inr () \<and> (\<exists>msg. src 1 = Inl msg) \<longrightarrow>
        map_option exit_status (main_profile (Suc fuel) cfg src pb) = Some 1)
     \<and> (fst (authenticate cfg pb) = Inr () \<and> (\<forall>q. \<exists>resp. src q = Inr resp) \<longrightarrow>
        (\<forall>out. main_profile fuel cfg src pb = Some out \<longrightarrow> exit_status out = 0 \<and> summary out \<noteq> None))
     \<and> (\<forall>out. main_profile fuel cfg src pb = Some out \<and> exit_status out \<noteq> 0 \<longrightarrow>
        exit_status out = 1
        \<and> (fst (authenticate cfg pb) \<noteq> Inr () \<or> (\<exists>q msg. src q = Inl msg)))
     \<and> (\<forall>k msg. fst (authenticate cfg pb) = Inr () \<and> 1 \<le> k \<and> k \<le> fuel \<and> src k = Inl msg
          \<and> list_all (goes_on last_page_guarded src) [1..<k] \<longrightarrow>
        map_option exit_status (main_profile fuel cfg src pb) = Some 1
        \<and> map_option summary (main_profile fuel cfg src pb) = Some None)
     \<and> (\<forall>k. fst (authenticate cfg pb) = Inr () \<and> 1 \<le> k \<and> k \<le> fuel \<and> ends_at last_page_guarded src k
          \<and> list_all (goes_on last_page_guarded src) [1..<k] \<longrightarrow>
        (\<exists>out. main_profile fuel cfg src pb = Some out
           \<and> exit_status out = 0 \<and> summary out = Some (foldl tally stats4 (verdicts out))))
     \<and> (fst (authenticate cfg pb) \<noteq> Inr () \<longrightarrow>
        map_option exit_status (main_score fuel cfg src pb) = Some 1)
     \<and> (fst (authenticate cfg pb) = Inr () \<and> (\<exists>msg. src 1 = Inl msg) \<longrightarrow>
        map_option exit_status (main_score (Suc fuel) cfg src pb) = Some 1)
     \<and> (fst (authenticate cfg pb) = Inr () \<and> (\<forall>q. \<exists>resp. src q = Inr resp) \<longrightarrow>
        (\<forall>out. main_score fuel cfg src pb = Some out \<longrightarrow> exit_status out = 0 \<and> summary out \<noteq> None))
     \<and> (\<forall>out. main_score fuel cfg src pb = Some out \<and> exit_status out \<noteq> 0 \<longrightarrow>
        exit_status out = 1
        \<and> (fst (authenticate cfg pb) \<noteq> Inr () \<or> (\<exists>q msg. src q = Inl msg)))
     \<and> (\<forall>k msg. fst (authenticate cfg pb) = Inr () \<and> 1 \<le> k \<and> k \<le> fuel \<and> src k = Inl msg
          \<and> list_all (goes_on last_page_plain src) [1..<k] \<longrightarrow>
        map_option exit_status (main_score fuel cfg src pb) = Some 1
        \<and> map_option summary (main_score fuel cfg src pb) = Some None)
     \<and> (\<forall>k. fst (authenticate cfg pb) = Inr () \<and> 1 \<le> k \<and> k \<le> fuel \<and> ends_at last_page_plain src k
          \<and> list_all (goes_on last_page_plain src) [1..<k] \<longrightarrow>
        (\<exists>out. main_score fuel cfg src pb = Some out
           \<and> exit_status out = 0 \<and> summary out = Some (foldl tally stats4 (verdicts out))))
     \<and> exit_status (main_parties cfg lsrc pb)
        = (if fst (authenticate cfg pb) = Inr () \<and> (\<exists>resp. lsrc = Inr resp) then 0 else 1)
     \<and> exit_status (main_results env cfg lsrc pb)
        = (if fst (authenticate cfg pb) = Inr () \<and> (\<exists>resp. lsrc = Inr resp) then 0 else 1)
     \<and> exit_status (main_provinces cfg lsrc pb)
        = (if fst (authenticate cfg pb) = Inr () \<and> (\<exists>resp. lsrc = Inr resp) then 0 else 1)
     \<and> exit_status (main_referendum cfg lsrc pb) = 0
     \<and> fst (main_national cfg nsrc pb) = 0
     \<and> exit_status (main_province_statistics cfg lsrc pb) = 0
     \<and> exit_status (main_national_parties cfg lsrc pb) = 0"
  unfolding paginated_mains main_parties_def main_results_def main_provinces_def
    main_province_statistics_def main_national_parties_def
  by (intro conjI)
     (rule paginated_exit_1 paginated_exit_2 paginated_exit_3 paginated_exit_4 paginated_exit_5
        paginated_exit_6 main_list_exit main_list_exit_0 main_referendum_exit main_national_exit)+

theorem exit_status_counterexample:
  "fst (authenticate credentials (client no_records auth_rejected))
     = Inl (Error ''Authentication Failed: Invalid login credentials.'')
   \<and> exit_status (main_referendum credentials questions (client no_records auth_rejected)) = 0
   \<and> exit_status (main_referendum credentials questions (client no_records auth_rejected)) \<noteq> 1
   \<and> fetchData_national (Inl ''timeout'') = Inl (Error ''Fetch Failed: timeout'')
   \<and> fst (main_national credentials (Inl ''timeout'') (client no_records no_fault)) = 0"
  by (simp add: main_referendum_def main_national_def fetchData_national_def store_defs
      client_def auth_rejected_def no_fault_def credentials_def)

theorem exit_status_by_script_witness:
  "map_option exit_status (main_partylist 5 credentials one_page (client with_parties auth_rejected))
     = Some 1
   \<and> map_option exit_status (main_partylist 5 credentials offline (client with_parties no_fault))
     = Some 1
   \<and> map_option exit_status
        (main_partylist 5 credentials one_page (client with_parties lookups_rejected)) = Some 0
   \<and> map_option verdicts
        (main_partylist 5 credentials one_page (client with_parties lookups_rejected)) = Some [Failed]
   \<and> exit_status (main_parties credentials (Inl ''timeout'') (client with_parties no_fault)) = 1
   \<and> exit_status (main_referendum credentials questions (client no_records no_fault)) = 0
   \<and> map_option exit_status (main_partylist 2 credentials zero_total (client with_parties no_fault))
     = Some 1
   \<and> (\<exists>out. main_partylist 5 credentials one_page (client with_parties no_fault) = Some out
         \<and> exit_status out = 0 \<and> summary out = Some (foldl tally stats4 (verdicts out)))"
proof -
  let ?pr = "client with_parties auth_rejected"
  let ?pb = "client with_parties no_fault"
  let ?pl = "client with_parties lookups_rejected"
  have ar: "fst (authenticate credentials ?pr) \<noteq> Inr ()"
    by (simp add: store_defs client_def auth_rejected_def credentials_def)
  have ab: "fst (authenticate credentials ?pb) = Inr ()"
    by (simp add: store_defs client_def no_fault_def credentials_def)
  have al: "fst (authenticate credentials ?pl) = Inr ()"
    by (simp add: store_defs client_def lookups_rejected_def credentials_def)
  have off: "\<exists>msg. offline 1 = Inl msg" by (simp add: offline_def)
  have pages: "\<forall>q. \<exists>resp. one_page q = Inr resp" by (simp add: one_page_def)
  have nofetch: "\<not> (\<exists>resp. (Inl ''timeout'' :: string + response) = Inr resp)" by simp
  have run: "\<exists>out. main_partylist 5 credentials one_page ?pl = Some out \<and> verdicts out = [Failed]"
    by (simp add: main_partylist_def main_paginated_def store_defs client_def lookups_rejected_def
        credentials_def eval_nat_numeral fetchPage_def one_page_def or_empty_def
        syncItem_partylist_def getPartyId_def with_parties_def list_member_def jget_def
        opt_member_def last_page_guarded_def)
  note t1 = exit_status_by_script [where cfg = credentials and pb = "?pr" and fuel = 5 and src = one_page]
  note t2 = exit_status_by_script [where cfg = credentials and pb = "?pb" and fuel = 4 and src = offline
      and lsrc = "Inl ''timeout''"]
  note t3 = exit_status_by_script [where cfg = credentials and pb = "?pl" and fuel = 5 and src = one_page]
  note t4 = exit_status_by_script [where cfg = credentials and pb = "client no_records no_fault"
      and lsrc = questions]
  have 1: "map_option exit_status (main_partylist 5 credentials one_page ?pr) = Some 1"
    using t1 ar by simp
  have 2: "map_option exit_status (main_partylist (Suc 4) credentials offline ?pb) = Some 1"
    using t2 ab off by simp
  from run obtain out where out: "main_partylist 5 credentials one_page ?pl = Some out"
    and vs: "verdicts out = [Failed]" by blast
  have "exit_status out = 0" using t3 al pages out by simp
  with out vs have 3: "map_option exit_status (main_partylist 5 credentials one_page ?pl) = Some 0"
    and 4: "map_option verdicts (main_partylist 5 credentials one_page ?pl) = Some [Failed]"
    by simp_all
  have 5: "exit_status (main_parties credentials (Inl ''timeout'') ?pb) = 1"
    using t2 nofetch by simp
  have 6: "exit_status (main_referendum credentials questions (client no_records no_fault)) = 0"
    using t4 by simp
  have z: "fst (authenticate credentials ?pb) = Inr () \<and> (1::nat) \<le> 2 \<and> (2::nat) \<le> 2
      \<and> zero_total 2 = Inl ''no such page''
      \<and> list_all (goes_on last_page_guarded zero_total) [1..<2]"
    using ab by (simp add: zero_total_def goes_on_def or_empty_def last_page_guarded_def upt_rec)
  note t5 = exit_status_by_script [where cfg = credentials and pb = "?pb" and fuel = 2 and src = zero_total]
  have 7: "map_option exit_status (main_partylist 2 credentials zero_total ?pb) = Some 1"
    using t5 [THEN conjunct2, THEN conjunct2, THEN conjunct2, THEN conjunct2, THEN conjunct1,
        THEN spec, THEN spec, THEN mp, OF z] by simp
  have o: "fst (authenticate credentials ?pb) = Inr () \<and> (1::nat) \<le> 1 \<and> (1::nat) \<le> 5
      \<and> ends_at last_page_guarded one_page 1
      \<and> list_all (goes_on last_page_guarded one_page) [1..<1]"
    using ab by (simp add: one_page_def ends_at_def or_empty_def last_page_guarded_def)
  note t6 = exit_status_by_script [where cfg = credentials and pb = "?pb" and fuel = 5 and src = one_page]
  have 8: "\<exists>out. main_partylist 5 credentials one_page ?pb = Some out
         \<and> exit_status out = 0 \<and> summary out = Some (foldl tally stats4 (verdicts out))"
    by (rule t6 [THEN conjunct2, THEN conjunct2, THEN conjunct2, THEN conjunct2, THEN conjunct2,
        THEN conjunct1, THEN spec, THEN mp, OF o])
  have s: "Suc 4 = 5" by simp
  from 1 2 3 4 5 6 7 8 show ?thesis unfolding s by (intro conjI)
qed

lemma length_string_of_nat: "0 < length (string_of_nat n)"
  by (induction n rule: string_of_nat.induct) (subst string_of_nat.simps, simp)

lemma digit_char_inj: "a < 10 \<Longrightarrow> b < 10 \<Longrightarrow> digit_char a = digit_char b \<Longrightarrow> a = b"
  by (simp add: char_of_eq_iff take_bit_eq_mod)

lemma string_of_nat_inj: "string_of_nat n = string_of_nat m \<Longrightarrow> n = m"
proof (induction n arbitrary: m rule: string_of_nat.induct)
  case (1 n)
  show ?case
  proof (cases "n < 10")
    case n: True
    show ?thesis
    proof (cases "m < 10")
      case True
      with n "1.prems" show ?thesis
        by (auto simp: string_of_nat.simps [of n] string_of_nat.simps [of m]
            simp del: digit_char.simps dest: digit_char_inj)
    next
      case False
      with n "1.prems" length_string_of_nat [of "m div 10"] show ?thesis
        by (simp add: string_of_nat.simps [of n] string_of_nat.simps [of m] del: digit_char.simps)
    qed
  next
    case n: False
    show ?thesis
    proof (cases "m < 10")
      case True
      with n "1.prems" length_string_of_nat [of "n div 10"] show ?thesis
        by (simp add: string_of_nat.simps [of n] string_of_nat.simps [of m] del: digit_char.simps)
    next
      case False
      with n "1.prems" have e: "string_of_nat (n div 10) = string_of_nat (m div 10)"
        and d: "digit_char (n mod 10) = digit_char (m mod 10)"
        by (simp_all add: string_of_nat.simps [of n] string_of_nat.simps [of m] del: digit_char.simps)
      from "1.IH" [OF n e] have "n div 10 = m div 10" .
      moreover from d have "n mod 10 = m mod 10" by (intro digit_char_inj) simp_all
      ultimately show ?thesis by (metis div_mult_mod_eq)
    qed
  qed
qed

lemma mk_id_inj: "mk_id n = mk_id m \<Longrightarrow> n = m"
  by (simp add: mk_id_def string_of_nat_inj)

lemma update_first_map:
  "distinct (map (\<lambda>r. jget r ''id'') rs) \<Longrightarrow> distinct (map fst body) \<Longrightarrow> ''id'' \<notin> fst ` set body \<Longrightarrow>
     update_first rid (json_body body) rs
       = map (\<lambda>r. if jget r ''id'' = rid then assign r (json_body body) else r) rs"
proof (induction rs)
  case Nil
  then show ?case by simp
next
  case (Cons r rs)
  show ?case
  proof (cases "jget r ''id'' = rid")
    case True
    with Cons.prems(1) have "rid \<notin> (\<lambda>r. jget r ''id'') ` set rs" by simp
    then have "\<forall>x\<in>set rs. jget x ''id'' \<noteq> rid" by (auto simp: image_iff)
    then have "map (\<lambda>r. if jget r ''id'' = rid then assign r (json_body body) else r) rs = rs"
      by (induction rs) auto
    with True show ?thesis by simp
  next
    case False
    with Cons show ?thesis by simp
  qed
qed

lemma ids_update_first:
  "distinct (map fst body) \<Longrightarrow> ''id'' \<notin> fst ` set body \<Longrightarrow>
     map (\<lambda>r. jget r ''id'') (update_first rid (json_body body) rs) = map (\<lambda>r. jget r ''id'') rs"
  by (induction rs) (auto simp: jget_assign_json)

lemma find_map_same:
  "(\<And>r. r \<in> set rs \<Longrightarrow> Q (g r) = Q r) \<Longrightarrow> find Q (map g rs) = map_option g (find Q rs)"
  by (induction rs) auto

lemma scalar_not_changed: "scalar v \<Longrightarrow> \<not> strict_neq v v"
  by (cases v) simp_all

lemma jget_defined_key: "jget P f \<noteq> JUndefined \<Longrightarrow> f \<in> fst ` set P"
proof (cases "map_of P f")
  case None
  moreover assume "jget P f \<noteq> JUndefined"
  ultimately show ?thesis by (simp add: jget_def)
next
  case (Some v)
  then have "(f, v) \<in> set P" by (rule map_of_SomeD)
  then show ?thesis by force
qed

lemma find_append_found: "find Q xs = Some x \<Longrightarrow> find Q (xs @ ys) = Some x"
  by (induction xs) (auto split: if_splits)

lemma find_append_none: "find Q xs = None \<Longrightarrow> find Q (xs @ ys) = find Q ys"
  by (induction xs) (auto split: if_splits)

lemma distinct_ids_eq:
  "distinct (map (\<lambda>r. jget r ''id'') rs) \<Longrightarrow> r \<in> set rs \<Longrightarrow> e \<in> set rs \<Longrightarrow>
     jget r ''id'' = jget e ''id'' \<Longrightarrow> r = e"
  by (metis distinct_map inj_on_def)

lemma ids_fresh_request [simp]: "ids_fresh (request pb c) coll = ids_fresh pb coll"
  by (simp add: ids_fresh_def)


lemma keyed_field:
  assumes "keyed flt kf t fs P cr" "f \<in> set fs"
  shows "scalar (jget P f)" "f \<in> fst ` set P" "f \<noteq> ''id''" "jget P f \<noteq> JUndefined"
proof -
  from assms show s: "scalar (jget P f)" by (auto simp: keyed_def scalars_def list_all_iff)
  then show d: "jget P f \<noteq> JUndefined" by auto
  then show m: "f \<in> fst ` set P" by (rule jget_defined_key)
  from assms(1) have "''id'' \<notin> fst ` set P" by (simp add: keyed_def)
  with m show "f \<noteq> ''id''" by blast
qed

lemma not_changed_created:
  assumes wk: "keyed flt kf t fs P cr"
  shows "\<not> isChanged fs ((''id'', i) # json_body P) P"
proof -
  have "\<And>f. f \<in> set fs \<Longrightarrow> \<not> strict_neq (jget ((''id'', i) # json_body P) f) (jget P f)"
  proof -
    fix f assume f: "f \<in> set fs"
    from wk have d: "distinct (map fst P)" by (simp add: keyed_def)
    from jget_created [OF keyed_field(3) [OF wk f] d]
    have "jget ((''id'', i) # json_body P) f = jget P f" .
    with keyed_field(1) [OF wk f] show "\<not> strict_neq (jget ((''id'', i) # json_body P) f) (jget P f)"
      by (simp add: scalar_not_changed)
  qed
  then show ?thesis by (auto simp: isChanged_def list_ex_iff)
qed

lemma not_changed_assigned:
  assumes wk: "keyed flt kf t fs P cr"
  shows "\<not> isChanged fs (assign e (json_body P)) P"
proof -
  have "\<And>f. f \<in> set fs \<Longrightarrow> \<not> strict_neq (jget (assign e (json_body P)) f) (jget P f)"
  proof -
    fix f assume f: "f \<in> set fs"
    from wk have d: "distinct (map fst P)" by (simp add: keyed_def)
    have "jget (assign e (json_body P)) f = jget P f"
      using keyed_field(2,4) [OF wk f] by (simp add: jget_assign_json [OF d])
    with keyed_field(1) [OF wk f] show "\<not> strict_neq (jget (assign e (json_body P)) f) (jget P f)"
      by (simp add: scalar_not_changed)
  qed
  then show ?thesis by (auto simp: isChanged_def list_ex_iff)
qed

lemma key_assigned:
  assumes wk: "keyed flt kf t fs P cr" and e: "field_text (jget e kf) = Some t"
  shows "field_text (jget (assign e (json_body P)) kf) = Some t"
proof -
  from wk have d: "distinct (map fst P)" by (simp add: keyed_def)
  show ?thesis
  proof (cases "kf \<in> fst ` set P")
    case True
    with wk have k: "field_text (jget P kf) = Some t" by (simp add: keyed_def)
    then have "jget P kf \<noteq> JUndefined" by auto
    with True k show ?thesis by (simp add: jget_assign_json [OF d])
  next
    case False
    with e show ?thesis by (simp add: jget_assign_json [OF d])
  qed
qed

lemma lookup_parsed:
  "parse_filter flt = Some (kf, t) \<Longrightarrow>
     lookup C flt =
       (case find (\<lambda>r. field_text (jget r kf) = Some t) C of
          None \<Rightarrow> Inl (PbErr 404 ''The requested resource wasn't found.'')
        | Some r \<Rightarrow> Inr r)"
  by (simp add: lookup_def)

text \<open>The outcomes of the template on a store without failures.\<close>

lemma settled_after_create:
  assumes wk: "keyed flt kf t fs P True"
    and nf: "find (\<lambda>r. field_text (jget r kf) = Some t) C = None"
  shows "settled (C @ [(''id'', i) # json_body P]) flt fs P True"
proof -
  from wk have d: "distinct (map fst P)" and kid: "kf \<noteq> ''id''"
    and pf: "parse_filter flt = Some (kf, t)" and kP: "field_text (jget P kf) = Some t"
    by (auto simp: keyed_def split: if_splits)
  have "field_text (jget ((''id'', i) # json_body P) kf) = Some t"
    using jget_created [OF kid d, of i] kP by simp
  then have "find (\<lambda>r. field_text (jget r kf) = Some t) (C @ [(''id'', i) # json_body P])
      = Some ((''id'', i) # json_body P)"
    by (simp add: find_append_none [OF nf])
  then show ?thesis by (simp add: settled_def lookup_parsed [OF pf] not_changed_created [OF wk])
qed

lemma settled_kept_create:
  "settled C flt2 fs P2 True \<Longrightarrow> settled (C @ rs) flt2 fs P2 True"
  by (auto simp: settled_def lookup_def find_append_found split: option.splits sum.splits)

lemma find_after_update:
  assumes wk: "keyed flt kf t fs P cr"
    and ds: "distinct (map (\<lambda>r. jget r ''id'') C)"
    and e: "find (\<lambda>r. field_text (jget r kf) = Some t) C = Some e"
  shows "find (\<lambda>r. field_text (jget r kf) = Some t2) (update_first (jget e ''id'') (json_body P) C)
     = map_option (\<lambda>r. if jget r ''id'' = jget e ''id'' then assign r (json_body P) else r)
         (find (\<lambda>r. field_text (jget r kf) = Some t2) C)"
proof -
  from wk have d: "distinct (map fst P)" and i: "''id'' \<notin> fst ` set P"
    by (simp_all add: keyed_def)
  from e have eC: "e \<in> set C" and ek: "field_text (jget e kf) = Some t" by (auto simp: find_Some_iff)
  let ?g = "\<lambda>r. if jget r ''id'' = jget e ''id'' then assign r (json_body P) else r"
  have same: "\<And>r. r \<in> set C \<Longrightarrow>
      (field_text (jget (?g r) kf) = Some t2) = (field_text (jget r kf) = Some t2)"
  proof -
    fix r assume r: "r \<in> set C"
    show "(field_text (jget (?g r) kf) = Some t2) = (field_text (jget r kf) = Some t2)"
    proof (cases "jget r ''id'' = jget e ''id''")
      case True
      with distinct_ids_eq [OF ds r eC] have "r = e" by simp
      with True ek key_assigned [OF wk ek] show ?thesis by simp
    next
      case False
      then show ?thesis by simp
    qed
  qed
  show ?thesis
    by (simp only: update_first_map [OF ds d i]
        find_map_same [of C "\<lambda>r. field_text (jget r kf) = Some t2" ?g, OF same])
qed

lemma settled_after_update:
  assumes wk: "keyed flt kf t fs P cr"
    and ds: "distinct (map (\<lambda>r. jget r ''id'') C)"
    and e: "find (\<lambda>r. field_text (jget r kf) = Some t) C = Some e"
  shows "settled (update_first (jget e ''id'') (json_body P) C) flt fs P cr"
proof -
  from wk have pf: "parse_filter flt = Some (kf, t)" by (simp add: keyed_def)
  show ?thesis
    by (simp add: settled_def lookup_parsed [OF pf] find_after_update [OF wk ds e] e
        not_changed_assigned [OF wk])
qed

lemma settled_kept_update:
  assumes wk: "keyed flt kf t fs P cr"
    and ds: "distinct (map (\<lambda>r. jget r ''id'') C)"
    and e: "find (\<lambda>r. field_text (jget r kf) = Some t) C = Some e"
    and pf2: "parse_filter flt2 = Some (kf, t2)" and ne: "t2 \<noteq> t"
    and s: "settled C flt2 fs2 P2 cr2"
  shows "settled (update_first (jget e ''id'') (json_body P) C) flt2 fs2 P2 cr2"
proof (cases "find (\<lambda>r. field_text (jget r kf) = Some t2) C")
  case None
  with s show ?thesis
    by (simp add: settled_def lookup_parsed [OF pf2] find_after_update [OF wk ds e])
next
  case (Some e2)
  then have e2C: "e2 \<in> set C" and e2k: "field_text (jget e2 kf) = Some t2"
    by (auto simp: find_Some_iff)
  from e have eC: "e \<in> set C" and ek: "field_text (jget e kf) = Some t" by (auto simp: find_Some_iff)
  from e2k ek ne have "e2 \<noteq> e" by auto
  with distinct_ids_eq [OF ds e2C eC] have "jget e2 ''id'' \<noteq> jget e ''id''" by blast
  with s Some show ?thesis
    by (simp add: settled_def lookup_parsed [OF pf2] find_after_update [OF wk ds e])
qed

lemma reconcile_step:
  assumes nf: "\<forall>c. fault pb c = None" and idf: "ids_fresh pb coll"
    and wk: "keyed flt kf t fs P cr"
    and r: "reconcile pb coll flt fs P cr = (v, pb')"
  shows "(\<forall>c. fault pb' c = None) \<and> ids_fresh pb' coll
     \<and> (\<forall>c2. c2 \<noteq> coll \<longrightarrow> colls pb' c2 = colls pb c2)
     \<and> settled (colls pb' coll) flt fs P cr
     \<and> (\<forall>flt2 t2 P2. parse_filter flt2 = Some (kf, t2) \<and> t2 \<noteq> t
            \<and> settled (colls pb coll) flt2 fs P2 cr \<longrightarrow>
           settled (colls pb' coll) flt2 fs P2 cr)
     \<and> v \<noteq> Failed"
proof -
  let ?L = "GetFirstListItem coll flt"
  let ?C = "colls pb coll"
  let ?Q = "\<lambda>r. field_text (jget r kf) = Some t"
  from wk have d: "distinct (map fst P)" and i: "''id'' \<notin> fst ` set P"
    and pf: "parse_filter flt = Some (kf, t)"
    by (simp_all add: keyed_def)
  from idf have ds: "distinct (map (\<lambda>r. jget r ''id'') ?C)"
    and fr: "\<And>r n. r \<in> set ?C \<Longrightarrow> fresh pb \<le> n \<Longrightarrow> jget r ''id'' \<noteq> mk_id n"
    by (auto simp: ids_fresh_def list_all_iff)
  from nf have nfL: "fault pb ?L = None" by simp
  show ?thesis
  proof (cases "find ?Q ?C")
    case None
    then have lk: "lookup ?C flt = Inl (PbErr 404 ''The requested resource wasn't found.'')"
      by (simp add: lookup_parsed [OF pf])
    show ?thesis
    proof (cases cr)
      case False
      from r False have v: "v = Skipped" and pb': "pb' = request pb ?L"
        by (simp_all add: reconcile_absent [OF nfL lk])
      have 4: "settled (colls pb' coll) flt fs P cr"
        using False by (simp add: pb' settled_def lk)
      from nf v idf 4 show ?thesis by (simp add: pb')
    next
      case True
      let ?new = "(''id'', mk_id (fresh pb)) # json_body P"
      from r nf True have v: "v = Created"
        and pb': "pb' = (request (request pb ?L) (Create coll P))
            \<lparr>colls := (colls pb)(coll := ?C @ [?new]), fresh := Suc (fresh pb)\<rparr>"
        by (simp_all add: reconcile_absent [OF nfL lk] try_create_ok)
      have idn: "jget ?new ''id'' = mk_id (fresh pb)" by (simp add: jget_def)
      have "mk_id (fresh pb) \<notin> (\<lambda>r. jget r ''id'') ` set ?C" using fr by force
      with ds idn have ds': "distinct (map (\<lambda>r. jget r ''id'') (?C @ [?new]))" by simp
      have fr': "\<And>r n. r \<in> set (?C @ [?new]) \<Longrightarrow> Suc (fresh pb) \<le> n \<Longrightarrow> jget r ''id'' \<noteq> mk_id n"
      proof -
        fix r n assume rr: "r \<in> set (?C @ [?new])" and n: "Suc (fresh pb) \<le> n"
        show "jget r ''id'' \<noteq> mk_id n"
        proof (cases "r = ?new")
          case True
          with idn n show ?thesis using mk_id_inj [of "fresh pb" n] by auto
        next
          case False
          with rr have "r \<in> set ?C" by simp
          with fr [of r n] n show ?thesis by simp
        qed
      qed
      have 2: "ids_fresh pb' coll"
        using ds' fr' by (simp add: pb' ids_fresh_def list_all_iff del: set_append)
      from wk True have wkT: "keyed flt kf t fs P True" by simp
      have 4: "settled (colls pb' coll) flt fs P cr"
        using settled_after_create [OF wkT None] True by (simp add: pb')
      have 5: "\<forall>flt2 t2 P2. parse_filter flt2 = Some (kf, t2) \<and> t2 \<noteq> t
            \<and> settled ?C flt2 fs P2 cr \<longrightarrow> settled (colls pb' coll) flt2 fs P2 cr"
        using True by (simp add: pb' settled_kept_create)
      from nf v 2 4 5 show ?thesis by (simp add: pb')
    qed
  next
    case (Some e)
    then have lk: "lookup ?C flt = Inr e" by (simp add: lookup_parsed [OF pf])
    show ?thesis
    proof (cases "isChanged fs e P")
      case True
      from nf have nfU: "fault pb (Update coll (jget e ''id'') P) = None" by simp
      from r have v: "v = Updated"
        and pb': "pb' = (request (request pb ?L) (Update coll (jget e ''id'') P))
            \<lparr>colls := (colls pb)(coll := update_first (jget e ''id'') (json_body P) ?C)\<rparr>"
        by (simp_all add: reconcile_updated [OF nfL lk True nfU])
      let ?U = "update_first (jget e ''id'') (json_body P) ?C"
      have idm: "map (\<lambda>r. jget r ''id'') ?U = map (\<lambda>r. jget r ''id'') ?C"
        by (rule ids_update_first [OF d i])
      have fru: "\<And>r n. r \<in> set ?U \<Longrightarrow> fresh pb \<le> n \<Longrightarrow> jget r ''id'' \<noteq> mk_id n"
      proof -
        fix r n assume rr: "r \<in> set ?U" and n: "fresh pb \<le> n"
        from rr have "jget r ''id'' \<in> set (map (\<lambda>r. jget r ''id'') ?U)" by simp
        then have "jget r ''id'' \<in> set (map (\<lambda>r. jget r ''id'') ?C)" by (simp only: idm)
        then obtain r' where "r' \<in> set ?C" "jget r' ''id'' = jget r ''id''" by auto
        with fr [of r' n] n show "jget r ''id'' \<noteq> mk_id n" by simp
      qed
      have 2: "ids_fresh pb' coll"
        using ds fru by (simp add: pb' ids_fresh_def list_all_iff idm)
      have 4: "settled (colls pb' coll) flt fs P cr"
        using settled_after_update [OF wk ds Some] by (simp add: pb')
      have 5: "\<forall>flt2 t2 P2. parse_filter flt2 = Some (kf, t2) \<and> t2 \<noteq> t
            \<and> settled ?C flt2 fs P2 cr \<longrightarrow> settled (colls pb' coll) flt2 fs P2 cr"
        using settled_kept_update [OF wk ds Some] by (simp add: pb')
      from nf v 2 4 5 show ?thesis by (simp add: pb')
    next
      case False
      from r have v: "v = Skipped" and pb': "pb' = request pb ?L"
        by (simp_all add: reconcile_unchanged [OF nfL lk False])
      have 4: "settled (colls pb' coll) flt fs P cr"
        using False by (simp add: pb' settled_def lk)
      from nf v idf 4 show ?thesis by (simp add: pb')
    qed
  qed
qed

lemma reconcile_settled:
  assumes nf: "\<forall>c. fault pb c = None" and s: "settled (colls pb coll) flt fs P cr"
  shows "reconcile pb coll flt fs P cr = (Skipped, request pb (GetFirstListItem coll flt))"
proof (cases "lookup (colls pb coll) flt")
  case (Inl err)
  with s have "status err = 404" "\<not> cr" by (simp_all add: settled_def)
  with nf Inl show ?thesis by (simp add: reconcile_absent)
next
  case (Inr e)
  with s have "\<not> isChanged fs e P" by (simp add: settled_def)
  with nf Inr show ?thesis by (simp add: reconcile_unchanged)
qed

end
